theory Spec2Isabelle
  imports Main "HOL-Library.Word" "HOL-Library.Monad_Syntax"
begin

unbundle bit_operations_syntax

section \<open>The bcm2835 V4L2 codec driver: data model\<close>

text \<open>
  A shallow embedding of the format negotiation and buffer exchange code of
  \<^verbatim>\<open>bcm2835-v4l2-codec.c\<close>.  The C types \<^verbatim>\<open>int\<close>, \<^verbatim>\<open>unsigned int\<close>,
  \<^verbatim>\<open>u32\<close> and \<^verbatim>\<open>s32\<close> are 32-bit words: \<open>+\<close> and \<open>*\<close> wrap around (the kernel is
  built with wrapping signed arithmetic), a right shift of an \<^verbatim>\<open>int\<close> is the
  arithmetic shift \<open>signed_drop_bit\<close>, a comparison of two \<^verbatim>\<open>int\<close> values is
  the signed order \<open><s\<close>, and a comparison of two \<^verbatim>\<open>unsigned int\<close> values is the
  order of the words.  Return codes are integers.
\<close>

type_synonym u8 = "8 word"
type_synonym u32 = "32 word"
type_synonym s32 = "32 word"
type_synonym u64 = "64 word"

subsection \<open>Constants and macros of the kernel headers\<close>

text \<open>
  The macros and constants below are declared in kernel headers
  (\<^verbatim>\<open>linux/kernel.h\<close>, \<^verbatim>\<open>uapi/linux/videodev2.h\<close>, \<^verbatim>\<open>uapi/linux/errno.h\<close>,
  \<^verbatim>\<open>vchiq-mmal/mmal-*.h\<close>) that the driver includes; they carry the values of
  those headers.
\<close>

text \<open>Modelled from the spec: the \<^verbatim>\<open>ALIGN\<close> macro of \<^verbatim>\<open>linux/kernel.h\<close> is not
  part of the driver file.  It rounds \<open>x\<close> up to a multiple of \<open>a\<close> (the spec's
  \<open>align\<close> and \<open>alignUp\<close>) in the kernel's mask form
  \<^verbatim>\<open>((x) + ((typeof(x))(a) - 1)) & ~((typeof(x))(a) - 1)\<close>.\<close>

definition ALIGN :: "u32 \<Rightarrow> u32 \<Rightarrow> u32" where
  "ALIGN x a = (x + (a - 1)) AND NOT (a - 1)"

definition v4l2_fourcc :: "char \<Rightarrow> char \<Rightarrow> char \<Rightarrow> char \<Rightarrow> u32" where
  "v4l2_fourcc a b c d =
     of_char a OR push_bit 8 (of_char b) OR push_bit 16 (of_char c) OR push_bit 24 (of_char d)"

definition MMAL_FOURCC :: "char \<Rightarrow> char \<Rightarrow> char \<Rightarrow> char \<Rightarrow> u32" where
  "MMAL_FOURCC a b c d =
     of_char a OR push_bit 8 (of_char b) OR push_bit 16 (of_char c) OR push_bit 24 (of_char d)"

definition V4L2_FMT_FLAG_COMPRESSED :: u32 where
  "V4L2_FMT_FLAG_COMPRESSED = 0x0001"

definition EINVAL :: int where
  "EINVAL = 22"

definition EBUSY :: int where
  "EBUSY = 16"

definition V4L2_PIX_FMT_YUV420 :: u32 where
  "V4L2_PIX_FMT_YUV420 = v4l2_fourcc (CHR ''Y'') (CHR ''U'') (CHR ''1'') (CHR ''2'')"

definition V4L2_PIX_FMT_YVU420 :: u32 where
  "V4L2_PIX_FMT_YVU420 = v4l2_fourcc (CHR ''Y'') (CHR ''V'') (CHR ''1'') (CHR ''2'')"

definition V4L2_PIX_FMT_NV12 :: u32 where
  "V4L2_PIX_FMT_NV12 = v4l2_fourcc (CHR ''N'') (CHR ''V'') (CHR ''1'') (CHR ''2'')"

definition V4L2_PIX_FMT_NV21 :: u32 where
  "V4L2_PIX_FMT_NV21 = v4l2_fourcc (CHR ''N'') (CHR ''V'') (CHR ''2'') (CHR ''1'')"

definition V4L2_PIX_FMT_RGB565 :: u32 where
  "V4L2_PIX_FMT_RGB565 = v4l2_fourcc (CHR ''R'') (CHR ''G'') (CHR ''B'') (CHR ''P'')"

definition V4L2_PIX_FMT_YUYV :: u32 where
  "V4L2_PIX_FMT_YUYV = v4l2_fourcc (CHR ''Y'') (CHR ''U'') (CHR ''Y'') (CHR ''V'')"

definition V4L2_PIX_FMT_UYVY :: u32 where
  "V4L2_PIX_FMT_UYVY = v4l2_fourcc (CHR ''U'') (CHR ''Y'') (CHR ''V'') (CHR ''Y'')"

definition V4L2_PIX_FMT_YVYU :: u32 where
  "V4L2_PIX_FMT_YVYU = v4l2_fourcc (CHR ''Y'') (CHR ''V'') (CHR ''Y'') (CHR ''U'')"

definition V4L2_PIX_FMT_VYUY :: u32 where
  "V4L2_PIX_FMT_VYUY = v4l2_fourcc (CHR ''V'') (CHR ''Y'') (CHR ''U'') (CHR ''Y'')"

definition V4L2_PIX_FMT_NV12_COL128 :: u32 where
  "V4L2_PIX_FMT_NV12_COL128 = v4l2_fourcc (CHR ''N'') (CHR ''C'') (CHR ''1'') (CHR ''2'')"

definition V4L2_PIX_FMT_RGB24 :: u32 where
  "V4L2_PIX_FMT_RGB24 = v4l2_fourcc (CHR ''R'') (CHR ''G'') (CHR ''B'') (CHR ''3'')"

definition V4L2_PIX_FMT_BGR24 :: u32 where
  "V4L2_PIX_FMT_BGR24 = v4l2_fourcc (CHR ''B'') (CHR ''G'') (CHR ''R'') (CHR ''3'')"

definition V4L2_PIX_FMT_BGR32 :: u32 where
  "V4L2_PIX_FMT_BGR32 = v4l2_fourcc (CHR ''B'') (CHR ''G'') (CHR ''R'') (CHR ''4'')"

definition V4L2_PIX_FMT_RGBA32 :: u32 where
  "V4L2_PIX_FMT_RGBA32 = v4l2_fourcc (CHR ''A'') (CHR ''B'') (CHR ''2'') (CHR ''4'')"

definition V4L2_PIX_FMT_SRGGB8 :: u32 where
  "V4L2_PIX_FMT_SRGGB8 = v4l2_fourcc (CHR ''R'') (CHR ''G'') (CHR ''G'') (CHR ''B'')"

definition V4L2_PIX_FMT_SBGGR8 :: u32 where
  "V4L2_PIX_FMT_SBGGR8 = v4l2_fourcc (CHR ''B'') (CHR ''A'') (CHR ''8'') (CHR ''1'')"

definition V4L2_PIX_FMT_SGRBG8 :: u32 where
  "V4L2_PIX_FMT_SGRBG8 = v4l2_fourcc (CHR ''G'') (CHR ''R'') (CHR ''B'') (CHR ''G'')"

definition V4L2_PIX_FMT_SGBRG8 :: u32 where
  "V4L2_PIX_FMT_SGBRG8 = v4l2_fourcc (CHR ''G'') (CHR ''B'') (CHR ''R'') (CHR ''G'')"

definition V4L2_PIX_FMT_SRGGB10P :: u32 where
  "V4L2_PIX_FMT_SRGGB10P = v4l2_fourcc (CHR ''p'') (CHR ''R'') (CHR ''A'') (CHR ''A'')"

definition V4L2_PIX_FMT_SBGGR10P :: u32 where
  "V4L2_PIX_FMT_SBGGR10P = v4l2_fourcc (CHR ''p'') (CHR ''B'') (CHR ''A'') (CHR ''A'')"

definition V4L2_PIX_FMT_SGRBG10P :: u32 where
  "V4L2_PIX_FMT_SGRBG10P = v4l2_fourcc (CHR ''p'') (CHR ''g'') (CHR ''A'') (CHR ''A'')"

definition V4L2_PIX_FMT_SGBRG10P :: u32 where
  "V4L2_PIX_FMT_SGBRG10P = v4l2_fourcc (CHR ''p'') (CHR ''G'') (CHR ''A'') (CHR ''A'')"

definition V4L2_PIX_FMT_SRGGB12P :: u32 where
  "V4L2_PIX_FMT_SRGGB12P = v4l2_fourcc (CHR ''p'') (CHR ''R'') (CHR ''C'') (CHR ''C'')"

definition V4L2_PIX_FMT_SBGGR12P :: u32 where
  "V4L2_PIX_FMT_SBGGR12P = v4l2_fourcc (CHR ''p'') (CHR ''B'') (CHR ''C'') (CHR ''C'')"

definition V4L2_PIX_FMT_SGRBG12P :: u32 where
  "V4L2_PIX_FMT_SGRBG12P = v4l2_fourcc (CHR ''p'') (CHR ''g'') (CHR ''C'') (CHR ''C'')"

definition V4L2_PIX_FMT_SGBRG12P :: u32 where
  "V4L2_PIX_FMT_SGBRG12P = v4l2_fourcc (CHR ''p'') (CHR ''G'') (CHR ''C'') (CHR ''C'')"

definition V4L2_PIX_FMT_SRGGB14P :: u32 where
  "V4L2_PIX_FMT_SRGGB14P = v4l2_fourcc (CHR ''p'') (CHR ''R'') (CHR ''E'') (CHR ''E'')"

definition V4L2_PIX_FMT_SBGGR14P :: u32 where
  "V4L2_PIX_FMT_SBGGR14P = v4l2_fourcc (CHR ''p'') (CHR ''B'') (CHR ''E'') (CHR ''E'')"

definition V4L2_PIX_FMT_SGRBG14P :: u32 where
  "V4L2_PIX_FMT_SGRBG14P = v4l2_fourcc (CHR ''p'') (CHR ''g'') (CHR ''E'') (CHR ''E'')"

definition V4L2_PIX_FMT_SGBRG14P :: u32 where
  "V4L2_PIX_FMT_SGBRG14P = v4l2_fourcc (CHR ''p'') (CHR ''G'') (CHR ''E'') (CHR ''E'')"

definition V4L2_PIX_FMT_SRGGB16 :: u32 where
  "V4L2_PIX_FMT_SRGGB16 = v4l2_fourcc (CHR ''R'') (CHR ''G'') (CHR ''1'') (CHR ''6'')"

definition V4L2_PIX_FMT_SBGGR16 :: u32 where
  "V4L2_PIX_FMT_SBGGR16 = v4l2_fourcc (CHR ''B'') (CHR ''Y'') (CHR ''R'') (CHR ''2'')"

definition V4L2_PIX_FMT_SGRBG16 :: u32 where
  "V4L2_PIX_FMT_SGRBG16 = v4l2_fourcc (CHR ''G'') (CHR ''R'') (CHR ''1'') (CHR ''6'')"

definition V4L2_PIX_FMT_SGBRG16 :: u32 where
  "V4L2_PIX_FMT_SGBRG16 = v4l2_fourcc (CHR ''G'') (CHR ''B'') (CHR ''1'') (CHR ''6'')"

definition V4L2_PIX_FMT_SRGGB10 :: u32 where
  "V4L2_PIX_FMT_SRGGB10 = v4l2_fourcc (CHR ''R'') (CHR ''G'') (CHR ''1'') (CHR ''0'')"

definition V4L2_PIX_FMT_SBGGR10 :: u32 where
  "V4L2_PIX_FMT_SBGGR10 = v4l2_fourcc (CHR ''B'') (CHR ''G'') (CHR ''1'') (CHR ''0'')"

definition V4L2_PIX_FMT_SGRBG10 :: u32 where
  "V4L2_PIX_FMT_SGRBG10 = v4l2_fourcc (CHR ''B'') (CHR ''A'') (CHR ''1'') (CHR ''0'')"

definition V4L2_PIX_FMT_SGBRG10 :: u32 where
  "V4L2_PIX_FMT_SGBRG10 = v4l2_fourcc (CHR ''G'') (CHR ''B'') (CHR ''1'') (CHR ''0'')"

definition V4L2_PIX_FMT_SRGGB12 :: u32 where
  "V4L2_PIX_FMT_SRGGB12 = v4l2_fourcc (CHR ''R'') (CHR ''G'') (CHR ''1'') (CHR ''2'')"

definition V4L2_PIX_FMT_SBGGR12 :: u32 where
  "V4L2_PIX_FMT_SBGGR12 = v4l2_fourcc (CHR ''B'') (CHR ''G'') (CHR ''1'') (CHR ''2'')"

definition V4L2_PIX_FMT_SGRBG12 :: u32 where
  "V4L2_PIX_FMT_SGRBG12 = v4l2_fourcc (CHR ''B'') (CHR ''A'') (CHR ''1'') (CHR ''2'')"

definition V4L2_PIX_FMT_SGBRG12 :: u32 where
  "V4L2_PIX_FMT_SGBRG12 = v4l2_fourcc (CHR ''G'') (CHR ''B'') (CHR ''1'') (CHR ''2'')"

definition V4L2_PIX_FMT_SRGGB14 :: u32 where
  "V4L2_PIX_FMT_SRGGB14 = v4l2_fourcc (CHR ''R'') (CHR ''G'') (CHR ''1'') (CHR ''4'')"

definition V4L2_PIX_FMT_SBGGR14 :: u32 where
  "V4L2_PIX_FMT_SBGGR14 = v4l2_fourcc (CHR ''B'') (CHR ''G'') (CHR ''1'') (CHR ''4'')"

definition V4L2_PIX_FMT_SGRBG14 :: u32 where
  "V4L2_PIX_FMT_SGRBG14 = v4l2_fourcc (CHR ''G'') (CHR ''R'') (CHR ''1'') (CHR ''4'')"

definition V4L2_PIX_FMT_SGBRG14 :: u32 where
  "V4L2_PIX_FMT_SGBRG14 = v4l2_fourcc (CHR ''G'') (CHR ''B'') (CHR ''1'') (CHR ''4'')"

definition V4L2_PIX_FMT_GREY :: u32 where
  "V4L2_PIX_FMT_GREY = v4l2_fourcc (CHR ''G'') (CHR ''R'') (CHR ''E'') (CHR ''Y'')"

definition V4L2_PIX_FMT_Y10P :: u32 where
  "V4L2_PIX_FMT_Y10P = v4l2_fourcc (CHR ''Y'') (CHR ''1'') (CHR ''0'') (CHR ''P'')"

definition V4L2_PIX_FMT_Y12P :: u32 where
  "V4L2_PIX_FMT_Y12P = v4l2_fourcc (CHR ''Y'') (CHR ''1'') (CHR ''2'') (CHR ''P'')"

definition V4L2_PIX_FMT_Y14P :: u32 where
  "V4L2_PIX_FMT_Y14P = v4l2_fourcc (CHR ''Y'') (CHR ''1'') (CHR ''4'') (CHR ''P'')"

definition V4L2_PIX_FMT_Y16 :: u32 where
  "V4L2_PIX_FMT_Y16 = v4l2_fourcc (CHR ''Y'') (CHR ''1'') (CHR ''6'') (CHR '' '')"

definition V4L2_PIX_FMT_Y10 :: u32 where
  "V4L2_PIX_FMT_Y10 = v4l2_fourcc (CHR ''Y'') (CHR ''1'') (CHR ''0'') (CHR '' '')"

definition V4L2_PIX_FMT_Y12 :: u32 where
  "V4L2_PIX_FMT_Y12 = v4l2_fourcc (CHR ''Y'') (CHR ''1'') (CHR ''2'') (CHR '' '')"

definition V4L2_PIX_FMT_Y14 :: u32 where
  "V4L2_PIX_FMT_Y14 = v4l2_fourcc (CHR ''Y'') (CHR ''1'') (CHR ''4'') (CHR '' '')"

definition V4L2_PIX_FMT_H264 :: u32 where
  "V4L2_PIX_FMT_H264 = v4l2_fourcc (CHR ''H'') (CHR ''2'') (CHR ''6'') (CHR ''4'')"

definition V4L2_PIX_FMT_JPEG :: u32 where
  "V4L2_PIX_FMT_JPEG = v4l2_fourcc (CHR ''J'') (CHR ''P'') (CHR ''E'') (CHR ''G'')"

definition V4L2_PIX_FMT_MJPEG :: u32 where
  "V4L2_PIX_FMT_MJPEG = v4l2_fourcc (CHR ''M'') (CHR ''J'') (CHR ''P'') (CHR ''G'')"

definition V4L2_PIX_FMT_MPEG4 :: u32 where
  "V4L2_PIX_FMT_MPEG4 = v4l2_fourcc (CHR ''M'') (CHR ''P'') (CHR ''G'') (CHR ''4'')"

definition V4L2_PIX_FMT_H263 :: u32 where
  "V4L2_PIX_FMT_H263 = v4l2_fourcc (CHR ''H'') (CHR ''2'') (CHR ''6'') (CHR ''3'')"

definition V4L2_PIX_FMT_MPEG2 :: u32 where
  "V4L2_PIX_FMT_MPEG2 = v4l2_fourcc (CHR ''M'') (CHR ''P'') (CHR ''G'') (CHR ''2'')"

definition V4L2_PIX_FMT_VC1_ANNEX_G :: u32 where
  "V4L2_PIX_FMT_VC1_ANNEX_G = v4l2_fourcc (CHR ''V'') (CHR ''C'') (CHR ''1'') (CHR ''G'')"

definition MMAL_ENCODING_I420 :: u32 where
  "MMAL_ENCODING_I420 = MMAL_FOURCC (CHR ''I'') (CHR ''4'') (CHR ''2'') (CHR ''0'')"

definition MMAL_ENCODING_YV12 :: u32 where
  "MMAL_ENCODING_YV12 = MMAL_FOURCC (CHR ''Y'') (CHR ''V'') (CHR ''1'') (CHR ''2'')"

definition MMAL_ENCODING_NV12 :: u32 where
  "MMAL_ENCODING_NV12 = MMAL_FOURCC (CHR ''N'') (CHR ''V'') (CHR ''1'') (CHR ''2'')"

definition MMAL_ENCODING_NV21 :: u32 where
  "MMAL_ENCODING_NV21 = MMAL_FOURCC (CHR ''N'') (CHR ''V'') (CHR ''2'') (CHR ''1'')"

definition MMAL_ENCODING_RGB16 :: u32 where
  "MMAL_ENCODING_RGB16 = MMAL_FOURCC (CHR ''R'') (CHR ''G'') (CHR ''B'') (CHR ''2'')"

definition MMAL_ENCODING_YUYV :: u32 where
  "MMAL_ENCODING_YUYV = MMAL_FOURCC (CHR ''Y'') (CHR ''U'') (CHR ''Y'') (CHR ''V'')"

definition MMAL_ENCODING_UYVY :: u32 where
  "MMAL_ENCODING_UYVY = MMAL_FOURCC (CHR ''U'') (CHR ''Y'') (CHR ''V'') (CHR ''Y'')"

definition MMAL_ENCODING_YVYU :: u32 where
  "MMAL_ENCODING_YVYU = MMAL_FOURCC (CHR ''Y'') (CHR ''V'') (CHR ''Y'') (CHR ''U'')"

definition MMAL_ENCODING_VYUY :: u32 where
  "MMAL_ENCODING_VYUY = MMAL_FOURCC (CHR ''V'') (CHR ''Y'') (CHR ''U'') (CHR ''Y'')"

definition MMAL_ENCODING_YUVUV128 :: u32 where
  "MMAL_ENCODING_YUVUV128 = MMAL_FOURCC (CHR ''S'') (CHR ''A'') (CHR ''N'') (CHR ''D'')"

definition MMAL_ENCODING_RGB24 :: u32 where
  "MMAL_ENCODING_RGB24 = MMAL_FOURCC (CHR ''R'') (CHR ''G'') (CHR ''B'') (CHR ''3'')"

definition MMAL_ENCODING_BGR24 :: u32 where
  "MMAL_ENCODING_BGR24 = MMAL_FOURCC (CHR ''B'') (CHR ''G'') (CHR ''R'') (CHR ''3'')"

definition MMAL_ENCODING_BGRA :: u32 where
  "MMAL_ENCODING_BGRA = MMAL_FOURCC (CHR ''B'') (CHR ''G'') (CHR ''R'') (CHR ''A'')"

definition MMAL_ENCODING_RGBA :: u32 where
  "MMAL_ENCODING_RGBA = MMAL_FOURCC (CHR ''R'') (CHR ''G'') (CHR ''B'') (CHR ''A'')"

definition MMAL_ENCODING_BAYER_SRGGB8 :: u32 where
  "MMAL_ENCODING_BAYER_SRGGB8 = MMAL_FOURCC (CHR ''R'') (CHR ''G'') (CHR ''G'') (CHR ''B'')"

definition MMAL_ENCODING_BAYER_SBGGR8 :: u32 where
  "MMAL_ENCODING_BAYER_SBGGR8 = MMAL_FOURCC (CHR ''B'') (CHR ''A'') (CHR ''8'') (CHR ''1'')"

definition MMAL_ENCODING_BAYER_SGRBG8 :: u32 where
  "MMAL_ENCODING_BAYER_SGRBG8 = MMAL_FOURCC (CHR ''G'') (CHR ''R'') (CHR ''B'') (CHR ''G'')"

definition MMAL_ENCODING_BAYER_SGBRG8 :: u32 where
  "MMAL_ENCODING_BAYER_SGBRG8 = MMAL_FOURCC (CHR ''G'') (CHR ''B'') (CHR ''R'') (CHR ''G'')"

definition MMAL_ENCODING_BAYER_SRGGB10P :: u32 where
  "MMAL_ENCODING_BAYER_SRGGB10P = MMAL_FOURCC (CHR ''p'') (CHR ''R'') (CHR ''A'') (CHR ''A'')"

definition MMAL_ENCODING_BAYER_SBGGR10P :: u32 where
  "MMAL_ENCODING_BAYER_SBGGR10P = MMAL_FOURCC (CHR ''p'') (CHR ''B'') (CHR ''A'') (CHR ''A'')"

definition MMAL_ENCODING_BAYER_SGRBG10P :: u32 where
  "MMAL_ENCODING_BAYER_SGRBG10P = MMAL_FOURCC (CHR ''p'') (CHR ''g'') (CHR ''A'') (CHR ''A'')"

definition MMAL_ENCODING_BAYER_SGBRG10P :: u32 where
  "MMAL_ENCODING_BAYER_SGBRG10P = MMAL_FOURCC (CHR ''p'') (CHR ''G'') (CHR ''A'') (CHR ''A'')"

definition MMAL_ENCODING_BAYER_SRGGB12P :: u32 where
  "MMAL_ENCODING_BAYER_SRGGB12P = MMAL_FOURCC (CHR ''p'') (CHR ''R'') (CHR ''C'') (CHR ''C'')"

definition MMAL_ENCODING_BAYER_SBGGR12P :: u32 where
  "MMAL_ENCODING_BAYER_SBGGR12P = MMAL_FOURCC (CHR ''p'') (CHR ''B'') (CHR ''C'') (CHR ''C'')"

definition MMAL_ENCODING_BAYER_SGRBG12P :: u32 where
  "MMAL_ENCODING_BAYER_SGRBG12P = MMAL_FOURCC (CHR ''p'') (CHR ''g'') (CHR ''C'') (CHR ''C'')"

definition MMAL_ENCODING_BAYER_SGBRG12P :: u32 where
  "MMAL_ENCODING_BAYER_SGBRG12P = MMAL_FOURCC (CHR ''p'') (CHR ''G'') (CHR ''C'') (CHR ''C'')"

definition MMAL_ENCODING_BAYER_SRGGB14P :: u32 where
  "MMAL_ENCODING_BAYER_SRGGB14P = MMAL_FOURCC (CHR ''p'') (CHR ''R'') (CHR ''E'') (CHR ''E'')"

definition MMAL_ENCODING_BAYER_SBGGR14P :: u32 where
  "MMAL_ENCODING_BAYER_SBGGR14P = MMAL_FOURCC (CHR ''p'') (CHR ''B'') (CHR ''E'') (CHR ''E'')"

definition MMAL_ENCODING_BAYER_SGRBG14P :: u32 where
  "MMAL_ENCODING_BAYER_SGRBG14P = MMAL_FOURCC (CHR ''p'') (CHR ''g'') (CHR ''E'') (CHR ''E'')"

definition MMAL_ENCODING_BAYER_SGBRG14P :: u32 where
  "MMAL_ENCODING_BAYER_SGBRG14P = MMAL_FOURCC (CHR ''p'') (CHR ''G'') (CHR ''E'') (CHR ''E'')"

definition MMAL_ENCODING_BAYER_SRGGB16 :: u32 where
  "MMAL_ENCODING_BAYER_SRGGB16 = MMAL_FOURCC (CHR ''R'') (CHR ''G'') (CHR ''1'') (CHR ''6'')"

definition MMAL_ENCODING_BAYER_SBGGR16 :: u32 where
  "MMAL_ENCODING_BAYER_SBGGR16 = MMAL_FOURCC (CHR ''B'') (CHR ''G'') (CHR ''1'') (CHR ''6'')"

definition MMAL_ENCODING_BAYER_SGRBG16 :: u32 where
  "MMAL_ENCODING_BAYER_SGRBG16 = MMAL_FOURCC (CHR ''G'') (CHR ''R'') (CHR ''1'') (CHR ''6'')"

definition MMAL_ENCODING_BAYER_SGBRG16 :: u32 where
  "MMAL_ENCODING_BAYER_SGBRG16 = MMAL_FOURCC (CHR ''G'') (CHR ''B'') (CHR ''1'') (CHR ''6'')"

definition MMAL_ENCODING_BAYER_SRGGB10 :: u32 where
  "MMAL_ENCODING_BAYER_SRGGB10 = MMAL_FOURCC (CHR ''R'') (CHR ''G'') (CHR ''1'') (CHR ''0'')"

definition MMAL_ENCODING_BAYER_SBGGR10 :: u32 where
  "MMAL_ENCODING_BAYER_SBGGR10 = MMAL_FOURCC (CHR ''B'') (CHR ''G'') (CHR ''1'') (CHR ''0'')"

definition MMAL_ENCODING_BAYER_SGRBG10 :: u32 where
  "MMAL_ENCODING_BAYER_SGRBG10 = MMAL_FOURCC (CHR ''B'') (CHR ''A'') (CHR ''1'') (CHR ''0'')"

definition MMAL_ENCODING_BAYER_SGBRG10 :: u32 where
  "MMAL_ENCODING_BAYER_SGBRG10 = MMAL_FOURCC (CHR ''G'') (CHR ''B'') (CHR ''1'') (CHR ''0'')"

definition MMAL_ENCODING_BAYER_SRGGB12 :: u32 where
  "MMAL_ENCODING_BAYER_SRGGB12 = MMAL_FOURCC (CHR ''R'') (CHR ''G'') (CHR ''1'') (CHR ''2'')"

definition MMAL_ENCODING_BAYER_SBGGR12 :: u32 where
  "MMAL_ENCODING_BAYER_SBGGR12 = MMAL_FOURCC (CHR ''B'') (CHR ''G'') (CHR ''1'') (CHR ''2'')"

definition MMAL_ENCODING_BAYER_SGRBG12 :: u32 where
  "MMAL_ENCODING_BAYER_SGRBG12 = MMAL_FOURCC (CHR ''B'') (CHR ''A'') (CHR ''1'') (CHR ''2'')"

definition MMAL_ENCODING_BAYER_SGBRG12 :: u32 where
  "MMAL_ENCODING_BAYER_SGBRG12 = MMAL_FOURCC (CHR ''G'') (CHR ''B'') (CHR ''1'') (CHR ''2'')"

definition MMAL_ENCODING_BAYER_SRGGB14 :: u32 where
  "MMAL_ENCODING_BAYER_SRGGB14 = MMAL_FOURCC (CHR ''R'') (CHR ''G'') (CHR ''1'') (CHR ''4'')"

definition MMAL_ENCODING_BAYER_SBGGR14 :: u32 where
  "MMAL_ENCODING_BAYER_SBGGR14 = MMAL_FOURCC (CHR ''B'') (CHR ''G'') (CHR ''1'') (CHR ''4'')"

definition MMAL_ENCODING_BAYER_SGRBG14 :: u32 where
  "MMAL_ENCODING_BAYER_SGRBG14 = MMAL_FOURCC (CHR ''G'') (CHR ''R'') (CHR ''1'') (CHR ''4'')"

definition MMAL_ENCODING_BAYER_SGBRG14 :: u32 where
  "MMAL_ENCODING_BAYER_SGBRG14 = MMAL_FOURCC (CHR ''G'') (CHR ''B'') (CHR ''1'') (CHR ''4'')"

definition MMAL_ENCODING_GREY :: u32 where
  "MMAL_ENCODING_GREY = MMAL_FOURCC (CHR ''G'') (CHR ''R'') (CHR ''E'') (CHR ''Y'')"

definition MMAL_ENCODING_Y10P :: u32 where
  "MMAL_ENCODING_Y10P = MMAL_FOURCC (CHR ''Y'') (CHR ''1'') (CHR ''0'') (CHR ''P'')"

definition MMAL_ENCODING_Y12P :: u32 where
  "MMAL_ENCODING_Y12P = MMAL_FOURCC (CHR ''Y'') (CHR ''1'') (CHR ''2'') (CHR ''P'')"

definition MMAL_ENCODING_Y14P :: u32 where
  "MMAL_ENCODING_Y14P = MMAL_FOURCC (CHR ''Y'') (CHR ''1'') (CHR ''4'') (CHR ''P'')"

definition MMAL_ENCODING_Y16 :: u32 where
  "MMAL_ENCODING_Y16 = MMAL_FOURCC (CHR ''Y'') (CHR ''1'') (CHR ''6'') (CHR '' '')"

definition MMAL_ENCODING_Y10 :: u32 where
  "MMAL_ENCODING_Y10 = MMAL_FOURCC (CHR ''Y'') (CHR ''1'') (CHR ''0'') (CHR '' '')"

definition MMAL_ENCODING_Y12 :: u32 where
  "MMAL_ENCODING_Y12 = MMAL_FOURCC (CHR ''Y'') (CHR ''1'') (CHR ''2'') (CHR '' '')"

definition MMAL_ENCODING_Y14 :: u32 where
  "MMAL_ENCODING_Y14 = MMAL_FOURCC (CHR ''Y'') (CHR ''1'') (CHR ''4'') (CHR '' '')"

definition MMAL_ENCODING_H264 :: u32 where
  "MMAL_ENCODING_H264 = MMAL_FOURCC (CHR ''H'') (CHR ''2'') (CHR ''6'') (CHR ''4'')"

definition MMAL_ENCODING_JPEG :: u32 where
  "MMAL_ENCODING_JPEG = MMAL_FOURCC (CHR ''J'') (CHR ''P'') (CHR ''E'') (CHR ''G'')"

definition MMAL_ENCODING_MJPEG :: u32 where
  "MMAL_ENCODING_MJPEG = MMAL_FOURCC (CHR ''M'') (CHR ''J'') (CHR ''P'') (CHR ''G'')"

definition MMAL_ENCODING_MP4V :: u32 where
  "MMAL_ENCODING_MP4V = MMAL_FOURCC (CHR ''M'') (CHR ''P'') (CHR ''4'') (CHR ''V'')"

definition MMAL_ENCODING_H263 :: u32 where
  "MMAL_ENCODING_H263 = MMAL_FOURCC (CHR ''H'') (CHR ''2'') (CHR ''6'') (CHR ''3'')"

definition MMAL_ENCODING_MP2V :: u32 where
  "MMAL_ENCODING_MP2V = MMAL_FOURCC (CHR ''M'') (CHR ''P'') (CHR ''2'') (CHR ''V'')"

definition MMAL_ENCODING_WVC1 :: u32 where
  "MMAL_ENCODING_WVC1 = MMAL_FOURCC (CHR ''W'') (CHR ''V'') (CHR ''C'') (CHR ''1'')"

subsection \<open>Driver constants\<close>

datatype bcm2835_codec_role = DECODE | ENCODE | ISP | DEINTERLACE | ENCODE_IMAGE

definition MIN_W :: u32 where
  "MIN_W = 32"

definition MIN_H :: u32 where
  "MIN_H = 32"

definition MAX_W_CODEC :: u32 where
  "MAX_W_CODEC = 1920"

definition MAX_H_CODEC :: u32 where
  "MAX_H_CODEC = 1920"

definition MAX_W_ISP :: u32 where
  "MAX_W_ISP = 16384"

definition MAX_H_ISP :: u32 where
  "MAX_H_ISP = 16384"

definition DEFAULT_WIDTH :: u32 where
  "DEFAULT_WIDTH = 32"

definition DEFAULT_HEIGHT :: u32 where
  "DEFAULT_HEIGHT = 32"

definition DEF_COMP_BUF_SIZE_GREATER_720P :: u32 where
  "DEF_COMP_BUF_SIZE_GREATER_720P = push_bit 10 768"

definition DEF_COMP_BUF_SIZE_720P_OR_LESS :: u32 where
  "DEF_COMP_BUF_SIZE_720P_OR_LESS = push_bit 10 512"

definition DEF_COMP_BUF_SIZE_JPEG :: u32 where
  "DEF_COMP_BUF_SIZE_JPEG = push_bit 10 4096"

subsection \<open>Format descriptors and the static catalogue\<close>

text \<open>\<^verbatim>\<open>struct bcm2835_codec_fmt\<close>.  The array \<^verbatim>\<open>bytesperline_align[NUM_ROLES]\<close> is
  indexed by the role, so it is a function of the role.\<close>

record bcm2835_codec_fmt =
  fourcc :: u32
  depth :: s32
  bytesperline_align :: "bcm2835_codec_role \<Rightarrow> u8"
  flags :: u32
  mmal_fmt :: u32
  size_multiplier_x2 :: s32
  is_bayer :: bool

text \<open>The array initialiser \<^verbatim>\<open>{ a, b, c, d, e }\<close>, in the order of the enum.\<close>

definition per_role :: "u8 \<Rightarrow> u8 \<Rightarrow> u8 \<Rightarrow> u8 \<Rightarrow> u8 \<Rightarrow> bcm2835_codec_role \<Rightarrow> u8" where
  "per_role a b c d e r =
     (case r of DECODE \<Rightarrow> a | ENCODE \<Rightarrow> b | ISP \<Rightarrow> c | DEINTERLACE \<Rightarrow> d | ENCODE_IMAGE \<Rightarrow> e)"

text \<open>\<^verbatim>\<open>supported_formats[]\<close>; fields the initialiser leaves out are zero.\<close>

definition supported_formats :: "bcm2835_codec_fmt list" where
  "supported_formats =
  [
   \<lparr>fourcc = V4L2_PIX_FMT_YUV420, depth = 8,
    bytesperline_align = per_role 32 64 64 32 32,
    flags = 0, mmal_fmt = MMAL_ENCODING_I420,
    size_multiplier_x2 = 3, is_bayer = False\<rparr>,
   \<lparr>fourcc = V4L2_PIX_FMT_YVU420, depth = 8,
    bytesperline_align = per_role 32 64 64 32 32,
    flags = 0, mmal_fmt = MMAL_ENCODING_YV12,
    size_multiplier_x2 = 3, is_bayer = False\<rparr>,
   \<lparr>fourcc = V4L2_PIX_FMT_NV12, depth = 8,
    bytesperline_align = per_role 32 32 32 32 32,
    flags = 0, mmal_fmt = MMAL_ENCODING_NV12,
    size_multiplier_x2 = 3, is_bayer = False\<rparr>,
   \<lparr>fourcc = V4L2_PIX_FMT_NV21, depth = 8,
    bytesperline_align = per_role 32 32 32 32 32,
    flags = 0, mmal_fmt = MMAL_ENCODING_NV21,
    size_multiplier_x2 = 3, is_bayer = False\<rparr>,
   \<lparr>fourcc = V4L2_PIX_FMT_RGB565, depth = 16,
    bytesperline_align = per_role 32 32 32 32 32,
    flags = 0, mmal_fmt = MMAL_ENCODING_RGB16,
    size_multiplier_x2 = 2, is_bayer = False\<rparr>,
   \<lparr>fourcc = V4L2_PIX_FMT_YUYV, depth = 16,
    bytesperline_align = per_role 32 32 32 32 32,
    flags = 0, mmal_fmt = MMAL_ENCODING_YUYV,
    size_multiplier_x2 = 2, is_bayer = False\<rparr>,
   \<lparr>fourcc = V4L2_PIX_FMT_UYVY, depth = 16,
    bytesperline_align = per_role 32 32 32 32 32,
    flags = 0, mmal_fmt = MMAL_ENCODING_UYVY,
    size_multiplier_x2 = 2, is_bayer = False\<rparr>,
   \<lparr>fourcc = V4L2_PIX_FMT_YVYU, depth = 16,
    bytesperline_align = per_role 32 32 32 32 32,
    flags = 0, mmal_fmt = MMAL_ENCODING_YVYU,
    size_multiplier_x2 = 2, is_bayer = False\<rparr>,
   \<lparr>fourcc = V4L2_PIX_FMT_VYUY, depth = 16,
    bytesperline_align = per_role 32 32 32 32 32,
    flags = 0, mmal_fmt = MMAL_ENCODING_VYUY,
    size_multiplier_x2 = 2, is_bayer = False\<rparr>,
   \<lparr>fourcc = V4L2_PIX_FMT_NV12_COL128, depth = 8,
    bytesperline_align = per_role 32 32 32 32 32,
    flags = 0, mmal_fmt = MMAL_ENCODING_YUVUV128,
    size_multiplier_x2 = 3, is_bayer = False\<rparr>,
   \<lparr>fourcc = V4L2_PIX_FMT_RGB24, depth = 24,
    bytesperline_align = per_role 32 32 32 32 32,
    flags = 0, mmal_fmt = MMAL_ENCODING_RGB24,
    size_multiplier_x2 = 2, is_bayer = False\<rparr>,
   \<lparr>fourcc = V4L2_PIX_FMT_BGR24, depth = 24,
    bytesperline_align = per_role 32 32 32 32 32,
    flags = 0, mmal_fmt = MMAL_ENCODING_BGR24,
    size_multiplier_x2 = 2, is_bayer = False\<rparr>,
   \<lparr>fourcc = V4L2_PIX_FMT_BGR32, depth = 32,
    bytesperline_align = per_role 32 32 32 32 32,
    flags = 0, mmal_fmt = MMAL_ENCODING_BGRA,
    size_multiplier_x2 = 2, is_bayer = False\<rparr>,
   \<lparr>fourcc = V4L2_PIX_FMT_RGBA32, depth = 32,
    bytesperline_align = per_role 32 32 32 32 32,
    flags = 0, mmal_fmt = MMAL_ENCODING_RGBA,
    size_multiplier_x2 = 2, is_bayer = False\<rparr>,
   \<lparr>fourcc = V4L2_PIX_FMT_SRGGB8, depth = 8,
    bytesperline_align = per_role 32 32 32 32 32,
    flags = 0, mmal_fmt = MMAL_ENCODING_BAYER_SRGGB8,
    size_multiplier_x2 = 2, is_bayer = True\<rparr>,
   \<lparr>fourcc = V4L2_PIX_FMT_SBGGR8, depth = 8,
    bytesperline_align = per_role 32 32 32 32 32,
    flags = 0, mmal_fmt = MMAL_ENCODING_BAYER_SBGGR8,
    size_multiplier_x2 = 2, is_bayer = True\<rparr>,
   \<lparr>fourcc = V4L2_PIX_FMT_SGRBG8, depth = 8,
    bytesperline_align = per_role 32 32 32 32 32,
    flags = 0, mmal_fmt = MMAL_ENCODING_BAYER_SGRBG8,
    size_multiplier_x2 = 2, is_bayer = True\<rparr>,
   \<lparr>fourcc = V4L2_PIX_FMT_SGBRG8, depth = 8,
    bytesperline_align = per_role 32 32 32 32 32,
    flags = 0, mmal_fmt = MMAL_ENCODING_BAYER_SGBRG8,
    size_multiplier_x2 = 2, is_bayer = True\<rparr>,
   \<lparr>fourcc = V4L2_PIX_FMT_SRGGB10P, depth = 10,
    bytesperline_align = per_role 32 32 32 32 32,
    flags = 0, mmal_fmt = MMAL_ENCODING_BAYER_SRGGB10P,
    size_multiplier_x2 = 2, is_bayer = True\<rparr>,
   \<lparr>fourcc = V4L2_PIX_FMT_SBGGR10P, depth = 10,
    bytesperline_align = per_role 32 32 32 32 32,
    flags = 0, mmal_fmt = MMAL_ENCODING_BAYER_SBGGR10P,
    size_multiplier_x2 = 2, is_bayer = True\<rparr>,
   \<lparr>fourcc = V4L2_PIX_FMT_SGRBG10P, depth = 10,
    bytesperline_align = per_role 32 32 32 32 32,
    flags = 0, mmal_fmt = MMAL_ENCODING_BAYER_SGRBG10P,
    size_multiplier_x2 = 2, is_bayer = True\<rparr>,
   \<lparr>fourcc = V4L2_PIX_FMT_SGBRG10P, depth = 10,
    bytesperline_align = per_role 32 32 32 32 32,
    flags = 0, mmal_fmt = MMAL_ENCODING_BAYER_SGBRG10P,
    size_multiplier_x2 = 2, is_bayer = True\<rparr>,
   \<lparr>fourcc = V4L2_PIX_FMT_SRGGB12P, depth = 12,
    bytesperline_align = per_role 32 32 32 32 32,
    flags = 0, mmal_fmt = MMAL_ENCODING_BAYER_SRGGB12P,
    size_multiplier_x2 = 2, is_bayer = True\<rparr>,
   \<lparr>fourcc = V4L2_PIX_FMT_SBGGR12P, depth = 12,
    bytesperline_align = per_role 32 32 32 32 32,
    flags = 0, mmal_fmt = MMAL_ENCODING_BAYER_SBGGR12P,
    size_multiplier_x2 = 2, is_bayer = True\<rparr>,
   \<lparr>fourcc = V4L2_PIX_FMT_SGRBG12P, depth = 12,
    bytesperline_align = per_role 32 32 32 32 32,
    flags = 0, mmal_fmt = MMAL_ENCODING_BAYER_SGRBG12P,
    size_multiplier_x2 = 2, is_bayer = True\<rparr>,
   \<lparr>fourcc = V4L2_PIX_FMT_SGBRG12P, depth = 12,
    bytesperline_align = per_role 32 32 32 32 32,
    flags = 0, mmal_fmt = MMAL_ENCODING_BAYER_SGBRG12P,
    size_multiplier_x2 = 2, is_bayer = True\<rparr>,
   \<lparr>fourcc = V4L2_PIX_FMT_SRGGB14P, depth = 14,
    bytesperline_align = per_role 32 32 32 32 32,
    flags = 0, mmal_fmt = MMAL_ENCODING_BAYER_SRGGB14P,
    size_multiplier_x2 = 2, is_bayer = True\<rparr>,
   \<lparr>fourcc = V4L2_PIX_FMT_SBGGR14P, depth = 14,
    bytesperline_align = per_role 32 32 32 32 32,
    flags = 0, mmal_fmt = MMAL_ENCODING_BAYER_SBGGR14P,
    size_multiplier_x2 = 2, is_bayer = True\<rparr>,
   \<lparr>fourcc = V4L2_PIX_FMT_SGRBG14P, depth = 14,
    bytesperline_align = per_role 32 32 32 32 32,
    flags = 0, mmal_fmt = MMAL_ENCODING_BAYER_SGRBG14P,
    size_multiplier_x2 = 2, is_bayer = True\<rparr>,
   \<lparr>fourcc = V4L2_PIX_FMT_SGBRG14P, depth = 14,
    bytesperline_align = per_role 32 32 32 32 32,
    flags = 0, mmal_fmt = MMAL_ENCODING_BAYER_SGBRG14P,
    size_multiplier_x2 = 2, is_bayer = True\<rparr>,
   \<lparr>fourcc = V4L2_PIX_FMT_SRGGB16, depth = 16,
    bytesperline_align = per_role 32 32 32 32 32,
    flags = 0, mmal_fmt = MMAL_ENCODING_BAYER_SRGGB16,
    size_multiplier_x2 = 2, is_bayer = True\<rparr>,
   \<lparr>fourcc = V4L2_PIX_FMT_SBGGR16, depth = 16,
    bytesperline_align = per_role 32 32 32 32 32,
    flags = 0, mmal_fmt = MMAL_ENCODING_BAYER_SBGGR16,
    size_multiplier_x2 = 2, is_bayer = True\<rparr>,
   \<lparr>fourcc = V4L2_PIX_FMT_SGRBG16, depth = 16,
    bytesperline_align = per_role 32 32 32 32 32,
    flags = 0, mmal_fmt = MMAL_ENCODING_BAYER_SGRBG16,
    size_multiplier_x2 = 2, is_bayer = True\<rparr>,
   \<lparr>fourcc = V4L2_PIX_FMT_SGBRG16, depth = 16,
    bytesperline_align = per_role 32 32 32 32 32,
    flags = 0, mmal_fmt = MMAL_ENCODING_BAYER_SGBRG16,
    size_multiplier_x2 = 2, is_bayer = True\<rparr>,
   \<lparr>fourcc = V4L2_PIX_FMT_SRGGB10, depth = 16,
    bytesperline_align = per_role 32 32 32 32 32,
    flags = 0, mmal_fmt = MMAL_ENCODING_BAYER_SRGGB10,
    size_multiplier_x2 = 2, is_bayer = True\<rparr>,
   \<lparr>fourcc = V4L2_PIX_FMT_SBGGR10, depth = 16,
    bytesperline_align = per_role 32 32 32 32 32,
    flags = 0, mmal_fmt = MMAL_ENCODING_BAYER_SBGGR10,
    size_multiplier_x2 = 2, is_bayer = True\<rparr>,
   \<lparr>fourcc = V4L2_PIX_FMT_SGRBG10, depth = 16,
    bytesperline_align = per_role 32 32 32 32 32,
    flags = 0, mmal_fmt = MMAL_ENCODING_BAYER_SGRBG10,
    size_multiplier_x2 = 2, is_bayer = True\<rparr>,
   \<lparr>fourcc = V4L2_PIX_FMT_SGBRG10, depth = 16,
    bytesperline_align = per_role 32 32 32 32 32,
    flags = 0, mmal_fmt = MMAL_ENCODING_BAYER_SGBRG10,
    size_multiplier_x2 = 2, is_bayer = True\<rparr>,
   \<lparr>fourcc = V4L2_PIX_FMT_SRGGB12, depth = 16,
    bytesperline_align = per_role 32 32 32 32 32,
    flags = 0, mmal_fmt = MMAL_ENCODING_BAYER_SRGGB12,
    size_multiplier_x2 = 2, is_bayer = True\<rparr>,
   \<lparr>fourcc = V4L2_PIX_FMT_SBGGR12, depth = 16,
    bytesperline_align = per_role 32 32 32 32 32,
    flags = 0, mmal_fmt = MMAL_ENCODING_BAYER_SBGGR12,
    size_multiplier_x2 = 2, is_bayer = True\<rparr>,
   \<lparr>fourcc = V4L2_PIX_FMT_SGRBG12, depth = 16,
    bytesperline_align = per_role 32 32 32 32 32,
    flags = 0, mmal_fmt = MMAL_ENCODING_BAYER_SGRBG12,
    size_multiplier_x2 = 2, is_bayer = True\<rparr>,
   \<lparr>fourcc = V4L2_PIX_FMT_SGBRG12, depth = 16,
    bytesperline_align = per_role 32 32 32 32 32,
    flags = 0, mmal_fmt = MMAL_ENCODING_BAYER_SGBRG12,
    size_multiplier_x2 = 2, is_bayer = True\<rparr>,
   \<lparr>fourcc = V4L2_PIX_FMT_SRGGB14, depth = 16,
    bytesperline_align = per_role 32 32 32 32 32,
    flags = 0, mmal_fmt = MMAL_ENCODING_BAYER_SRGGB14,
    size_multiplier_x2 = 2, is_bayer = True\<rparr>,
   \<lparr>fourcc = V4L2_PIX_FMT_SBGGR14, depth = 16,
    bytesperline_align = per_role 32 32 32 32 32,
    flags = 0, mmal_fmt = MMAL_ENCODING_BAYER_SBGGR14,
    size_multiplier_x2 = 2, is_bayer = True\<rparr>,
   \<lparr>fourcc = V4L2_PIX_FMT_SGRBG14, depth = 16,
    bytesperline_align = per_role 32 32 32 32 32,
    flags = 0, mmal_fmt = MMAL_ENCODING_BAYER_SGRBG14,
    size_multiplier_x2 = 2, is_bayer = True\<rparr>,
   \<lparr>fourcc = V4L2_PIX_FMT_SGBRG14, depth = 16,
    bytesperline_align = per_role 32 32 32 32 32,
    flags = 0, mmal_fmt = MMAL_ENCODING_BAYER_SGBRG14,
    size_multiplier_x2 = 2, is_bayer = True\<rparr>,
   \<lparr>fourcc = V4L2_PIX_FMT_GREY, depth = 8,
    bytesperline_align = per_role 32 32 32 32 32,
    flags = 0, mmal_fmt = MMAL_ENCODING_GREY,
    size_multiplier_x2 = 2, is_bayer = False\<rparr>,
   \<lparr>fourcc = V4L2_PIX_FMT_Y10P, depth = 10,
    bytesperline_align = per_role 32 32 32 32 32,
    flags = 0, mmal_fmt = MMAL_ENCODING_Y10P,
    size_multiplier_x2 = 2, is_bayer = False\<rparr>,
   \<lparr>fourcc = V4L2_PIX_FMT_Y12P, depth = 12,
    bytesperline_align = per_role 32 32 32 32 32,
    flags = 0, mmal_fmt = MMAL_ENCODING_Y12P,
    size_multiplier_x2 = 2, is_bayer = False\<rparr>,
   \<lparr>fourcc = V4L2_PIX_FMT_Y14P, depth = 14,
    bytesperline_align = per_role 32 32 32 32 32,
    flags = 0, mmal_fmt = MMAL_ENCODING_Y14P,
    size_multiplier_x2 = 2, is_bayer = False\<rparr>,
   \<lparr>fourcc = V4L2_PIX_FMT_Y16, depth = 16,
    bytesperline_align = per_role 32 32 32 32 32,
    flags = 0, mmal_fmt = MMAL_ENCODING_Y16,
    size_multiplier_x2 = 2, is_bayer = False\<rparr>,
   \<lparr>fourcc = V4L2_PIX_FMT_Y10, depth = 16,
    bytesperline_align = per_role 32 32 32 32 32,
    flags = 0, mmal_fmt = MMAL_ENCODING_Y10,
    size_multiplier_x2 = 2, is_bayer = False\<rparr>,
   \<lparr>fourcc = V4L2_PIX_FMT_Y12, depth = 16,
    bytesperline_align = per_role 32 32 32 32 32,
    flags = 0, mmal_fmt = MMAL_ENCODING_Y12,
    size_multiplier_x2 = 2, is_bayer = False\<rparr>,
   \<lparr>fourcc = V4L2_PIX_FMT_Y14, depth = 16,
    bytesperline_align = per_role 32 32 32 32 32,
    flags = 0, mmal_fmt = MMAL_ENCODING_Y14,
    size_multiplier_x2 = 2, is_bayer = False\<rparr>,
   \<lparr>fourcc = V4L2_PIX_FMT_H264, depth = 0,
    bytesperline_align = per_role 0 0 0 0 0,
    flags = V4L2_FMT_FLAG_COMPRESSED, mmal_fmt = MMAL_ENCODING_H264,
    size_multiplier_x2 = 0, is_bayer = False\<rparr>,
   \<lparr>fourcc = V4L2_PIX_FMT_JPEG, depth = 0,
    bytesperline_align = per_role 0 0 0 0 0,
    flags = V4L2_FMT_FLAG_COMPRESSED, mmal_fmt = MMAL_ENCODING_JPEG,
    size_multiplier_x2 = 0, is_bayer = False\<rparr>,
   \<lparr>fourcc = V4L2_PIX_FMT_MJPEG, depth = 0,
    bytesperline_align = per_role 0 0 0 0 0,
    flags = V4L2_FMT_FLAG_COMPRESSED, mmal_fmt = MMAL_ENCODING_MJPEG,
    size_multiplier_x2 = 0, is_bayer = False\<rparr>,
   \<lparr>fourcc = V4L2_PIX_FMT_MPEG4, depth = 0,
    bytesperline_align = per_role 0 0 0 0 0,
    flags = V4L2_FMT_FLAG_COMPRESSED, mmal_fmt = MMAL_ENCODING_MP4V,
    size_multiplier_x2 = 0, is_bayer = False\<rparr>,
   \<lparr>fourcc = V4L2_PIX_FMT_H263, depth = 0,
    bytesperline_align = per_role 0 0 0 0 0,
    flags = V4L2_FMT_FLAG_COMPRESSED, mmal_fmt = MMAL_ENCODING_H263,
    size_multiplier_x2 = 0, is_bayer = False\<rparr>,
   \<lparr>fourcc = V4L2_PIX_FMT_MPEG2, depth = 0,
    bytesperline_align = per_role 0 0 0 0 0,
    flags = V4L2_FMT_FLAG_COMPRESSED, mmal_fmt = MMAL_ENCODING_MP2V,
    size_multiplier_x2 = 0, is_bayer = False\<rparr>,
   \<lparr>fourcc = V4L2_PIX_FMT_VC1_ANNEX_G, depth = 0,
    bytesperline_align = per_role 0 0 0 0 0,
    flags = V4L2_FMT_FLAG_COMPRESSED, mmal_fmt = MMAL_ENCODING_WVC1,
    size_multiplier_x2 = 0, is_bayer = False\<rparr>
  ]"

text \<open>\<^verbatim>\<open>get_fmt\<close>: the first catalogue entry with the MMAL encoding, Bayer
  entries skipped when the module parameter \<^verbatim>\<open>disable_bayer\<close> is set.\<close>

fun get_fmt_from :: "bcm2835_codec_fmt list \<Rightarrow> bool \<Rightarrow> u32 \<Rightarrow> bcm2835_codec_fmt option" where
  "get_fmt_from [] disable_bayer enc = None"
| "get_fmt_from (e # es) disable_bayer enc =
     (if mmal_fmt e = enc \<and> (\<not> disable_bayer \<or> \<not> is_bayer e) then Some e
      else get_fmt_from es disable_bayer enc)"

definition get_fmt :: "bool \<Rightarrow> u32 \<Rightarrow> bcm2835_codec_fmt option" where
  "get_fmt disable_bayer enc = get_fmt_from supported_formats disable_bayer enc"

subsection \<open>Geometry calculator\<close>

text \<open>\<^verbatim>\<open>get_sizeimage(int bpl, int width, int height, fmt)\<close>, returning
  \<^verbatim>\<open>unsigned int\<close>.\<close>

definition get_sizeimage :: "s32 \<Rightarrow> s32 \<Rightarrow> s32 \<Rightarrow> bcm2835_codec_fmt \<Rightarrow> u32" where
  "get_sizeimage bpl width height fmt =
     (if flags fmt AND V4L2_FMT_FLAG_COMPRESSED \<noteq> 0 then
        (if fourcc fmt = V4L2_PIX_FMT_JPEG then DEF_COMP_BUF_SIZE_JPEG
         else if (1280 * 720) <s (width * height) then DEF_COMP_BUF_SIZE_GREATER_720P
         else DEF_COMP_BUF_SIZE_720P_OR_LESS)
      else if fourcc fmt \<noteq> V4L2_PIX_FMT_NV12_COL128 then
        signed_drop_bit 1 (bpl * height * size_multiplier_x2 fmt)
      else ALIGN width 128 * bpl)"

text \<open>\<^verbatim>\<open>get_bytesperline(int width, int height, fmt, role)\<close>, returning
  \<^verbatim>\<open>unsigned int\<close>.\<close>

definition get_bytesperline :: "s32 \<Rightarrow> s32 \<Rightarrow> bcm2835_codec_fmt \<Rightarrow> bcm2835_codec_role \<Rightarrow> u32" where
  "get_bytesperline width height fmt role =
     (if fourcc fmt \<noteq> V4L2_PIX_FMT_NV12_COL128 then
        ALIGN (signed_drop_bit 3 (width * depth fmt)) (ucast (bytesperline_align fmt role))
      else signed_drop_bit 1 (height * 3))"

subsection \<open>The client's format request\<close>

text \<open>\<^verbatim>\<open>enum v4l2_buf_type\<close>: the four values the driver names.\<close>

datatype v4l2_buf_type =
  V4L2_BUF_TYPE_VIDEO_CAPTURE
  | V4L2_BUF_TYPE_VIDEO_OUTPUT
  | V4L2_BUF_TYPE_VIDEO_CAPTURE_MPLANE
  | V4L2_BUF_TYPE_VIDEO_OUTPUT_MPLANE

definition V4L2_TYPE_IS_OUTPUT :: "v4l2_buf_type \<Rightarrow> bool" where
  "V4L2_TYPE_IS_OUTPUT t =
     (t = V4L2_BUF_TYPE_VIDEO_OUTPUT \<or> t = V4L2_BUF_TYPE_VIDEO_OUTPUT_MPLANE)"

text \<open>\<^verbatim>\<open>enum v4l2_field\<close>, as the numbers a client passes in the \<^verbatim>\<open>__u32 field\<close>.\<close>

definition V4L2_FIELD_ANY :: u32 where
  "V4L2_FIELD_ANY = 0"

definition V4L2_FIELD_NONE :: u32 where
  "V4L2_FIELD_NONE = 1"

definition V4L2_FIELD_TOP :: u32 where
  "V4L2_FIELD_TOP = 2"

definition V4L2_FIELD_BOTTOM :: u32 where
  "V4L2_FIELD_BOTTOM = 3"

definition V4L2_FIELD_INTERLACED :: u32 where
  "V4L2_FIELD_INTERLACED = 4"

definition V4L2_FIELD_INTERLACED_TB :: u32 where
  "V4L2_FIELD_INTERLACED_TB = 8"

definition V4L2_FIELD_INTERLACED_BT :: u32 where
  "V4L2_FIELD_INTERLACED_BT = 9"

text \<open>\<^verbatim>\<open>struct v4l2_format\<close> with its \<^verbatim>\<open>fmt.pix_mp\<close> member and the first plane
  \<^verbatim>\<open>plane_fmt[0]\<close>: \<open>f_type\<close> is \<^verbatim>\<open>f->type\<close>, a \<open>pix_\<close> field is
  \<^verbatim>\<open>f->fmt.pix_mp.<field>\<close> and a \<open>plane_\<close> field is
  \<^verbatim>\<open>f->fmt.pix_mp.plane_fmt[0].<field>\<close>.\<close>

record v4l2_format =
  f_type :: v4l2_buf_type
  pix_width :: u32
  pix_height :: u32
  pix_pixelformat :: u32
  pix_field :: u32
  pix_colorspace :: u32
  plane_sizeimage :: u32
  plane_bytesperline :: u32
  plane_reserved :: "16 word list"
  pix_num_planes :: u8
  pix_ycbcr_enc :: u8
  pix_quantization :: u8
  pix_xfer_func :: u8

subsection \<open>Device, queue and session state\<close>

text \<open>A driver function that can stop the kernel in the middle of a call (the
  dereference of a \<^verbatim>\<open>NULL\<close> pointer, an integer division by zero) returns an
  option: \<open>None\<close> is the fault, \<open>Some\<close> carries what the call returns and leaves
  behind.\<close>

text \<open>\<^verbatim>\<open>struct bcm2835_codec_dev\<close>: \<open>supported_fmts_0\<close> is \<^verbatim>\<open>supported_fmts[0]\<close> (the
  formats of the OUTPUT queue) and \<open>supported_fmts_1\<close> is \<^verbatim>\<open>supported_fmts[1]\<close> (the
  formats of the CAPTURE queue); each list holds \<^verbatim>\<open>num_entries\<close> descriptors.\<close>

record bcm2835_codec_dev =
  role :: bcm2835_codec_role
  supported_fmts_0 :: "bcm2835_codec_fmt list"
  supported_fmts_1 :: "bcm2835_codec_fmt list"
  max_w :: u32
  max_h :: u32

text \<open>The MMAL buffer header \<^verbatim>\<open>struct mmal_buffer\<close> (the fields the driver writes)
  and the videobuf2 buffer \<^verbatim>\<open>struct vb2_v4l2_buffer\<close> (the fields it reads):
  \<open>vb2_bytesused\<close> is \<^verbatim>\<open>vb2_buf.planes[0].bytesused\<close> and \<open>vb2_timestamp\<close> is
  \<^verbatim>\<open>vb2_buf.timestamp\<close>, in nanoseconds.\<close>

record mmal_buffer =
  mmal_flags :: u32
  mmal_length :: u32
  mmal_pts :: u64
  mmal_dts :: u64
  mmal_cmd :: u32

record vb2_v4l2_buffer =
  vb2_flags :: u32
  vb2_field :: u32
  vb2_timestamp :: u64
  vb2_bytesused :: u32

text \<open>\<^verbatim>\<open>struct bcm2835_codec_q_data\<close>.  \<open>fmt\<close> is a pointer into the device's format
  list, \<open>None\<close> when it is \<^verbatim>\<open>NULL\<close>.\<close>

record bcm2835_codec_q_data =
  bytesperline :: u32
  height :: u32
  crop_width :: u32
  crop_height :: u32
  selection_set :: bool
  aspect_ratio :: "u32 \<times> u32"
  field :: u32
  sizeimage :: u32
  sequence :: u32
  fmt :: "bcm2835_codec_fmt option"
  eos_buffer :: mmal_buffer
  eos_buffer_in_use :: bool

text \<open>\<^verbatim>\<open>struct vchiq_mmal_port\<close>: the fields the driver reads and writes.
  \<open>current_buffer_num\<close> is \<^verbatim>\<open>current_buffer.num\<close>, \<open>es_video_crop_width\<close> is
  \<^verbatim>\<open>es.video.crop.width\<close>, and so on.\<close>

record vchiq_mmal_port =
  enabled :: bool
  minimum_buffer_num :: u32
  minimum_buffer_size :: u32
  current_buffer_num :: u32
  current_buffer_size :: u32
  buffers_with_vpu :: s32
  format_encoding :: u32
  format_flags :: u32
  format_bitrate :: u32
  es_video_width :: u32
  es_video_height :: u32
  es_video_crop_x :: s32
  es_video_crop_y :: s32
  es_video_crop_width :: s32
  es_video_crop_height :: s32
  es_video_frame_rate_numerator :: u32
  es_video_frame_rate_denominator :: u32

text \<open>\<^verbatim>\<open>struct vchiq_mmal_component\<close>: \<open>input0\<close> is \<^verbatim>\<open>input[0]\<close> and \<open>output0\<close> is
  \<^verbatim>\<open>output[0]\<close>.  A port is named by \<open>port_id\<close> where the C code holds a
  pointer to it.\<close>

record vchiq_mmal_component =
  input0 :: vchiq_mmal_port
  output0 :: vchiq_mmal_port

datatype port_id = INPUT0 | OUTPUT0

definition port_of :: "vchiq_mmal_component \<Rightarrow> port_id \<Rightarrow> vchiq_mmal_port" where
  "port_of c p = (case p of INPUT0 \<Rightarrow> input0 c | OUTPUT0 \<Rightarrow> output0 c)"

definition port_upd :: "port_id \<Rightarrow> vchiq_mmal_port \<Rightarrow> vchiq_mmal_component \<Rightarrow> vchiq_mmal_component" where
  "port_upd p v c = (case p of INPUT0 \<Rightarrow> c\<lparr>input0 := v\<rparr> | OUTPUT0 \<Rightarrow> c\<lparr>output0 := v\<rparr>)"

text \<open>The videobuf2 queue \<^verbatim>\<open>struct vb2_queue\<close> and the two queues of the
  mem2mem context \<^verbatim>\<open>fh.m2m_ctx\<close>: \<open>out_q\<close> is \<^verbatim>\<open>out_q_ctx.q\<close> and \<open>cap_q\<close> is
  \<^verbatim>\<open>cap_q_ctx.q\<close>.\<close>

record vb2_queue =
  num_buffers :: u32
  streaming :: bool
  last_buffer_dequeued :: bool

record v4l2_m2m_ctx =
  out_q :: vb2_queue
  cap_q :: vb2_queue

text \<open>The events the driver queues to the file handle.\<close>

datatype v4l2_event = V4L2_EVENT_SOURCE_CHANGE_RESOLUTION | V4L2_EVENT_EOS

text \<open>The callbacks a port is enabled with, and the calls the driver makes to the
  MMAL service and the completion it waits on; \<open>mmal_calls\<close> of the session
  records them in order.  \<open>PORT_SET_FORMAT p n\<close> is a call of
  \<^verbatim>\<open>vchiq_mmal_port_set_format\<close> on port \<open>p\<close> whose \<^verbatim>\<open>current_buffer.num\<close> is \<open>n\<close>.\<close>

datatype buffer_cb = ip_buffer_cb | op_buffer_cb

datatype mmal_call =
  COMPONENT_ENABLE
  | PORT_DISABLE port_id
  | PORT_ENABLE port_id buffer_cb
  | PORT_SET_FORMAT port_id u32
  | PORT_PARAMETER_GET_INTERLACE_TYPE port_id
  | WAIT_FOR_COMPLETION_TIMEOUT nat
  | BUFFER_INIT_EOS

text \<open>The indices of \<^verbatim>\<open>q_data[2]\<close>.\<close>

datatype m2m_index = V4L2_M2M_SRC | V4L2_M2M_DST

text \<open>\<^verbatim>\<open>struct bcm2835_codec_ctx\<close>.  \<open>component\<close> is \<open>None\<close> while the pointer is
  \<^verbatim>\<open>NULL\<close>; \<open>m2m_ctx\<close> and \<open>fh_events\<close> are the queues and the pending events of
  \<^verbatim>\<open>fh\<close>; \<open>mmal_calls\<close> is the record of the calls made to the MMAL service.\<close>

record bcm2835_codec_ctx =
  dev :: bcm2835_codec_dev
  component :: "vchiq_mmal_component option"
  component_enabled :: bool
  colorspace :: u32
  ycbcr_enc :: u32
  xfer_func :: u32
  quant :: u32
  q_data :: "m2m_index \<Rightarrow> bcm2835_codec_q_data"
  bitrate :: s32
  framerate_num :: u32
  framerate_denom :: u32
  aborting :: bool
  num_ip_buffers :: s32
  num_op_buffers :: s32
  m2m_ctx :: v4l2_m2m_ctx
  fh_events :: "v4l2_event list"
  mmal_calls :: "mmal_call list"

subsection \<open>Format lookup\<close>

definition get_format_list :: "bcm2835_codec_dev \<Rightarrow> bool \<Rightarrow> bcm2835_codec_fmt list" where
  "get_format_list d capture = (if capture then supported_fmts_1 d else supported_fmts_0 d)"

text \<open>\<^verbatim>\<open>get_default_format\<close> returns the address of \<^verbatim>\<open>list[0]\<close>; when the list has
  no entry there is nothing to read there, which is \<open>None\<close>.\<close>

definition get_default_format :: "bcm2835_codec_dev \<Rightarrow> bool \<Rightarrow> bcm2835_codec_fmt option" where
  "get_default_format d capture =
     (case get_format_list d capture of [] \<Rightarrow> None | e # es \<Rightarrow> Some e)"

text \<open>The loop of \<^verbatim>\<open>find_format_pix_fmt\<close>: the first entry with the fourcc, or
  \<^verbatim>\<open>NULL\<close>.\<close>

fun find_format_in :: "bcm2835_codec_fmt list \<Rightarrow> u32 \<Rightarrow> bcm2835_codec_fmt option" where
  "find_format_in [] pix_fmt = None"
| "find_format_in (e # es) pix_fmt =
     (if fourcc e = pix_fmt then Some e else find_format_in es pix_fmt)"

definition find_format_pix_fmt :: "u32 \<Rightarrow> bcm2835_codec_dev \<Rightarrow> bool \<Rightarrow> bcm2835_codec_fmt option" where
  "find_format_pix_fmt pix_fmt d capture = find_format_in (get_format_list d capture) pix_fmt"

definition find_format :: "v4l2_format \<Rightarrow> bcm2835_codec_dev \<Rightarrow> bool \<Rightarrow> bcm2835_codec_fmt option" where
  "find_format f d capture = find_format_pix_fmt (pix_pixelformat f) d capture"

text \<open>\<^verbatim>\<open>get_q_data\<close> and \<^verbatim>\<open>get_port_data\<close>: the index of the queue data and the
  port of a buffer type, \<open>None\<close> for \<^verbatim>\<open>NULL\<close>.\<close>

definition get_q_data :: "v4l2_buf_type \<Rightarrow> m2m_index option" where
  "get_q_data t =
     (case t of
        V4L2_BUF_TYPE_VIDEO_OUTPUT_MPLANE \<Rightarrow> Some V4L2_M2M_SRC
      | V4L2_BUF_TYPE_VIDEO_CAPTURE_MPLANE \<Rightarrow> Some V4L2_M2M_DST
      | _ \<Rightarrow> None)"

definition get_port_data :: "bcm2835_codec_ctx \<Rightarrow> v4l2_buf_type \<Rightarrow> port_id option" where
  "get_port_data ctx t =
     (if component ctx = None then None
      else (case t of
              V4L2_BUF_TYPE_VIDEO_OUTPUT_MPLANE \<Rightarrow> Some INPUT0
            | V4L2_BUF_TYPE_VIDEO_CAPTURE_MPLANE \<Rightarrow> Some OUTPUT0
            | _ \<Rightarrow> None))"

subsection \<open>Try-format\<close>

text \<open>The \<^verbatim>\<open>switch (f->fmt.pix_mp.field)\<close> of \<^verbatim>\<open>vidioc_try_fmt\<close> for the decode and
  deinterlace roles.\<close>

definition try_fmt_field :: "u32 \<Rightarrow> u32" where
  "try_fmt_field x =
     (if x = V4L2_FIELD_INTERLACED then V4L2_FIELD_INTERLACED
      else if x = V4L2_FIELD_TOP \<or> x = V4L2_FIELD_BOTTOM \<or> x = V4L2_FIELD_INTERLACED_TB
        then V4L2_FIELD_INTERLACED_TB
      else if x = V4L2_FIELD_INTERLACED_BT then V4L2_FIELD_INTERLACED_BT
      else V4L2_FIELD_NONE)"

text \<open>\<^verbatim>\<open>vidioc_try_fmt(ctx, f, fmt)\<close> with \<^verbatim>\<open>fmt\<close> not \<^verbatim>\<open>NULL\<close>, in the four steps
  of its body.  Lines 1484 to 1504: the width and height are clipped to the
  device maximum, and for a raw format raised to the minimum and, on the
  decoder and the image encoder, the height aligned to 16 lines.\<close>

definition try_fmt_clamp :: "bcm2835_codec_ctx \<Rightarrow> bcm2835_codec_fmt \<Rightarrow> v4l2_format \<Rightarrow> v4l2_format" where
  "try_fmt_clamp ctx fd f0 =
     (let f = (if max_w (dev ctx) < pix_width f0 then f0\<lparr>pix_width := max_w (dev ctx)\<rparr> else f0);
          f = (if max_h (dev ctx) < pix_height f then f\<lparr>pix_height := max_h (dev ctx)\<rparr> else f)
      in if flags fd AND V4L2_FMT_FLAG_COMPRESSED = 0 then
           (let f = (if pix_width f < MIN_W then f\<lparr>pix_width := MIN_W\<rparr> else f);
                f = (if pix_height f < MIN_H then f\<lparr>pix_height := MIN_H\<rparr> else f)
            in if role (dev ctx) = DECODE \<or> role (dev ctx) = ENCODE_IMAGE
               then f\<lparr>pix_height := ALIGN (pix_height f) 16\<rparr> else f)
         else f)"

text \<open>Lines 1505 to 1513: one plane, and the stride raised to the minimum and
  aligned.\<close>

definition try_fmt_stride :: "bcm2835_codec_ctx \<Rightarrow> bcm2835_codec_fmt \<Rightarrow> v4l2_format \<Rightarrow> v4l2_format" where
  "try_fmt_stride ctx fd f0 =
     (let f = f0\<lparr>pix_num_planes := 1\<rparr>;
          min_bytesperline = get_bytesperline (pix_width f) (pix_height f) fd (role (dev ctx));
          f = (if plane_bytesperline f < min_bytesperline
               then f\<lparr>plane_bytesperline := min_bytesperline\<rparr> else f)
      in f\<lparr>plane_bytesperline :=
             ALIGN (plane_bytesperline f) (ucast (bytesperline_align fd (role (dev ctx))))\<rparr>)"

text \<open>Lines 1515 to 1528: the buffer size, which a client may only raise, and only
  for a compressed format; the reserved words are cleared.\<close>

definition try_fmt_size :: "bcm2835_codec_fmt \<Rightarrow> v4l2_format \<Rightarrow> v4l2_format" where
  "try_fmt_size fd f0 =
     (let size = get_sizeimage (plane_bytesperline f0) (pix_width f0) (pix_height f0) fd;
          f = (if flags fd AND V4L2_FMT_FLAG_COMPRESSED = 0 \<or> plane_sizeimage f0 < size
               then f0\<lparr>plane_sizeimage := size\<rparr> else f0)
      in f\<lparr>plane_reserved := replicate (length (plane_reserved f)) 0\<rparr>)"

text \<open>Lines 1530 to 1556: the field is normalised.\<close>

definition try_fmt_set_field :: "bcm2835_codec_ctx \<Rightarrow> v4l2_format \<Rightarrow> v4l2_format" where
  "try_fmt_set_field ctx f =
     (if role (dev ctx) = DECODE \<or> role (dev ctx) = DEINTERLACE
      then f\<lparr>pix_field := try_fmt_field (pix_field f)\<rparr>
      else f\<lparr>pix_field := V4L2_FIELD_NONE\<rparr>)"

text \<open>The whole function: the return value, which is always 0, and the format as
  the call leaves it.\<close>

definition vidioc_try_fmt ::
  "bcm2835_codec_ctx \<Rightarrow> v4l2_format \<Rightarrow> bcm2835_codec_fmt \<Rightarrow> int \<times> v4l2_format" where
  "vidioc_try_fmt ctx f fd =
     (0, try_fmt_set_field ctx (try_fmt_size fd (try_fmt_stride ctx fd (try_fmt_clamp ctx fd f))))"

text \<open>\<^verbatim>\<open>vidioc_try_fmt_vid_cap\<close> and \<^verbatim>\<open>vidioc_try_fmt_vid_out\<close>.  When the second
  lookup also finds nothing, \<^verbatim>\<open>vidioc_try_fmt\<close> reads \<^verbatim>\<open>fmt->flags\<close> through a
  \<^verbatim>\<open>NULL\<close> pointer.\<close>

definition vidioc_try_fmt_vid_cap ::
  "bcm2835_codec_ctx \<Rightarrow> v4l2_format \<Rightarrow> (int \<times> v4l2_format) option" where
  "vidioc_try_fmt_vid_cap ctx f =
     (case find_format f (dev ctx) True of
        Some fd \<Rightarrow> Some (vidioc_try_fmt ctx f fd)
      | None \<Rightarrow>
          (case get_default_format (dev ctx) True of
             None \<Rightarrow> None
           | Some dflt \<Rightarrow>
               (let f = f\<lparr>pix_pixelformat := fourcc dflt\<rparr> in
                case find_format f (dev ctx) True of
                  None \<Rightarrow> None
                | Some fd \<Rightarrow> Some (vidioc_try_fmt ctx f fd))))"

definition vidioc_try_fmt_vid_out ::
  "bcm2835_codec_ctx \<Rightarrow> v4l2_format \<Rightarrow> (int \<times> v4l2_format) option" where
  "vidioc_try_fmt_vid_out ctx f =
     (let set_colorspace = (\<lambda>f. if pix_colorspace f = 0
                                 then f\<lparr>pix_colorspace := colorspace ctx\<rparr> else f) in
      case find_format f (dev ctx) False of
        Some fd \<Rightarrow> Some (vidioc_try_fmt ctx (set_colorspace f) fd)
      | None \<Rightarrow>
          (case get_default_format (dev ctx) False of
             None \<Rightarrow> None
           | Some dflt \<Rightarrow>
               (let f = f\<lparr>pix_pixelformat := fourcc dflt\<rparr> in
                case find_format f (dev ctx) False of
                  None \<Rightarrow> None
                | Some fd \<Rightarrow> Some (vidioc_try_fmt ctx (set_colorspace f) fd))))"

subsection \<open>The MMAL service\<close>

text \<open>The MMAL service behind \<^verbatim>\<open>dev->instance\<close> (\<^verbatim>\<open>vchiq-mmal/mmal-vchiq.c\<close>) and the
  kernel's completion are outside the driver file.  Their replies are
  parameters of the model: a call on a port returns a status and leaves the
  port in a state the service chooses; waiting on the completion returns the
  remaining time (0 on a timeout) and leaves the port as the buffer returns of
  that interval left it.  The buffer-return callbacks that run meanwhile are
  not part of these functions.  \<open>HZ\<close> is the kernel's tick rate.\<close>

record mmal_service =
  port_disable_reply :: "vchiq_mmal_port \<Rightarrow> int \<times> vchiq_mmal_port"
  port_enable_reply :: "vchiq_mmal_port \<Rightarrow> int \<times> vchiq_mmal_port"
  port_set_format_reply :: "vchiq_mmal_port \<Rightarrow> int \<times> vchiq_mmal_port"
  component_enable_reply :: int
  interlace_type_reply :: "int \<times> u32"
  completion_reply :: "vchiq_mmal_port \<Rightarrow> int \<times> vchiq_mmal_port"
  HZ :: nat


text \<open>Reading and writing a port through the session: \<open>None\<close> when
  \<^verbatim>\<open>ctx->component\<close> is \<^verbatim>\<open>NULL\<close>.\<close>

definition mmal_port :: "bcm2835_codec_ctx \<Rightarrow> port_id \<Rightarrow> vchiq_mmal_port option" where
  "mmal_port ctx p = map_option (\<lambda>c. port_of c p) (component ctx)"

definition set_mmal_port :: "port_id \<Rightarrow> vchiq_mmal_port \<Rightarrow> bcm2835_codec_ctx \<Rightarrow> bcm2835_codec_ctx" where
  "set_mmal_port p v ctx = ctx\<lparr>component := map_option (port_upd p v) (component ctx)\<rparr>"

definition mmal_call_made :: "mmal_call \<Rightarrow> bcm2835_codec_ctx \<Rightarrow> bcm2835_codec_ctx" where
  "mmal_call_made c ctx = ctx\<lparr>mmal_calls := mmal_calls ctx @ [c]\<rparr>"

definition vchiq_mmal_port_disable ::
  "mmal_service \<Rightarrow> port_id \<Rightarrow> bcm2835_codec_ctx \<Rightarrow> (int \<times> bcm2835_codec_ctx) option" where
  "vchiq_mmal_port_disable vpu p ctx = do {
     v \<leftarrow> mmal_port ctx p;
     Some (fst (port_disable_reply vpu v),
           set_mmal_port p (snd (port_disable_reply vpu v)) (mmal_call_made (PORT_DISABLE p) ctx))
   }"

definition vchiq_mmal_port_enable ::
  "mmal_service \<Rightarrow> port_id \<Rightarrow> buffer_cb \<Rightarrow> bcm2835_codec_ctx \<Rightarrow> (int \<times> bcm2835_codec_ctx) option" where
  "vchiq_mmal_port_enable vpu p cb ctx = do {
     v \<leftarrow> mmal_port ctx p;
     Some (fst (port_enable_reply vpu v),
           set_mmal_port p (snd (port_enable_reply vpu v)) (mmal_call_made (PORT_ENABLE p cb) ctx))
   }"

definition vchiq_mmal_port_set_format ::
  "mmal_service \<Rightarrow> port_id \<Rightarrow> bcm2835_codec_ctx \<Rightarrow> (int \<times> bcm2835_codec_ctx) option" where
  "vchiq_mmal_port_set_format vpu p ctx = do {
     v \<leftarrow> mmal_port ctx p;
     Some (fst (port_set_format_reply vpu v),
           set_mmal_port p (snd (port_set_format_reply vpu v))
             (mmal_call_made (PORT_SET_FORMAT p (current_buffer_num v)) ctx))
   }"


subsection \<open>Port configuration\<close>

definition MMAL_ES_FORMAT_FLAG_COL_FMTS_WIDTH_IS_COL_STRIDE :: u32 where
  "MMAL_ES_FORMAT_FLAG_COL_FMTS_WIDTH_IS_COL_STRIDE = 0x01"

text \<open>\<^verbatim>\<open>setup_mmal_port_format(ctx, q_data, port)\<close>: the port as the call leaves it.
  It reads through \<^verbatim>\<open>q_data->fmt\<close> and, for a raw format other than the column
  format, divides by \<^verbatim>\<open>q_data->fmt->depth\<close>.\<close>

definition setup_mmal_port_format ::
  "bcm2835_codec_ctx \<Rightarrow> bcm2835_codec_q_data \<Rightarrow> vchiq_mmal_port \<Rightarrow> vchiq_mmal_port option" where
  "setup_mmal_port_format ctx q v0 = do {
     fd \<leftarrow> fmt q;
     let v = v0\<lparr>format_encoding := mmal_fmt fd, format_flags := 0\<rparr>;
     v \<leftarrow>
       (if flags fd AND V4L2_FMT_FLAG_COMPRESSED = 0 then do {
          v \<leftarrow>
            (if mmal_fmt fd \<noteq> MMAL_ENCODING_YUVUV128 then
               (if depth fd = 0 then None
                else Some (v\<lparr>es_video_width := push_bit 3 (bytesperline q) div depth fd,
                             es_video_height := height q,
                             es_video_crop_width := crop_width q,
                             es_video_crop_height := crop_height q\<rparr>))
             else
               Some (v\<lparr>es_video_width := bytesperline q,
                        es_video_height := height q,
                        es_video_crop_width := crop_width q,
                        es_video_crop_height := crop_height q,
                        format_flags := MMAL_ES_FORMAT_FLAG_COL_FMTS_WIDTH_IS_COL_STRIDE\<rparr>));
          Some (v\<lparr>es_video_frame_rate_numerator := framerate_num ctx,
                   es_video_frame_rate_denominator := framerate_denom ctx\<rparr>)
        }
        else if role (dev ctx) = DECODE then
          Some (v\<lparr>es_video_width := 0, es_video_height := 0,
                   es_video_crop_width := 0, es_video_crop_height := 0\<rparr>)
        else
          Some (v\<lparr>es_video_width := crop_width q,
                   es_video_height := height q,
                   es_video_crop_width := crop_width q,
                   es_video_crop_height := crop_height q,
                   format_bitrate := bitrate ctx,
                   es_video_frame_rate_numerator := framerate_num ctx,
                   es_video_frame_rate_denominator := framerate_denom ctx\<rparr>));
     Some (v\<lparr>es_video_crop_x := 0, es_video_crop_y := 0, current_buffer_size := sizeimage q\<rparr>)
   }"

text \<open>\<^verbatim>\<open>setup_mmal_port_format\<close> applied to the port \<open>p\<close> of the session with the queue
  data at index \<open>qi\<close>.\<close>

definition setup_port ::
  "m2m_index \<Rightarrow> port_id \<Rightarrow> bcm2835_codec_ctx \<Rightarrow> bcm2835_codec_ctx option" where
  "setup_port qi p ctx = do {
     v \<leftarrow> mmal_port ctx p;
     v' \<leftarrow> setup_mmal_port_format ctx (q_data ctx qi) v;
     Some (set_mmal_port p v' ctx)
   }"

subsection \<open>Colorimetry\<close>

definition V4L2_COLORSPACE_SMPTE170M :: u32 where
  "V4L2_COLORSPACE_SMPTE170M = 1"

definition V4L2_COLORSPACE_SMPTE240M :: u32 where
  "V4L2_COLORSPACE_SMPTE240M = 2"

definition V4L2_COLORSPACE_REC709 :: u32 where
  "V4L2_COLORSPACE_REC709 = 3"

definition V4L2_COLORSPACE_JPEG :: u32 where
  "V4L2_COLORSPACE_JPEG = 7"

definition V4L2_COLORSPACE_SRGB :: u32 where
  "V4L2_COLORSPACE_SRGB = 8"

definition V4L2_COLORSPACE_OPRGB :: u32 where
  "V4L2_COLORSPACE_OPRGB = 9"

definition V4L2_COLORSPACE_BT2020 :: u32 where
  "V4L2_COLORSPACE_BT2020 = 10"

definition V4L2_COLORSPACE_RAW :: u32 where
  "V4L2_COLORSPACE_RAW = 11"

definition V4L2_COLORSPACE_DCI_P3 :: u32 where
  "V4L2_COLORSPACE_DCI_P3 = 12"

definition V4L2_XFER_FUNC_709 :: u32 where
  "V4L2_XFER_FUNC_709 = 1"

definition V4L2_XFER_FUNC_SRGB :: u32 where
  "V4L2_XFER_FUNC_SRGB = 2"

definition V4L2_XFER_FUNC_OPRGB :: u32 where
  "V4L2_XFER_FUNC_OPRGB = 3"

definition V4L2_XFER_FUNC_SMPTE240M :: u32 where
  "V4L2_XFER_FUNC_SMPTE240M = 4"

definition V4L2_XFER_FUNC_NONE :: u32 where
  "V4L2_XFER_FUNC_NONE = 5"

definition V4L2_XFER_FUNC_DCI_P3 :: u32 where
  "V4L2_XFER_FUNC_DCI_P3 = 6"

definition V4L2_YCBCR_ENC_601 :: u32 where
  "V4L2_YCBCR_ENC_601 = 1"

definition V4L2_YCBCR_ENC_709 :: u32 where
  "V4L2_YCBCR_ENC_709 = 2"

definition V4L2_YCBCR_ENC_BT2020 :: u32 where
  "V4L2_YCBCR_ENC_BT2020 = 6"

definition V4L2_YCBCR_ENC_SMPTE240M :: u32 where
  "V4L2_YCBCR_ENC_SMPTE240M = 8"

definition V4L2_QUANTIZATION_FULL_RANGE :: u32 where
  "V4L2_QUANTIZATION_FULL_RANGE = 1"

definition V4L2_QUANTIZATION_LIM_RANGE :: u32 where
  "V4L2_QUANTIZATION_LIM_RANGE = 2"

definition V4L2_MAP_XFER_FUNC_DEFAULT :: "u32 \<Rightarrow> u32" where
  "V4L2_MAP_XFER_FUNC_DEFAULT colsp =
     (if colsp = V4L2_COLORSPACE_OPRGB then V4L2_XFER_FUNC_OPRGB
      else if colsp = V4L2_COLORSPACE_SMPTE240M then V4L2_XFER_FUNC_SMPTE240M
      else if colsp = V4L2_COLORSPACE_DCI_P3 then V4L2_XFER_FUNC_DCI_P3
      else if colsp = V4L2_COLORSPACE_RAW then V4L2_XFER_FUNC_NONE
      else if colsp = V4L2_COLORSPACE_SRGB \<or> colsp = V4L2_COLORSPACE_JPEG then V4L2_XFER_FUNC_SRGB
      else V4L2_XFER_FUNC_709)"

definition V4L2_MAP_YCBCR_ENC_DEFAULT :: "u32 \<Rightarrow> u32" where
  "V4L2_MAP_YCBCR_ENC_DEFAULT colsp =
     (if colsp = V4L2_COLORSPACE_REC709 \<or> colsp = V4L2_COLORSPACE_DCI_P3 then V4L2_YCBCR_ENC_709
      else if colsp = V4L2_COLORSPACE_BT2020 then V4L2_YCBCR_ENC_BT2020
      else if colsp = V4L2_COLORSPACE_SMPTE240M then V4L2_YCBCR_ENC_SMPTE240M
      else V4L2_YCBCR_ENC_601)"

definition V4L2_MAP_QUANTIZATION_DEFAULT :: "bool \<Rightarrow> u32 \<Rightarrow> u32 \<Rightarrow> u32" where
  "V4L2_MAP_QUANTIZATION_DEFAULT is_rgb_or_hsv colsp enc =
     (if is_rgb_or_hsv \<or> colsp = V4L2_COLORSPACE_JPEG then V4L2_QUANTIZATION_FULL_RANGE
      else V4L2_QUANTIZATION_LIM_RANGE)"

definition MMAL_COLOR_SPACE_ITUR_BT601 :: u32 where
  "MMAL_COLOR_SPACE_ITUR_BT601 = MMAL_FOURCC (CHR ''Y'') (CHR ''6'') (CHR ''0'') (CHR ''1'')"

definition MMAL_COLOR_SPACE_ITUR_BT709 :: u32 where
  "MMAL_COLOR_SPACE_ITUR_BT709 = MMAL_FOURCC (CHR ''Y'') (CHR ''7'') (CHR ''0'') (CHR ''9'')"

text \<open>\<^verbatim>\<open>color_mmal2v4l\<close>.\<close>

definition color_mmal2v4l :: "bcm2835_codec_ctx \<Rightarrow> u32 \<Rightarrow> u32 \<Rightarrow> bcm2835_codec_ctx" where
  "color_mmal2v4l ctx encoding color_space =
     (let cs =
        (if encoding = MMAL_ENCODING_I420 \<or> encoding = MMAL_ENCODING_YV12 \<or>
            encoding = MMAL_ENCODING_NV12 \<or> encoding = MMAL_ENCODING_NV21 \<or>
            encoding = V4L2_PIX_FMT_YUYV \<or> encoding = V4L2_PIX_FMT_YVYU \<or>
            encoding = V4L2_PIX_FMT_UYVY \<or> encoding = V4L2_PIX_FMT_VYUY
         then (if color_space = MMAL_COLOR_SPACE_ITUR_BT601 then V4L2_COLORSPACE_SMPTE170M
               else if color_space = MMAL_COLOR_SPACE_ITUR_BT709 then V4L2_COLORSPACE_REC709
               else colorspace ctx)
         else V4L2_COLORSPACE_SRGB);
          enc = V4L2_MAP_YCBCR_ENC_DEFAULT cs
      in ctx\<lparr>colorspace := cs,
              xfer_func := V4L2_MAP_XFER_FUNC_DEFAULT cs,
              ycbcr_enc := enc,
              quant := V4L2_MAP_QUANTIZATION_DEFAULT (cs = V4L2_COLORSPACE_SRGB) cs enc\<rparr>)"

subsection \<open>The format-changed event\<close>

definition MMAL_ES_TYPE_VIDEO :: u32 where
  "MMAL_ES_TYPE_VIDEO = 3"

definition MMAL_INTERLACE_FIELDS_INTERLEAVED_UPPER_FIRST :: u32 where
  "MMAL_INTERLACE_FIELDS_INTERLEAVED_UPPER_FIRST = 3"

definition MMAL_INTERLACE_FIELDS_INTERLEAVED_LOWER_FIRST :: u32 where
  "MMAL_INTERLACE_FIELDS_INTERLEAVED_LOWER_FIRST = 4"

text \<open>\<^verbatim>\<open>struct mmal_msg_event_format_changed\<close>: \<open>fc_format_type\<close> is \<^verbatim>\<open>format.type\<close>,
  \<open>fc_es_video_crop_width\<close> is \<^verbatim>\<open>es.video.crop.width\<close>, and so on.\<close>

record mmal_msg_event_format_changed =
  fc_buffer_size_min :: u32
  fc_buffer_size_recommended :: u32
  fc_buffer_num_min :: u32
  fc_buffer_num_recommended :: u32
  fc_format_type :: u32
  fc_format_encoding :: u32
  fc_es_video_width :: u32
  fc_es_video_height :: u32
  fc_es_video_crop_width :: s32
  fc_es_video_crop_height :: s32
  fc_es_video_par_numerator :: u32
  fc_es_video_par_denominator :: u32
  fc_es_video_color_space :: u32

text \<open>An assignment through a \<^verbatim>\<open>q_data\<close> pointer: the entry of \<^verbatim>\<open>ctx->q_data[]\<close> at the
  index is replaced, so that two pointers to the same entry see each other's
  writes.\<close>

definition q_data_upd ::
  "m2m_index \<Rightarrow> (bcm2835_codec_q_data \<Rightarrow> bcm2835_codec_q_data) \<Rightarrow> bcm2835_codec_ctx \<Rightarrow> bcm2835_codec_ctx" where
  "q_data_upd qi g ctx = ctx\<lparr>q_data := (q_data ctx)(qi := g (q_data ctx qi))\<rparr>"

text \<open>\<^verbatim>\<open>handle_fmt_changed(ctx, mmal_buf)\<close> with the event \<open>ev\<close> that the buffer
  carries.\<close>

definition handle_fmt_changed ::
  "mmal_service \<Rightarrow> bcm2835_codec_ctx \<Rightarrow> mmal_msg_event_format_changed \<Rightarrow> bcm2835_codec_ctx option" where
  "handle_fmt_changed vpu ctx0 ev =
     (if fc_format_type ev \<noteq> MMAL_ES_TYPE_VIDEO then Some ctx0
      else do {
        let ctx = q_data_upd V4L2_M2M_DST
                    (\<lambda>q. q\<lparr>crop_width := fc_es_video_crop_width ev,
                            crop_height := fc_es_video_crop_height ev,
                            selection_set := True\<rparr>) ctx0;
        fd \<leftarrow> fmt (q_data ctx V4L2_M2M_DST);
        let ctx = q_data_upd V4L2_M2M_DST
                    (\<lambda>q. q\<lparr>bytesperline := get_bytesperline (fc_es_video_width ev)
                                              (fc_es_video_height ev) fd (role (dev ctx)),
                            height := fc_es_video_height ev,
                            sizeimage := fc_buffer_size_min ev\<rparr>) ctx;
        let ctx = (if fc_es_video_color_space ev \<noteq> 0
                   then color_mmal2v4l ctx (fc_format_encoding ev) (fc_es_video_color_space ev)
                   else ctx);
        let ctx = q_data_upd V4L2_M2M_DST
                    (\<lambda>q. q\<lparr>aspect_ratio := (fc_es_video_par_numerator ev,
                                             fc_es_video_par_denominator ev)\<rparr>) ctx;
        v \<leftarrow> mmal_port ctx OUTPUT0;
        let ctx = mmal_call_made (PORT_PARAMETER_GET_INTERLACE_TYPE OUTPUT0) ctx;
        let ret = fst (interlace_type_reply vpu);
        let mode = snd (interlace_type_reply vpu);
        let ctx = q_data_upd V4L2_M2M_DST
                    (\<lambda>q. q\<lparr>field :=
                       (if ret = 0 then
                          (if mode = MMAL_INTERLACE_FIELDS_INTERLEAVED_UPPER_FIRST
                             then V4L2_FIELD_INTERLACED_TB
                           else if mode = MMAL_INTERLACE_FIELDS_INTERLEAVED_LOWER_FIRST
                             then V4L2_FIELD_INTERLACED_BT
                           else V4L2_FIELD_NONE)
                        else V4L2_FIELD_NONE)\<rparr>) ctx;
        let vq = cap_q (m2m_ctx ctx);
        let ctx = (if streaming vq
                   then ctx\<lparr>m2m_ctx := (m2m_ctx ctx)\<lparr>cap_q := vq\<lparr>last_buffer_dequeued := True\<rparr>\<rparr>\<rparr>
                   else ctx);
        Some (ctx\<lparr>fh_events := fh_events ctx @ [V4L2_EVENT_SOURCE_CHANGE_RESOLUTION]\<rparr>)
      })"

subsection \<open>Set-format\<close>

text \<open>The mem2mem framework's \<^verbatim>\<open>v4l2_m2m_get_vq\<close> (the output queue for an output
  type, the capture queue otherwise) and videobuf2's \<^verbatim>\<open>vb2_is_busy\<close> (the queue
  has buffers allocated).\<close>

definition v4l2_m2m_get_vq :: "v4l2_m2m_ctx \<Rightarrow> v4l2_buf_type \<Rightarrow> vb2_queue option" where
  "v4l2_m2m_get_vq m t = Some (if V4L2_TYPE_IS_OUTPUT t then out_q m else cap_q m)"

definition vb2_is_busy :: "vb2_queue \<Rightarrow> bool" where
  "vb2_is_busy q = (0 < num_buffers q)"

text \<open>Lines 1650 to 1678 of \<^verbatim>\<open>vidioc_s_fmt\<close>: on the decoder and the image encoder a
  compressed format with a resolution is replicated to the destination queue
  data.  The result carries \<^verbatim>\<open>update_capture_port\<close>.\<close>

definition s_fmt_replicate ::
  "bcm2835_codec_ctx \<Rightarrow> v4l2_format \<Rightarrow> m2m_index \<Rightarrow> (bool \<times> bcm2835_codec_ctx) option" where
  "s_fmt_replicate ctx f qi =
     (if role (dev ctx) = DECODE \<or> role (dev ctx) = ENCODE_IMAGE then do {
        fd \<leftarrow> fmt (q_data ctx qi);
        if flags fd AND V4L2_FMT_FLAG_COMPRESSED \<noteq> 0 \<and>
           crop_width (q_data ctx qi) \<noteq> 0 \<and> height (q_data ctx qi) \<noteq> 0
        then do {
          let ctx = q_data_upd V4L2_M2M_DST
                      (\<lambda>d. d\<lparr>crop_width := crop_width (q_data ctx qi)\<rparr>) ctx;
          let ctx = q_data_upd V4L2_M2M_DST
                      (\<lambda>d. d\<lparr>crop_height := crop_height (q_data ctx qi)\<rparr>) ctx;
          let ctx = q_data_upd V4L2_M2M_DST
                      (\<lambda>d. d\<lparr>height := ALIGN (crop_height (q_data ctx qi)) 16\<rparr>) ctx;
          fd_dst \<leftarrow> fmt (q_data ctx V4L2_M2M_DST);
          let ctx = q_data_upd V4L2_M2M_DST
                      (\<lambda>d. d\<lparr>bytesperline := get_bytesperline (pix_width f) (pix_height f)
                                                fd_dst (role (dev ctx))\<rparr>) ctx;
          let ctx = q_data_upd V4L2_M2M_DST
                      (\<lambda>d. d\<lparr>sizeimage := get_sizeimage (bytesperline d) (crop_width d)
                                             (height d) fd_dst\<rparr>) ctx;
          Some (True, ctx)
        }
        else Some (False, ctx)
      }
      else Some (False, ctx))"

text \<open>Lines 1680 to 1752 of \<^verbatim>\<open>vidioc_s_fmt\<close>: the port of the queue is set up when
  the component exists.\<close>

definition s_fmt_port ::
  "mmal_service \<Rightarrow> bcm2835_codec_ctx \<Rightarrow> v4l2_buf_type \<Rightarrow> m2m_index \<Rightarrow> bool \<Rightarrow>
   (int \<times> bcm2835_codec_ctx) option" where
  "s_fmt_port vpu ctx t qi update_capture_port =
     (case get_port_data ctx t of
        None \<Rightarrow> Some (0, ctx)
      | Some p \<Rightarrow> do {
          v \<leftarrow> mmal_port ctx p;
          (reenable_port, ctx) \<leftarrow>
            (if enabled v then do {
               (ret, ctx) \<leftarrow> vchiq_mmal_port_disable vpu p ctx;
               v' \<leftarrow> mmal_port ctx p;
               Some (True, set_mmal_port p (v'\<lparr>current_buffer_num := current_buffer_num v\<rparr>) ctx)
             }
             else Some (False, ctx));
          ctx \<leftarrow> setup_port qi p ctx;
          (ret, ctx) \<leftarrow> vchiq_mmal_port_set_format vpu p ctx;
          let ret = (if ret \<noteq> 0 then - EINVAL else ret);
          (ret, ctx) \<leftarrow>
            (if reenable_port then vchiq_mmal_port_enable vpu p op_buffer_cb ctx
             else Some (ret, ctx));
          if update_capture_port then do {
            ctx \<leftarrow> setup_port V4L2_M2M_DST OUTPUT0 ctx;
            (ret, ctx) \<leftarrow> vchiq_mmal_port_set_format vpu OUTPUT0 ctx;
            Some (if ret \<noteq> 0 then - EINVAL else ret, ctx)
          }
          else Some (ret, ctx)
        })"

text \<open>\<^verbatim>\<open>vidioc_s_fmt(ctx, f, requested_height)\<close>: the return value and the session
  as the call leaves it.\<close>

definition vidioc_s_fmt ::
  "mmal_service \<Rightarrow> bcm2835_codec_ctx \<Rightarrow> v4l2_format \<Rightarrow> u32 \<Rightarrow> (int \<times> bcm2835_codec_ctx) option" where
  "vidioc_s_fmt vpu ctx0 f requested_height =
     (case v4l2_m2m_get_vq (m2m_ctx ctx0) (f_type f) of
        None \<Rightarrow> Some (- EINVAL, ctx0)
      | Some vq \<Rightarrow>
          (case get_q_data (f_type f) of
             None \<Rightarrow> Some (- EINVAL, ctx0)
           | Some qi \<Rightarrow>
               if vb2_is_busy vq then Some (- EBUSY, ctx0)
               else do {
                 let ctx = q_data_upd qi
                     (\<lambda>q. q\<lparr>fmt := find_format f (dev ctx0)
                                      (f_type f = V4L2_BUF_TYPE_VIDEO_CAPTURE_MPLANE),
                             crop_width := pix_width f,
                             height := pix_height f\<rparr>) ctx0;
                 ctx \<leftarrow>
                   (if \<not> selection_set (q_data ctx qi)
                    then Some (q_data_upd qi (\<lambda>q. q\<lparr>crop_height := requested_height\<rparr>) ctx)
                    else do {
                      fd \<leftarrow> fmt (q_data ctx qi);
                      Some (if flags fd AND V4L2_FMT_FLAG_COMPRESSED \<noteq> 0
                            then q_data_upd qi (\<lambda>q. q\<lparr>crop_height := requested_height\<rparr>) ctx
                            else ctx)
                    });
                 let ctx = ctx\<lparr>colorspace := pix_colorspace f,
                                xfer_func := ucast (pix_xfer_func f),
                                ycbcr_enc := ucast (pix_ycbcr_enc f),
                                quant := ucast (pix_quantization f)\<rparr>;
                 let ctx = q_data_upd qi
                     (\<lambda>q. q\<lparr>field := pix_field f,
                             bytesperline := plane_bytesperline f,
                             sizeimage := plane_sizeimage f\<rparr>) ctx;
                 (update_capture_port, ctx) \<leftarrow> s_fmt_replicate ctx f qi;
                 s_fmt_port vpu ctx (f_type f) qi update_capture_port
               }))"

text \<open>\<^verbatim>\<open>vidioc_s_fmt_vid_cap\<close> and \<^verbatim>\<open>vidioc_s_fmt_vid_out\<close>: the return value, the
  format handed back to the client and the session.\<close>

definition vidioc_s_fmt_vid_cap ::
  "mmal_service \<Rightarrow> bcm2835_codec_ctx \<Rightarrow> v4l2_format \<Rightarrow>
   (int \<times> v4l2_format \<times> bcm2835_codec_ctx) option" where
  "vidioc_s_fmt_vid_cap vpu ctx f = do {
     (ret, f') \<leftarrow> vidioc_try_fmt_vid_cap ctx f;
     if ret \<noteq> 0 then Some (ret, f', ctx)
     else do {
       (ret, ctx') \<leftarrow> vidioc_s_fmt vpu ctx f' (pix_height f);
       Some (ret, f', ctx')
     }
   }"

definition vidioc_s_fmt_vid_out ::
  "mmal_service \<Rightarrow> bcm2835_codec_ctx \<Rightarrow> v4l2_format \<Rightarrow>
   (int \<times> v4l2_format \<times> bcm2835_codec_ctx) option" where
  "vidioc_s_fmt_vid_out vpu ctx f = do {
     (ret, f') \<leftarrow> vidioc_try_fmt_vid_out ctx f;
     if ret \<noteq> 0 then Some (ret, f', ctx)
     else do {
       (ret, ctx') \<leftarrow> vidioc_s_fmt vpu ctx f' (pix_height f);
       Some (ret, f', ctx')
     }
   }"

subsection \<open>Selection\<close>

definition V4L2_SEL_TGT_CROP :: u32 where
  "V4L2_SEL_TGT_CROP = 0x0000"

definition V4L2_SEL_TGT_COMPOSE :: u32 where
  "V4L2_SEL_TGT_COMPOSE = 0x0100"

text \<open>\<^verbatim>\<open>struct v4l2_selection\<close>: \<open>sel_type\<close> is \<^verbatim>\<open>s->type\<close>, \<open>sel_target\<close> is
  \<^verbatim>\<open>s->target\<close> and an \<open>r_\<close> field is a member of the rectangle \<^verbatim>\<open>s->r\<close>.\<close>

record v4l2_selection =
  sel_type :: v4l2_buf_type
  sel_target :: u32
  r_left :: s32
  r_top :: s32
  r_width :: u32
  r_height :: u32

text \<open>The seven statements every accepting branch of the \<^verbatim>\<open>switch\<close> in
  \<^verbatim>\<open>vidioc_s_selection\<close> repeats: the rectangle is moved to the origin and clipped
  with \<^verbatim>\<open>min\<close>, and stored as the crop of the queue data.\<close>

definition s_selection_accept ::
  "v4l2_selection \<Rightarrow> m2m_index \<Rightarrow> bcm2835_codec_ctx \<Rightarrow> v4l2_selection \<times> bcm2835_codec_ctx" where
  "s_selection_accept s0 qi ctx =
     (let s = s0\<lparr>r_left := 0, r_top := 0\<rparr>;
          s = s\<lparr>r_width := min (r_width s) (crop_width (q_data ctx qi))\<rparr>;
          s = s\<lparr>r_height := min (r_height s) (height (q_data ctx qi))\<rparr>;
          ctx = q_data_upd qi (\<lambda>q. q\<lparr>crop_width := r_width s\<rparr>) ctx;
          ctx = q_data_upd qi (\<lambda>q. q\<lparr>crop_height := r_height s\<rparr>) ctx;
          ctx = q_data_upd qi (\<lambda>q. q\<lparr>selection_set := True\<rparr>) ctx
      in (s, ctx))"

text \<open>\<^verbatim>\<open>vidioc_s_selection\<close>: the return value, the selection handed back and the
  session.\<close>

definition vidioc_s_selection ::
  "mmal_service \<Rightarrow> bcm2835_codec_ctx \<Rightarrow> v4l2_selection \<Rightarrow>
   (int \<times> v4l2_selection \<times> bcm2835_codec_ctx) option" where
  "vidioc_s_selection vpu ctx s =
     (case
        (case sel_type s of
           V4L2_BUF_TYPE_VIDEO_CAPTURE \<Rightarrow>
             if role (dev ctx) = ENCODE \<or> role (dev ctx) = ENCODE_IMAGE then None
             else Some (V4L2_M2M_DST, if component ctx \<noteq> None then Some OUTPUT0 else None)
         | V4L2_BUF_TYPE_VIDEO_OUTPUT \<Rightarrow>
             if role (dev ctx) = DECODE then None
             else Some (V4L2_M2M_SRC, if component ctx \<noteq> None then Some INPUT0 else None)
         | _ \<Rightarrow> None)
      of
        None \<Rightarrow> Some (- EINVAL, s, ctx)
      | Some (qi, port) \<Rightarrow>
          (case
             (case role (dev ctx) of
                DECODE \<Rightarrow>
                  if sel_target s = V4L2_SEL_TGT_COMPOSE then Some (s_selection_accept s qi ctx)
                  else None
              | ENCODE \<Rightarrow>
                  if sel_target s = V4L2_SEL_TGT_CROP then Some (s_selection_accept s qi ctx)
                  else None
              | ENCODE_IMAGE \<Rightarrow>
                  if sel_target s = V4L2_SEL_TGT_CROP then Some (s_selection_accept s qi ctx)
                  else None
              | _ \<Rightarrow>
                  if sel_type s = V4L2_BUF_TYPE_VIDEO_CAPTURE then
                    (if sel_target s = V4L2_SEL_TGT_COMPOSE
                     then Some (s_selection_accept s qi ctx) else None)
                  else
                    (if sel_target s = V4L2_SEL_TGT_CROP
                     then Some (s_selection_accept s qi ctx) else None))
           of
             None \<Rightarrow> Some (- EINVAL, s, ctx)
           | Some (s', ctx') \<Rightarrow>
               (case port of
                  None \<Rightarrow> Some (0, s', ctx')
                | Some p \<Rightarrow> do {
                    ctx' \<leftarrow> setup_port qi p ctx';
                    (ret, ctx') \<leftarrow> vchiq_mmal_port_set_format vpu p ctx';
                    Some (if ret \<noteq> 0 then - EINVAL else 0, s', ctx')
                  })))"

subsection \<open>Buffer submission\<close>

definition V4L2_BUF_FLAG_KEYFRAME :: u32 where
  "V4L2_BUF_FLAG_KEYFRAME = 0x00000008"

definition V4L2_BUF_FLAG_LAST :: u32 where
  "V4L2_BUF_FLAG_LAST = 0x00100000"

definition MMAL_BUFFER_HEADER_FLAG_EOS :: u32 where
  "MMAL_BUFFER_HEADER_FLAG_EOS = push_bit 0 1"

definition MMAL_BUFFER_HEADER_FLAG_FRAME_END :: u32 where
  "MMAL_BUFFER_HEADER_FLAG_FRAME_END = push_bit 2 1"

definition MMAL_BUFFER_HEADER_FLAG_KEYFRAME :: u32 where
  "MMAL_BUFFER_HEADER_FLAG_KEYFRAME = push_bit 3 1"

definition MMAL_BUFFER_HEADER_VIDEO_FLAG_INTERLACED :: u32 where
  "MMAL_BUFFER_HEADER_VIDEO_FLAG_INTERLACED = push_bit 16 1"

definition MMAL_BUFFER_HEADER_VIDEO_FLAG_TOP_FIELD_FIRST :: u32 where
  "MMAL_BUFFER_HEADER_VIDEO_FLAG_TOP_FIELD_FIRST = push_bit 17 1"

definition MMAL_TIME_UNKNOWN :: u64 where
  "MMAL_TIME_UNKNOWN = push_bit 63 1"

text \<open>\<^verbatim>\<open>vb2_to_mmal_buffer(buf, vb2)\<close>: the MMAL header \<^verbatim>\<open>buf->mmal\<close> as the call leaves
  it.  \<open>field_override\<close> is the module parameter of that name; \<^verbatim>\<open>do_div\<close> is the
  unsigned 64-bit division.\<close>

definition vb2_to_mmal_buffer :: "s32 \<Rightarrow> mmal_buffer \<Rightarrow> vb2_v4l2_buffer \<Rightarrow> mmal_buffer" where
  "vb2_to_mmal_buffer field_override buf0 vb2 =
     (let buf = buf0\<lparr>mmal_flags := 0\<rparr>;
          buf = (if vb2_flags vb2 AND V4L2_BUF_FLAG_KEYFRAME \<noteq> 0
                 then buf\<lparr>mmal_flags := mmal_flags buf OR MMAL_BUFFER_HEADER_FLAG_KEYFRAME\<rparr>
                 else buf);
          buf = buf\<lparr>mmal_flags := mmal_flags buf OR MMAL_BUFFER_HEADER_FLAG_FRAME_END\<rparr>;
          buf = buf\<lparr>mmal_length := vb2_bytesused vb2\<rparr>;
          buf = (if mmal_length buf = 0 \<or> vb2_flags vb2 AND V4L2_BUF_FLAG_LAST \<noteq> 0
                 then buf\<lparr>mmal_flags := mmal_flags buf OR MMAL_BUFFER_HEADER_FLAG_EOS\<rparr>
                 else buf);
          pts = vb2_timestamp vb2 div 1000;
          buf = buf\<lparr>mmal_pts := pts, mmal_dts := MMAL_TIME_UNKNOWN\<rparr>;
          sel = (if field_override \<noteq> 0 then field_override else vb2_field vb2)
      in if sel = V4L2_FIELD_INTERLACED_BT
         then buf\<lparr>mmal_flags := mmal_flags buf OR MMAL_BUFFER_HEADER_VIDEO_FLAG_INTERLACED\<rparr>
         else if sel = V4L2_FIELD_INTERLACED_TB
         then buf\<lparr>mmal_flags := mmal_flags buf OR
                  (MMAL_BUFFER_HEADER_VIDEO_FLAG_INTERLACED OR
                   MMAL_BUFFER_HEADER_VIDEO_FLAG_TOP_FIELD_FIRST)\<rparr>
         else buf)"

subsection \<open>Start of streaming\<close>







subsection \<open>Device creation and session opening\<close>

text \<open>The part of \<^verbatim>\<open>bcm2835_codec_create\<close> that fills the device: the role, the two
  format lists that \<^verbatim>\<open>bcm2835_codec_get_supported_fmts\<close> built, and the largest
  size, which is that of the ISP for the ISP role and that of the codec
  otherwise.\<close>

definition bcm2835_codec_create ::
  "bcm2835_codec_role \<Rightarrow> bcm2835_codec_fmt list \<Rightarrow> bcm2835_codec_fmt list \<Rightarrow> bcm2835_codec_dev" where
  "bcm2835_codec_create r fmts_0 fmts_1 =
     \<lparr>role = r, supported_fmts_0 = fmts_0, supported_fmts_1 = fmts_1,
      max_w = (if r = ISP then MAX_W_ISP else MAX_W_CODEC),
      max_h = (if r = ISP then MAX_H_ISP else MAX_H_CODEC)\<rparr>"

text \<open>The loop of \<^verbatim>\<open>bcm2835_codec_get_supported_fmts\<close> over the encodings a port
  reports: the catalogue entries of those that \<^verbatim>\<open>get_fmt\<close> knows, in order.\<close>

fun supported_fmts_of :: "bool \<Rightarrow> u32 list \<Rightarrow> bcm2835_codec_fmt list" where
  "supported_fmts_of disable_bayer [] = []"
| "supported_fmts_of disable_bayer (enc # encs) =
     (case get_fmt disable_bayer enc of
        Some fd \<Rightarrow> fd # supported_fmts_of disable_bayer encs
      | None \<Rightarrow> supported_fmts_of disable_bayer encs)"

subsection \<open>Example values\<close>

text \<open>A decoder whose input port takes H264 and whose output port gives I420
  and NV12, the session a client has just opened on it (the state that
  \<^verbatim>\<open>bcm2835_codec_open\<close> sets up, no component yet), and a component with both
  ports disabled.\<close>

definition example_decoder :: bcm2835_codec_dev where
  "example_decoder =
     bcm2835_codec_create DECODE [supported_formats ! 54]
       [supported_formats ! 0, supported_formats ! 2]"

definition example_q_data :: "bcm2835_codec_fmt \<Rightarrow> bcm2835_codec_q_data" where
  "example_q_data fd =
     \<lparr>bytesperline = get_bytesperline DEFAULT_WIDTH DEFAULT_HEIGHT fd DECODE,
      height = DEFAULT_HEIGHT, crop_width = DEFAULT_WIDTH, crop_height = DEFAULT_HEIGHT,
      selection_set = False, aspect_ratio = (0, 0), field = V4L2_FIELD_NONE,
      sizeimage = get_sizeimage (get_bytesperline DEFAULT_WIDTH DEFAULT_HEIGHT fd DECODE)
                    DEFAULT_WIDTH DEFAULT_HEIGHT fd,
      sequence = 0, fmt = Some fd,
      eos_buffer = \<lparr>mmal_flags = 0, mmal_length = 0, mmal_pts = 0, mmal_dts = 0, mmal_cmd = 0\<rparr>,
      eos_buffer_in_use = False\<rparr>"

definition example_session :: bcm2835_codec_ctx where
  "example_session =
     \<lparr>dev = example_decoder, component = None, component_enabled = False,
      colorspace = V4L2_COLORSPACE_REC709, ycbcr_enc = 0, xfer_func = 0, quant = 0,
      q_data = (\<lambda>i. case i of V4L2_M2M_SRC \<Rightarrow> example_q_data (supported_formats ! 54)
                               | V4L2_M2M_DST \<Rightarrow>
                                   (example_q_data (supported_formats ! 0))
                                     \<lparr>aspect_ratio := (1, 1)\<rparr>),
      bitrate = 10 * 1000 * 1000, framerate_num = 30, framerate_denom = 1,
      aborting = False, num_ip_buffers = 0, num_op_buffers = 0,
      m2m_ctx = \<lparr>out_q = \<lparr>num_buffers = 0, streaming = False, last_buffer_dequeued = False\<rparr>,
                 cap_q = \<lparr>num_buffers = 0, streaming = False, last_buffer_dequeued = False\<rparr>\<rparr>,
      fh_events = [], mmal_calls = []\<rparr>"

definition example_port :: vchiq_mmal_port where
  "example_port =
     \<lparr>enabled = False, minimum_buffer_num = 1, minimum_buffer_size = 0,
      current_buffer_num = 1, current_buffer_size = 0, buffers_with_vpu = 0,
      format_encoding = 0, format_flags = 0, format_bitrate = 0,
      es_video_width = 0, es_video_height = 0, es_video_crop_x = 0, es_video_crop_y = 0,
      es_video_crop_width = 0, es_video_crop_height = 0,
      es_video_frame_rate_numerator = 0, es_video_frame_rate_denominator = 0\<rparr>"

text \<open>A service that succeeds in every call, marks a port enabled or disabled,
  and drops the buffer count of a port it disables to the port's minimum.\<close>

definition example_service :: mmal_service where
  "example_service =
     \<lparr>port_disable_reply =
        (\<lambda>v. (0, v\<lparr>enabled := False, current_buffer_num := minimum_buffer_num v\<rparr>)),
      port_enable_reply = (\<lambda>v. (0, v\<lparr>enabled := True\<rparr>)),
      port_set_format_reply = (\<lambda>v. (0, v)),
      component_enable_reply = 0,
      interlace_type_reply = (0, 0),
      completion_reply = (\<lambda>v. (1, v\<lparr>buffers_with_vpu := 0\<rparr>)),
      HZ = 100\<rparr>"

definition example_request :: v4l2_format where
  "example_request =
     \<lparr>f_type = V4L2_BUF_TYPE_VIDEO_CAPTURE_MPLANE, pix_width = 100, pix_height = 100,
      pix_pixelformat = V4L2_PIX_FMT_YUV420, pix_field = V4L2_FIELD_ANY, pix_colorspace = 0,
      plane_sizeimage = 0, plane_bytesperline = 0, plane_reserved = [0, 0, 0, 0, 0, 0],
      pix_num_planes = 1, pix_ycbcr_enc = 0, pix_quantization = 0, pix_xfer_func = 0\<rparr>"

definition example_component :: vchiq_mmal_component where
  "example_component = \<lparr>input0 = example_port, output0 = example_port\<rparr>"

text \<open>The example session after the client has set the 100x100 YUV420 capture
  format of \<open>example_request\<close>: the buffer is 112 lines high, the crop is
  100x100.\<close>

definition example_cropped_session :: bcm2835_codec_ctx where
  "example_cropped_session =
     q_data_upd V4L2_M2M_DST
       (\<lambda>q. q\<lparr>bytesperline := 128, height := 112, crop_width := 100, crop_height := 100,
               sizeimage := 21504\<rparr>)
       (example_session\<lparr>colorspace := 0\<rparr>)"

text \<open>A request to compose the whole 100x112 buffer.\<close>

definition example_selection :: v4l2_selection where
  "example_selection =
     \<lparr>sel_type = V4L2_BUF_TYPE_VIDEO_CAPTURE, sel_target = V4L2_SEL_TGT_COMPOSE,
      r_left = 0, r_top = 0, r_width = 100, r_height = 112\<rparr>"

text \<open>The example session once its component exists, and the event with which
  the decoder announces a 1920x1080 stream in buffers of 1920x1088.\<close>

definition example_component_session :: bcm2835_codec_ctx where
  "example_component_session = example_session\<lparr>component := Some example_component\<rparr>"

definition example_event :: mmal_msg_event_format_changed where
  "example_event =
     \<lparr>fc_buffer_size_min = 3133440, fc_buffer_size_recommended = 3133440,
      fc_buffer_num_min = 1, fc_buffer_num_recommended = 1,
      fc_format_type = MMAL_ES_TYPE_VIDEO, fc_format_encoding = MMAL_ENCODING_I420,
      fc_es_video_width = 1920, fc_es_video_height = 1088,
      fc_es_video_crop_width = 1920, fc_es_video_crop_height = 1080,
      fc_es_video_par_numerator = 1, fc_es_video_par_denominator = 1,
      fc_es_video_color_space = MMAL_COLOR_SPACE_ITUR_BT709\<rparr>"


subsection \<open>Reference functions of the specification\<close>

text \<open>The specification's \<open>align\<close> and \<open>alignUp\<close> on natural numbers: the least
  multiple of \<open>a\<close> that is at least \<open>x\<close>.\<close>

definition alignUp :: "nat \<Rightarrow> nat \<Rightarrow> nat" where
  "alignUp x a = ((x + a - 1) div a) * a"

section \<open>Verified properties\<close>

subsection \<open>Machine arithmetic read as natural numbers\<close>

lemma and_not_mask_push_drop: "(y::'a::len word) AND NOT (mask k) = push_bit k (drop_bit k y)"
  by (rule bit_word_eqI) (auto simp add: bit_simps)

lemma and_not_mask_eq_minus: "(y::'a::len word) AND NOT (mask k) = y - take_bit k y"
proof -
  have "push_bit k (drop_bit k y) + take_bit k y = y" by (rule bits_ident)
  then have "push_bit k (drop_bit k y) = y - take_bit k y" by (simp add: algebra_simps)
  then show ?thesis by (simp only: and_not_mask_push_drop)
qed

lemma uint_lt_2p32: "uint (x::32 word) < 2 ^ 32"
  using uint_bounded [of x] by simp

lemma unat_lt_2p32: "unat (x::32 word) < 2 ^ 32"
  using unsigned_less [of x, where 'a = nat] by simp

lemma sint_small: 
  fixes x :: "32 word"
  assumes "uint x < 2 ^ 31" 
  shows "sint x = uint x"
proof -
  have "- (2 ^ 31) \<le> uint x" by (rule order_trans [of _ 0]) simp_all
  then have "signed_take_bit 31 (uint x) = uint x"
    using assms by (rule signed_take_bit_int_eq_self)
  then show ?thesis by (simp add: sint_uint)
qed

lemma sint_big:
  fixes x :: "32 word"
  assumes ge: "2 ^ 31 \<le> uint x" 
  shows "sint x = uint x - 2 ^ 32"
proof -
  have lt: "uint x < 2 ^ 32" by (rule uint_lt_2p32)
  have "uint x div 2 ^ 31 = 1"
  proof (rule int_div_pos_eq)
    show "uint x = 2 ^ 31 * 1 + (uint x - 2 ^ 31)" by simp
    show "0 \<le> uint x - 2 ^ 31" using ge by simp
    show "uint x - 2 ^ 31 < 2 ^ 31" using lt by simp
  qed
  then have "bit (uint x) 31"
    by (simp only: bit_iff_odd_drop_bit drop_bit_eq_div) simp
  moreover have "take_bit 32 (uint x) = uint x" using lt by (simp add: take_bit_int_eq_self)
  ultimately show ?thesis
    by (simp add: sint_uint signed_take_bit_eq_take_bit_minus)
qed

lemma sint_nonneg_uint:
  fixes y :: "32 word"
  assumes "0 \<le> sint y"
  shows "sint y = uint y"
proof (cases "uint y < 2 ^ 31")
  case True
  then show ?thesis by (rule sint_small)
next
  case False
  then have "sint y = uint y - 2 ^ 32" by (simp add: sint_big)
  then show ?thesis using assms uint_lt_2p32 [of y] by simp
qed

lemma sint_neg_uint:
  fixes y :: "32 word"
  assumes "sint y < 0"
  shows "sint y = uint y - 2 ^ 32"
proof (cases "uint y < 2 ^ 31")
  case True
  then have "sint y = uint y" by (rule sint_small)
  then show ?thesis using assms by simp
next
  case False
  then show ?thesis by (simp add: sint_big)
qed

lemma uint_signed_drop_bit_small:
  fixes x :: "32 word"
  assumes "uint x < 2 ^ 31"
  shows "uint (signed_drop_bit n x) = uint x div 2 ^ n"
proof -
  have "sint (signed_drop_bit n x) = uint x div 2 ^ n"
    using assms by (simp add: sint_signed_drop_bit_eq sint_small drop_bit_eq_div)
  moreover have "0 \<le> uint x div 2 ^ n" by (simp add: pos_imp_zdiv_nonneg_iff)
  ultimately show ?thesis
    using sint_nonneg_uint [of "signed_drop_bit n x"] by simp
qed

lemma uint_signed_drop_bit_1_big:
  fixes x :: "32 word"
  assumes "2 ^ 31 \<le> uint x"
  shows "uint (signed_drop_bit 1 x) = uint x div 2 + 2 ^ 31"
proof -
  have lt: "uint x < 2 ^ 32" by (rule uint_lt_2p32)
  have "sint (signed_drop_bit 1 x) = (uint x - 2 ^ 32) div 2"
    using assms by (simp add: sint_signed_drop_bit_eq sint_big drop_bit_eq_div)
  then have s: "sint (signed_drop_bit 1 x) = uint x div 2 - 2 ^ 31" by simp
  then have "sint (signed_drop_bit 1 x) < 0" using lt by simp
  then have "sint (signed_drop_bit 1 x) = uint (signed_drop_bit 1 x) - 2 ^ 32"
    by (rule sint_neg_uint)
  with s show ?thesis by simp
qed

lemma uint_lt_of_unat_lt:
  fixes x :: "32 word"
  assumes "unat x < n"
  shows "uint x < int n"
proof -
  have "int (unat x) < int n" using assms by (simp only: of_nat_less_iff)
  then show ?thesis by simp
qed

lemma uint_ge_of_unat_ge:
  fixes x :: "32 word"
  assumes "n \<le> unat x"
  shows "int n \<le> uint x"
proof -
  have "int n \<le> int (unat x)" using assms by (simp only: of_nat_le_iff)
  then show ?thesis by simp
qed

lemma unat_eq_of_uint_eq:
  fixes y :: "32 word"
  assumes "uint y = int n"
  shows "unat y = n"
proof -
  have "int (unat y) = int n" using assms by simp
  then show ?thesis by (simp only: of_nat_eq_iff)
qed

lemma unat_signed_drop_bit_small:
  fixes x :: "32 word"
  assumes "unat x < 2 ^ 31"
  shows "unat (signed_drop_bit n x) = unat x div 2 ^ n"
proof -
  have "uint x < 2 ^ 31" using uint_lt_of_unat_lt [OF assms] by simp
  then have "uint (signed_drop_bit n x) = uint x div 2 ^ n"
    by (rule uint_signed_drop_bit_small)
  also have "\<dots> = int (unat x div 2 ^ n)" by (simp add: zdiv_int)
  finally show ?thesis by (rule unat_eq_of_uint_eq)
qed

lemma unat_signed_drop_bit_1_big:
  fixes x :: "32 word"
  assumes "2 ^ 31 \<le> unat x"
  shows "unat (signed_drop_bit 1 x) = unat x div 2 + 2 ^ 31"
proof -
  have "2 ^ 31 \<le> uint x" using uint_ge_of_unat_ge [OF assms] by simp
  then have "uint (signed_drop_bit 1 x) = uint x div 2 + 2 ^ 31"
    by (rule uint_signed_drop_bit_1_big)
  also have "\<dots> = int (unat x div 2 + 2 ^ 31)" by (simp add: zdiv_int)
  finally show ?thesis by (rule unat_eq_of_uint_eq)
qed




lemma word_sless_small:
  fixes a b :: "32 word"
  assumes "unat a < 2 ^ 31" "unat b < 2 ^ 31"
  shows "(a <s b) = (unat a < unat b)"
proof -
  have a: "uint a < 2 ^ 31" using uint_lt_of_unat_lt [OF assms(1)] by simp
  have b: "uint b < 2 ^ 31" using uint_lt_of_unat_lt [OF assms(2)] by simp
  have "(a <s b) = (uint a < uint b)" by (simp only: word_sless_alt sint_small [OF a] sint_small [OF b])
  also have "\<dots> = (int (unat a) < int (unat b))" by (simp only: of_nat_unat)
  also have "\<dots> = (unat a < unat b)" by (simp only: of_nat_less_iff)
  finally show ?thesis .
qed

lemma pow2_minus_1_mask: "(2 ^ k - 1 :: 32 word) = mask k"
  by (simp add: mask_eq_decr_exp)

lemma unat_ALIGN_pow2:
  assumes "k < 32" "unat x + 2 ^ k \<le> 2 ^ 32"
  shows "unat (ALIGN x (2 ^ k)) = alignUp (unat x) (2 ^ k)"
proof -
  have "uint (mask k :: 32 word) = mask (min 32 k)" by (simp add: uint_mask_eq)
  also have "\<dots> = (mask k :: int)" using assms(1) by (simp add: min_def)
  also have "\<dots> = 2 ^ k - 1" by (rule mask_eq_exp_minus_1)
  also have "\<dots> = int (2 ^ k - 1)" by (simp add: of_nat_diff)
  finally have m: "unat (mask k :: 32 word) = 2 ^ k - 1" by (rule unat_eq_of_uint_eq)
  have pos: "(0::nat) < 2 ^ k" by simp
  have a: "unat (x + mask k) = unat x + (2 ^ k - 1)"
    using assms(2) m pos by (simp add: unat_add_lem [THEN iffD1])
  have "ALIGN x (2 ^ k) = (x + mask k) - take_bit k (x + mask k)"
    by (simp add: ALIGN_def pow2_minus_1_mask and_not_mask_eq_minus)
  moreover have "take_bit k (x + mask k) \<le> x + mask k"
    by (simp add: word_le_nat_alt unsigned_take_bit_eq)
  ultimately have "unat (ALIGN x (2 ^ k)) = unat (x + mask k) - unat (take_bit k (x + mask k))"
    by (simp add: unat_sub)
  also have "\<dots> = (unat x + (2 ^ k - 1)) - (unat x + (2 ^ k - 1)) mod 2 ^ k"
    by (simp only: unsigned_take_bit_eq a) (simp add: take_bit_eq_mod)
  also have "\<dots> = ((unat x + (2 ^ k - 1)) div 2 ^ k) * 2 ^ k"
    by (simp add: minus_mod_eq_div_mult)
  finally show ?thesis using pos by (simp add: alignUp_def)
qed



lemma ucast_of_nat_unat: "(ucast (a :: 8 word) :: 32 word) = of_nat (unat a)"
  by (simp add: of_nat_unat)

lemma ucast_u8_pow2: 
  assumes "unat (a :: 8 word) = 2 ^ k"
  shows "(ucast a :: 32 word) = 2 ^ k"
  using assms by (simp add: ucast_of_nat_unat)


lemma unat_mult_small:
  fixes a b :: "32 word"
  assumes "unat a * unat b < 2 ^ 32"
  shows "unat (a * b) = unat a * unat b"
  using assms by (simp add: unat_mult_lem [THEN iffD1])

lemma get_bytesperline_std:
  "fourcc fd \<noteq> V4L2_PIX_FMT_NV12_COL128 \<Longrightarrow>
   get_bytesperline w h fd r =
     ALIGN (signed_drop_bit 3 (w * depth fd)) (ucast (bytesperline_align fd r))"
  by (simp add: get_bytesperline_def)

lemma get_bytesperline_col128:
  "fourcc fd = V4L2_PIX_FMT_NV12_COL128 \<Longrightarrow>
   get_bytesperline w h fd r = signed_drop_bit 1 (h * 3)"
  by (simp add: get_bytesperline_def)

lemma unat_get_bytesperline_std:
  assumes ne: "fourcc fd \<noteq> V4L2_PIX_FMT_NV12_COL128"
    and small: "unat w * unat (depth fd) < 2 ^ 31"
    and al: "unat (bytesperline_align fd r) = 2 ^ k"
  shows "unat (get_bytesperline w h fd r) =
         alignUp (unat w * unat (depth fd) div 8) (2 ^ k)"
proof -
  have k8: "k < 8"
  proof (rule ccontr)
    assume "\<not> k < 8"
    then have "(2::nat) ^ 8 \<le> 2 ^ k" by (intro power_increasing) simp_all
    moreover have "unat (bytesperline_align fd r) < 2 ^ 8"
      using unsigned_less [of "bytesperline_align fd r", where 'a = nat] by simp
    ultimately show False using al by simp
  qed
  have p: "unat (w * depth fd) = unat w * unat (depth fd)"
    using small by (simp add: unat_mult_small)
  then have s: "unat (signed_drop_bit 3 (w * depth fd)) = unat w * unat (depth fd) div 8"
    using small by (simp add: unat_signed_drop_bit_small)
  have "unat w * unat (depth fd) div 8 < 2 ^ 31" using small by simp
  moreover have "(2::nat) ^ k < 2 ^ 8" using k8 by (intro power_strict_increasing) simp_all
  ultimately have fit: "unat (signed_drop_bit 3 (w * depth fd)) + 2 ^ k \<le> 2 ^ 32"
    using s by simp
  have "get_bytesperline w h fd r =
        ALIGN (signed_drop_bit 3 (w * depth fd)) (2 ^ k)"
    using ne al by (simp add: get_bytesperline_def ucast_u8_pow2)
  then show ?thesis using k8 fit s by (simp add: unat_ALIGN_pow2)
qed

lemma unat_get_bytesperline_col128:
  assumes eq: "fourcc fd = V4L2_PIX_FMT_NV12_COL128"
    and small: "unat h * 3 < 2 ^ 31"
  shows "unat (get_bytesperline w h fd r) = unat h * 3 div 2"
proof -
  have "unat (h * 3) = unat h * 3"
    using small by (simp add: unat_mult_small)
  then show ?thesis using eq small
    by (simp add: get_bytesperline_def unat_signed_drop_bit_small)
qed

lemma get_sizeimage_jpeg:
  "flags fd AND V4L2_FMT_FLAG_COMPRESSED \<noteq> 0 \<Longrightarrow> fourcc fd = V4L2_PIX_FMT_JPEG \<Longrightarrow>
   get_sizeimage b w h fd = DEF_COMP_BUF_SIZE_JPEG"
  by (simp add: get_sizeimage_def)

lemma get_sizeimage_tier:
  "flags fd AND V4L2_FMT_FLAG_COMPRESSED \<noteq> 0 \<Longrightarrow> fourcc fd \<noteq> V4L2_PIX_FMT_JPEG \<Longrightarrow>
   get_sizeimage b w h fd =
     (if (1280 * 720) <s (w * h) then DEF_COMP_BUF_SIZE_GREATER_720P
      else DEF_COMP_BUF_SIZE_720P_OR_LESS)"
  by (simp add: get_sizeimage_def)

lemma tier_test_nat:
  fixes w h :: "32 word"
  assumes "unat w * unat h < 2 ^ 31"
  shows "((1280 * 720) <s (w * h)) = (1280 * 720 < unat w * unat h)"
proof -
  have p: "unat (w * h) = unat w * unat h"
    using assms by (simp add: unat_mult_small)
  have "((1280 * 720 :: 32 word) <s (w * h)) = (unat (1280 * 720 :: 32 word) < unat (w * h))"
    using assms p by (intro word_sless_small) simp_all
  then show ?thesis using p by simp
qed

lemma get_sizeimage_raw_std:
  "flags fd AND V4L2_FMT_FLAG_COMPRESSED = 0 \<Longrightarrow> fourcc fd \<noteq> V4L2_PIX_FMT_NV12_COL128 \<Longrightarrow>
   get_sizeimage b w h fd = signed_drop_bit 1 (b * h * size_multiplier_x2 fd)"
  by (simp add: get_sizeimage_def)


lemma unat_mult3_small:
  fixes a b c :: "32 word"
  assumes "unat a * unat b * unat c < 2 ^ 32"
  shows "unat (a * b * c) = unat a * unat b * unat c"
proof (cases "unat c = 0")
  case True
  then have "c = 0" by (simp add: unat_eq_zero)
  then show ?thesis by simp
next
  case False
  then have "unat a * unat b \<le> unat a * unat b * unat c" by simp
  then have "unat a * unat b < 2 ^ 32" using assms by (rule le_less_trans)
  then have "unat (a * b) = unat a * unat b" by (rule unat_mult_small)
  moreover from this have "unat (a * b) * unat c < 2 ^ 32" using assms by simp
  ultimately show ?thesis by (simp add: unat_mult_small)
qed


lemma unat_get_sizeimage_raw_col128:
  assumes "flags fd AND V4L2_FMT_FLAG_COMPRESSED = 0"
    and "fourcc fd = V4L2_PIX_FMT_NV12_COL128"
    and w: "unat w + 128 \<le> 2 ^ 32"
    and small: "alignUp (unat w) 128 * unat b < 2 ^ 32"
  shows "unat (get_sizeimage b w h fd) = alignUp (unat w) 128 * unat b"
proof -
  have "unat (ALIGN w (2 ^ 7)) = alignUp (unat w) (2 ^ 7)"
    using w by (intro unat_ALIGN_pow2) simp_all
  then have a: "unat (ALIGN w 128) = alignUp (unat w) 128" by simp
  then have "unat (ALIGN w 128 * b) = alignUp (unat w) 128 * unat b"
    using small by (simp add: unat_mult_small)
  then show ?thesis using assms(1,2) by (simp add: get_sizeimage_def)
qed

lemma def_comp_buf_sizes:
  "DEF_COMP_BUF_SIZE_720P_OR_LESS = 524288"
  "DEF_COMP_BUF_SIZE_GREATER_720P = 786432"
  "DEF_COMP_BUF_SIZE_JPEG = 4194304"
  by (simp_all add: DEF_COMP_BUF_SIZE_720P_OR_LESS_def DEF_COMP_BUF_SIZE_GREATER_720P_def
      DEF_COMP_BUF_SIZE_JPEG_def)

subsection \<open>The geometry calculator\<close>

text \<open>C4 (amended): for every width \<open>w\<close>, height \<open>h\<close>, format descriptor \<open>fd\<close> and
  role \<open>r\<close>, \<^verbatim>\<open>get_bytesperline\<close> (the spec's \<open>strideFor\<close>) computes in 32-bit C
  arithmetic: for every format other than the packed-column format it returns
  \<^verbatim>\<open>ALIGN((width * depth) >> 3, bytesperline_align[role])\<close>, and that is
  \<open>width * depth / 8\<close> rounded up to a multiple of the alignment whenever the
  product \<open>width * depth\<close> fits an \<^verbatim>\<open>int\<close> (is below \<open>2 ^ 31\<close>) and the alignment
  is a power of two.  For \<^verbatim>\<open>NV12_COL128\<close> it returns \<^verbatim>\<open>(height * 3) >> 1\<close> whatever
  the width, and that is \<open>height * 3 / 2\<close> whenever \<open>height * 3\<close> fits an
  \<^verbatim>\<open>int\<close>.\<close>

theorem get_bytesperline_strideFor:
  "(fourcc fd \<noteq> V4L2_PIX_FMT_NV12_COL128 \<longrightarrow>
      get_bytesperline w h fd r =
        ALIGN (signed_drop_bit 3 (w * depth fd)) (ucast (bytesperline_align fd r))) \<and>
   (fourcc fd \<noteq> V4L2_PIX_FMT_NV12_COL128 \<and> unat w * unat (depth fd) < 2 ^ 31 \<and>
    unat (bytesperline_align fd r) = 2 ^ k \<longrightarrow>
      unat (get_bytesperline w h fd r) =
        alignUp (unat w * unat (depth fd) div 8) (2 ^ k)) \<and>
   (fourcc fd = V4L2_PIX_FMT_NV12_COL128 \<longrightarrow>
      get_bytesperline w h fd r = signed_drop_bit 1 (h * 3) \<and>
      get_bytesperline w' h fd r = get_bytesperline w h fd r) \<and>
   (fourcc fd = V4L2_PIX_FMT_NV12_COL128 \<and> unat h * 3 < 2 ^ 31 \<longrightarrow>
      unat (get_bytesperline w h fd r) = unat h * 3 div 2)"
proof (intro conjI impI)
  assume "fourcc fd \<noteq> V4L2_PIX_FMT_NV12_COL128"
  then show "get_bytesperline w h fd r =
        ALIGN (signed_drop_bit 3 (w * depth fd)) (ucast (bytesperline_align fd r))"
    by (rule get_bytesperline_std)
next
  assume "fourcc fd \<noteq> V4L2_PIX_FMT_NV12_COL128 \<and> unat w * unat (depth fd) < 2 ^ 31 \<and>
    unat (bytesperline_align fd r) = 2 ^ k"
  then show "unat (get_bytesperline w h fd r) =
        alignUp (unat w * unat (depth fd) div 8) (2 ^ k)"
    by (simp add: unat_get_bytesperline_std)
next
  assume "fourcc fd = V4L2_PIX_FMT_NV12_COL128"
  then show "get_bytesperline w h fd r = signed_drop_bit 1 (h * 3)"
    by (rule get_bytesperline_col128)
next
  assume "fourcc fd = V4L2_PIX_FMT_NV12_COL128"
  then show "get_bytesperline w' h fd r = get_bytesperline w h fd r"
    by (simp add: get_bytesperline_col128)
next
  assume "fourcc fd = V4L2_PIX_FMT_NV12_COL128 \<and> unat h * 3 < 2 ^ 31"
  then show "unat (get_bytesperline w h fd r) = unat h * 3 div 2"
    by (simp add: unat_get_bytesperline_col128)
qed

lemma fourcc_distinct:
  "V4L2_PIX_FMT_YUV420 \<noteq> V4L2_PIX_FMT_NV12_COL128"
  "V4L2_PIX_FMT_H264 \<noteq> V4L2_PIX_FMT_JPEG"
  by (simp_all add: V4L2_PIX_FMT_YUV420_def V4L2_PIX_FMT_NV12_COL128_def
      V4L2_PIX_FMT_H264_def V4L2_PIX_FMT_JPEG_def v4l2_fourcc_def)

theorem get_bytesperline_strideFor_witness:
  "get_bytesperline 1000 1080 (supported_formats ! 0) ENCODE = 1024 \<and>
   unat (get_bytesperline 1000 1080 (supported_formats ! 0) ENCODE) = alignUp (1000 * 8 div 8) (2 ^ 6) \<and>
   get_bytesperline 1000 1080 (supported_formats ! 9) DECODE = 1620 \<and>
   get_bytesperline 7 1080 (supported_formats ! 9) DECODE =
     get_bytesperline 1000 1080 (supported_formats ! 9) DECODE \<and>
   unat (get_bytesperline 1000 1080 (supported_formats ! 9) DECODE) = 1080 * 3 div 2"
  using get_bytesperline_strideFor [where fd = "supported_formats ! 0" and w = 1000
      and h = 1080 and r = ENCODE and k = 6 and w' = 0]
    get_bytesperline_strideFor [where fd = "supported_formats ! 9" and w = 1000
      and h = 1080 and r = DECODE and k = 0 and w' = 7]
  by (simp add: supported_formats_def fourcc_distinct per_role_def ALIGN_def alignUp_def)

text \<open>Without the bound the rounded quotient is not what is returned: for YUV420 on the
  decoder a width of \<open>0x10000001\<close> makes \<open>width * depth\<close> negative as an \<^verbatim>\<open>int\<close>,
  and the stride is 4026531872 where \<open>width * depth / 8\<close> rounded up to a
  multiple of 32 is 268435488.\<close>

theorem get_bytesperline_wraps_for_wide_frames:
  "fourcc (supported_formats ! 0) \<noteq> V4L2_PIX_FMT_NV12_COL128 \<and>
   unat (bytesperline_align (supported_formats ! 0) DECODE) = 2 ^ 5 \<and>
   get_bytesperline 0x10000001 1080 (supported_formats ! 0) DECODE = 4026531872 \<and>
   alignUp (unat (0x10000001 :: u32) * unat (depth (supported_formats ! 0)) div 8) (2 ^ 5) =
     268435488"
  by (simp add: supported_formats_def per_role_def get_bytesperline_def
        ALIGN_def alignUp_def V4L2_PIX_FMT_NV12_COL128_def
        V4L2_PIX_FMT_YUV420_def v4l2_fourcc_def)






lemma alignUp_mono: "x \<le> y \<Longrightarrow> alignUp x a \<le> alignUp y a"
  unfolding alignUp_def by (intro mult_le_mono1 div_le_mono) simp

lemma alignUp_upper: "alignUp x a \<le> x + a - 1"
  unfolding alignUp_def by (rule div_times_less_eq_dividend)

lemma unat_signed_drop_bit_1_mono:
  fixes x y :: "32 word"
  assumes "unat x \<le> unat y"
  shows "unat (signed_drop_bit 1 x) \<le> unat (signed_drop_bit 1 y)"
proof (cases "unat y < 2 ^ 31")
  case True
  then have "unat x < 2 ^ 31" using assms by simp
  then have "unat (signed_drop_bit 1 x) = unat x div 2 ^ 1" by (rule unat_signed_drop_bit_small)
  moreover have "unat (signed_drop_bit 1 y) = unat y div 2 ^ 1"
    using True by (rule unat_signed_drop_bit_small)
  ultimately show ?thesis using assms by (simp add: div_le_mono)
next
  case False
  then have "2 ^ 31 \<le> unat y" by simp
  then have y: "unat (signed_drop_bit 1 y) = unat y div 2 + 2 ^ 31"
    by (rule unat_signed_drop_bit_1_big)
  show ?thesis
  proof (cases "unat x < 2 ^ 31")
    case True
    then have "unat (signed_drop_bit 1 x) = unat x div 2 ^ 1" by (rule unat_signed_drop_bit_small)
    then show ?thesis using True y by simp
  next
    case False
    then have "2 ^ 31 \<le> unat x" by simp
    then have "unat (signed_drop_bit 1 x) = unat x div 2 + 2 ^ 31"
      by (rule unat_signed_drop_bit_1_big)
    then show ?thesis using y assms by (simp add: div_le_mono)
  qed
qed

lemma mult3_bound:
  fixes a b c :: nat
  assumes "a \<le> A" "b \<le> B" "c \<le> C"
  shows "a * b * c \<le> A * B * C"
  using assms by (intro mult_le_mono) 


lemma u8_pow2_exponent:
  assumes "unat (a :: 8 word) = 2 ^ k"
  shows "k < 8"
proof (rule ccontr)
  assume "\<not> k < 8"
  then have "(2::nat) ^ 8 \<le> 2 ^ k" by (intro power_increasing) simp_all
  moreover have "unat a < 2 ^ 8"
    using unsigned_less [of a, where 'a = nat] by simp
  ultimately show False using assms by simp
qed

lemma supported_formats_geometry:
  assumes "fd \<in> set supported_formats"
  shows "flags fd AND V4L2_FMT_FLAG_COMPRESSED \<noteq> 0 \<or>
    (flags fd AND V4L2_FMT_FLAG_COMPRESSED = 0 \<and>
     (unat (bytesperline_align fd r) = 2 ^ 5 \<or> unat (bytesperline_align fd r) = 2 ^ 6) \<and>
     unat (depth fd) \<le> 32 \<and> unat (size_multiplier_x2 fd) \<le> 3)"
proof -
  have "\<forall>f \<in> set supported_formats.
      flags f AND V4L2_FMT_FLAG_COMPRESSED \<noteq> 0 \<or>
      (flags f AND V4L2_FMT_FLAG_COMPRESSED = 0 \<and>
       (unat (bytesperline_align f r) = 2 ^ 5 \<or> unat (bytesperline_align f r) = 2 ^ 6) \<and>
       unat (depth f) \<le> 32 \<and> unat (size_multiplier_x2 f) \<le> 3)"
    by (cases r) (simp_all add: supported_formats_def per_role_def V4L2_FMT_FLAG_COMPRESSED_def)
  then show ?thesis using assms by blast
qed

lemma sizeimage_mono_compressed:
  assumes c: "flags fd AND V4L2_FMT_FLAG_COMPRESSED \<noteq> 0"
    and w: "w1 \<le> w2" and h: "h1 \<le> h2" and wm: "w2 \<le> 16384" and hm: "h2 \<le> 16384"
  shows "get_sizeimage b1 w1 h1 fd \<le> get_sizeimage b2 w2 h2 fd"
proof (cases "fourcc fd = V4L2_PIX_FMT_JPEG")
  case True
  then show ?thesis using c by (simp add: get_sizeimage_jpeg)
next
  case False
  have W: "unat w1 \<le> unat w2" "unat w2 \<le> 16384" and H: "unat h1 \<le> unat h2" "unat h2 \<le> 16384"
    using w h wm hm by (simp_all add: word_le_nat_alt)
  have le: "unat w1 * unat h1 \<le> unat w2 * unat h2" using W(1) H(1) by (rule mult_le_mono)
  have "unat w2 * unat h2 \<le> 16384 * 16384" using W(2) H(2) by (rule mult_le_mono)
  then have s2: "unat w2 * unat h2 < 2 ^ 31" by simp
  from le s2 have s1: "unat w1 * unat h1 < 2 ^ 31" by (rule le_less_trans)
  have e1: "get_sizeimage b1 w1 h1 fd =
      (if 1280 * 720 < unat w1 * unat h1 then DEF_COMP_BUF_SIZE_GREATER_720P
       else DEF_COMP_BUF_SIZE_720P_OR_LESS)"
    by (simp only: get_sizeimage_tier [OF c False] tier_test_nat [OF s1])
  have e2: "get_sizeimage b2 w2 h2 fd =
      (if 1280 * 720 < unat w2 * unat h2 then DEF_COMP_BUF_SIZE_GREATER_720P
       else DEF_COMP_BUF_SIZE_720P_OR_LESS)"
    by (simp only: get_sizeimage_tier [OF c False] tier_test_nat [OF s2])
  show ?thesis using le by (simp add: e1 e2 def_comp_buf_sizes)
qed

lemma sizeimage_mono_raw_std:
  assumes raw: "flags fd AND V4L2_FMT_FLAG_COMPRESSED = 0"
    and ne: "fourcc fd \<noteq> V4L2_PIX_FMT_NV12_COL128"
    and al: "unat (bytesperline_align fd r) = 2 ^ k"
    and d: "unat (depth fd) \<le> 32" and m: "unat (size_multiplier_x2 fd) \<le> 3"
    and w: "w1 \<le> w2" and h: "h1 \<le> h2" and wm: "w2 \<le> 16384" and hm: "h2 \<le> 16384"
  shows "get_sizeimage (get_bytesperline w1 h1 fd r) w1 h1 fd \<le>
         get_sizeimage (get_bytesperline w2 h2 fd r) w2 h2 fd"
proof -
  have W: "unat w1 \<le> unat w2" "unat w2 \<le> 16384" and H: "unat h1 \<le> unat h2" "unat h2 \<le> 16384"
    using w h wm hm by (simp_all add: word_le_nat_alt)
  have k8: "k < 8" using al by (rule u8_pow2_exponent)
  then have "(2::nat) ^ k \<le> 2 ^ 7" by (intro power_increasing) simp_all
  then have a128: "(2::nat) ^ k \<le> 128" by simp
  have wd: "unat w1 * unat (depth fd) \<le> unat w2 * unat (depth fd)"
    using W(1) by (rule mult_le_mono1)
  have "unat w2 * unat (depth fd) \<le> 16384 * 32" using W(2) d by (rule mult_le_mono)
  then have wd2: "unat w2 * unat (depth fd) \<le> 524288" by simp
  then have s2: "unat w2 * unat (depth fd) < 2 ^ 31" by simp
  from wd s2 have s1: "unat w1 * unat (depth fd) < 2 ^ 31" by (rule le_less_trans)
  define B1 where "B1 = alignUp (unat w1 * unat (depth fd) div 8) (2 ^ k)"
  define B2 where "B2 = alignUp (unat w2 * unat (depth fd) div 8) (2 ^ k)"
  have b1: "unat (get_bytesperline w1 h1 fd r) = B1"
    unfolding B1_def using ne s1 al by (rule unat_get_bytesperline_std)
  have b2: "unat (get_bytesperline w2 h2 fd r) = B2"
    unfolding B2_def using ne s2 al by (rule unat_get_bytesperline_std)
  have B12: "B1 \<le> B2" unfolding B1_def B2_def
    using wd by (intro alignUp_mono div_le_mono)
  have "B2 \<le> unat w2 * unat (depth fd) div 8 + 2 ^ k - 1"
    unfolding B2_def by (rule alignUp_upper)
  then have B2m: "B2 \<le> 65663" using wd2 a128 by simp
  have P12: "B1 * unat h1 * unat (size_multiplier_x2 fd) \<le>
             B2 * unat h2 * unat (size_multiplier_x2 fd)"
    using B12 H(1) by (intro mult_le_mono) simp_all
  have "B2 * unat h2 * unat (size_multiplier_x2 fd) \<le> 65663 * 16384 * 3"
    using B2m H(2) m by (rule mult3_bound)
  then have p2: "B2 * unat h2 * unat (size_multiplier_x2 fd) < 2 ^ 32" by simp
  from P12 p2 have p1: "B1 * unat h1 * unat (size_multiplier_x2 fd) < 2 ^ 32"
    by (rule le_less_trans)
  have u1: "unat (get_bytesperline w1 h1 fd r * h1 * size_multiplier_x2 fd) =
            B1 * unat h1 * unat (size_multiplier_x2 fd)"
    using p1 unat_mult3_small [of "get_bytesperline w1 h1 fd r" h1 "size_multiplier_x2 fd"]
    by (simp only: b1)
  have u2: "unat (get_bytesperline w2 h2 fd r * h2 * size_multiplier_x2 fd) =
            B2 * unat h2 * unat (size_multiplier_x2 fd)"
    using p2 unat_mult3_small [of "get_bytesperline w2 h2 fd r" h2 "size_multiplier_x2 fd"]
    by (simp only: b2)
  have "unat (signed_drop_bit 1 (get_bytesperline w1 h1 fd r * h1 * size_multiplier_x2 fd)) \<le>
        unat (signed_drop_bit 1 (get_bytesperline w2 h2 fd r * h2 * size_multiplier_x2 fd))"
    using P12 by (intro unat_signed_drop_bit_1_mono) (simp only: u1 u2)
  then show ?thesis
    by (simp only: get_sizeimage_raw_std [OF raw ne] word_le_nat_alt)
qed

lemma sizeimage_mono_raw_col128:
  assumes raw: "flags fd AND V4L2_FMT_FLAG_COMPRESSED = 0"
    and eq: "fourcc fd = V4L2_PIX_FMT_NV12_COL128"
    and w: "w1 \<le> w2" and h: "h1 \<le> h2" and wm: "w2 \<le> 16384" and hm: "h2 \<le> 16384"
  shows "get_sizeimage (get_bytesperline w1 h1 fd r) w1 h1 fd \<le>
         get_sizeimage (get_bytesperline w2 h2 fd r) w2 h2 fd"
proof -
  have W: "unat w1 \<le> unat w2" "unat w2 \<le> 16384" and H: "unat h1 \<le> unat h2" "unat h2 \<le> 16384"
    using w h wm hm by (simp_all add: word_le_nat_alt)
  have h2s: "unat h2 * 3 < 2 ^ 31" using H(2) by simp
  have h1s: "unat h1 * 3 < 2 ^ 31" using H by simp
  have b1: "unat (get_bytesperline w1 h1 fd r) = unat h1 * 3 div 2"
    using eq h1s by (rule unat_get_bytesperline_col128)
  have b2: "unat (get_bytesperline w2 h2 fd r) = unat h2 * 3 div 2"
    using eq h2s by (rule unat_get_bytesperline_col128)
  have B12: "unat h1 * 3 div 2 \<le> unat h2 * 3 div 2" using H(1) by (intro div_le_mono) simp
  have B2m: "unat h2 * 3 div 2 \<le> 24576" using H(2) by simp
  have A12: "alignUp (unat w1) 128 \<le> alignUp (unat w2) 128" using W(1) by (rule alignUp_mono)
  have "alignUp (unat w2) 128 \<le> unat w2 + 128 - 1" by (rule alignUp_upper)
  then have A2m: "alignUp (unat w2) 128 \<le> 16511" using W(2) by simp
  have P12: "alignUp (unat w1) 128 * (unat h1 * 3 div 2) \<le> alignUp (unat w2) 128 * (unat h2 * 3 div 2)"
    using A12 B12 by (rule mult_le_mono)
  have "alignUp (unat w2) 128 * (unat h2 * 3 div 2) \<le> 16511 * 24576"
    using A2m B2m by (rule mult_le_mono)
  then have p2: "alignUp (unat w2) 128 * (unat h2 * 3 div 2) < 2 ^ 32" by simp
  from P12 p2 have p1: "alignUp (unat w1) 128 * (unat h1 * 3 div 2) < 2 ^ 32"
    by (rule le_less_trans)
  have ww2: "unat w2 + 128 \<le> 2 ^ 32" using W(2) by simp
  have ww1: "unat w1 + 128 \<le> 2 ^ 32" using W by simp
  have u1: "unat (get_sizeimage (get_bytesperline w1 h1 fd r) w1 h1 fd) =
            alignUp (unat w1) 128 * (unat h1 * 3 div 2)"
    using unat_get_sizeimage_raw_col128 [OF raw eq ww1, of "get_bytesperline w1 h1 fd r" h1] p1
    by (simp only: b1)
  have u2: "unat (get_sizeimage (get_bytesperline w2 h2 fd r) w2 h2 fd) =
            alignUp (unat w2) 128 * (unat h2 * 3 div 2)"
    using unat_get_sizeimage_raw_col128 [OF raw eq ww2, of "get_bytesperline w2 h2 fd r" h2] p2
    by (simp only: b2)
  show ?thesis using P12 by (simp only: word_le_nat_alt u1 u2)
qed


text \<open>C7 (amended): for every catalogue format and every role, \<^verbatim>\<open>get_bytesperline\<close>
  followed by \<^verbatim>\<open>get_sizeimage\<close> is monotonic non-decreasing in width and height
  as long as both stay within the largest device limit (16384, to which
  try-format clamps the client's values before it calls the geometry
  calculator).  Beyond the limits the 32-bit products wrap and the size can
  fall, as the counterexample after the theorem shows.\<close>

theorem sizeimage_monotone_within_device_limits:
  assumes "fd \<in> set supported_formats"
    and "w1 \<le> w2" and "h1 \<le> h2" and "w2 \<le> MAX_W_ISP" and "h2 \<le> MAX_H_ISP"
  shows "get_sizeimage (get_bytesperline w1 h1 fd r) w1 h1 fd \<le>
         get_sizeimage (get_bytesperline w2 h2 fd r) w2 h2 fd"
proof -
  have wm: "w2 \<le> 16384" and hm: "h2 \<le> 16384"
    using assms(4,5) by (simp_all add: MAX_W_ISP_def MAX_H_ISP_def)
  from supported_formats_geometry [OF assms(1), of r]
  consider (compressed) "flags fd AND V4L2_FMT_FLAG_COMPRESSED \<noteq> 0"
    | (raw) k where "flags fd AND V4L2_FMT_FLAG_COMPRESSED = 0"
        "unat (bytesperline_align fd r) = 2 ^ k"
        "unat (depth fd) \<le> 32" "unat (size_multiplier_x2 fd) \<le> 3"
    by blast
  then show ?thesis
  proof cases
    case compressed
    then show ?thesis using assms(2,3) wm hm by (rule sizeimage_mono_compressed)
  next
    case raw
    show ?thesis
    proof (cases "fourcc fd = V4L2_PIX_FMT_NV12_COL128")
      case True
      with raw(1) show ?thesis using assms(2,3) wm hm by (rule sizeimage_mono_raw_col128)
    next
      case False
      with raw(1) show ?thesis using raw(2-4) assms(2,3) wm hm by (rule sizeimage_mono_raw_std)
    qed
  qed
qed

theorem sizeimage_monotone_within_device_limits_witness:
  "supported_formats ! 13 \<in> set supported_formats \<and>
   (1920 :: u32) \<le> 16384 \<and> (1080 :: u32) \<le> 16384 \<and>
   (16384 :: u32) \<le> MAX_W_ISP \<and> (16384 :: u32) \<le> MAX_H_ISP \<and>
   get_sizeimage (get_bytesperline 1920 1080 (supported_formats ! 13) ISP) 1920 1080
     (supported_formats ! 13) \<le>
   get_sizeimage (get_bytesperline 16384 16384 (supported_formats ! 13) ISP) 16384 16384
     (supported_formats ! 13)"
proof -
  have m: "supported_formats ! 13 \<in> set supported_formats"
    by (simp add: supported_formats_def)
  have r: "(1920 :: u32) \<le> 16384" "(1080 :: u32) \<le> 16384"
    "(16384 :: u32) \<le> MAX_W_ISP" "(16384 :: u32) \<le> MAX_H_ISP"
    by (simp_all add: MAX_W_ISP_def MAX_H_ISP_def)
  from sizeimage_monotone_within_device_limits [OF m r, of ISP] m r show ?thesis by simp
qed

theorem sizeimage_not_monotone_beyond_limits:
  "supported_formats ! 0 \<in> set supported_formats \<and>
   (32 :: u32) \<le> 65536 \<and>
   get_sizeimage (get_bytesperline 32 32 (supported_formats ! 0) DECODE) 32 32
     (supported_formats ! 0) = 1536 \<and>
   get_sizeimage (get_bytesperline 65536 65536 (supported_formats ! 0) DECODE) 65536 65536
     (supported_formats ! 0) = 0 \<and>
   \<not> get_sizeimage (get_bytesperline 32 32 (supported_formats ! 0) DECODE) 32 32
       (supported_formats ! 0) \<le>
     get_sizeimage (get_bytesperline 65536 65536 (supported_formats ! 0) DECODE) 65536 65536
       (supported_formats ! 0)"
  by (simp add: supported_formats_def get_sizeimage_def get_bytesperline_def fourcc_distinct
      per_role_def ALIGN_def V4L2_FMT_FLAG_COMPRESSED_def)

subsection \<open>Buffer submission\<close>

lemmas mmal_flag_values =
  MMAL_BUFFER_HEADER_FLAG_EOS_def MMAL_BUFFER_HEADER_FLAG_FRAME_END_def
  MMAL_BUFFER_HEADER_FLAG_KEYFRAME_def MMAL_BUFFER_HEADER_VIDEO_FLAG_INTERLACED_def
  MMAL_BUFFER_HEADER_VIDEO_FLAG_TOP_FIELD_FIRST_def

lemma mmal_flags_eq:
  "mmal_flags (vb2_to_mmal_buffer fo buf vb2) =
     (if vb2_flags vb2 AND V4L2_BUF_FLAG_KEYFRAME \<noteq> 0 then MMAL_BUFFER_HEADER_FLAG_KEYFRAME else 0) OR
     MMAL_BUFFER_HEADER_FLAG_FRAME_END OR
     (if vb2_bytesused vb2 = 0 \<or> vb2_flags vb2 AND V4L2_BUF_FLAG_LAST \<noteq> 0
      then MMAL_BUFFER_HEADER_FLAG_EOS else 0) OR
     (if (if fo \<noteq> 0 then fo else vb2_field vb2) = V4L2_FIELD_INTERLACED_BT
      then MMAL_BUFFER_HEADER_VIDEO_FLAG_INTERLACED
      else if (if fo \<noteq> 0 then fo else vb2_field vb2) = V4L2_FIELD_INTERLACED_TB
      then MMAL_BUFFER_HEADER_VIDEO_FLAG_INTERLACED OR MMAL_BUFFER_HEADER_VIDEO_FLAG_TOP_FIELD_FIRST
      else 0)"
  by (simp add: vb2_to_mmal_buffer_def Let_def or.assoc)

lemma mmal_flags_frame_end:
  "mmal_flags (vb2_to_mmal_buffer fo buf vb2) AND MMAL_BUFFER_HEADER_FLAG_FRAME_END \<noteq> 0"
  by (simp add: mmal_flags_eq mmal_flag_values bit.conj_disj_distrib2)

lemma mmal_flags_eos:
  "(mmal_flags (vb2_to_mmal_buffer fo buf vb2) AND MMAL_BUFFER_HEADER_FLAG_EOS \<noteq> 0) =
   (vb2_bytesused vb2 = 0 \<or> vb2_flags vb2 AND V4L2_BUF_FLAG_LAST \<noteq> 0)"
  by (simp add: mmal_flags_eq mmal_flag_values bit.conj_disj_distrib2)

lemma mmal_pts_eq:
  "mmal_pts (vb2_to_mmal_buffer fo buf vb2) = vb2_timestamp vb2 div 1000"
  by (simp add: vb2_to_mmal_buffer_def Let_def)

lemma mmal_length_eq:
  "mmal_length (vb2_to_mmal_buffer fo buf vb2) = vb2_bytesused vb2"
  by (simp add: vb2_to_mmal_buffer_def Let_def)

text \<open>C2: the MMAL header that \<^verbatim>\<open>vb2_to_mmal_buffer\<close> prepares always has the
  frame-end flag; it has the end-of-stream flag exactly when the payload length
  is zero or the client set \<^verbatim>\<open>V4L2_BUF_FLAG_LAST\<close>, whatever the length; it carries
  the payload length, and its presentation timestamp is the client's timestamp
  in nanoseconds divided by 1000.\<close>

theorem vb2_to_mmal_buffer_frame_end_eos_pts:
  "mmal_flags (vb2_to_mmal_buffer fo buf vb2) AND MMAL_BUFFER_HEADER_FLAG_FRAME_END \<noteq> 0 \<and>
   ((mmal_flags (vb2_to_mmal_buffer fo buf vb2) AND MMAL_BUFFER_HEADER_FLAG_EOS \<noteq> 0) =
    (vb2_bytesused vb2 = 0 \<or> vb2_flags vb2 AND V4L2_BUF_FLAG_LAST \<noteq> 0)) \<and>
   mmal_length (vb2_to_mmal_buffer fo buf vb2) = vb2_bytesused vb2 \<and>
   mmal_pts (vb2_to_mmal_buffer fo buf vb2) = vb2_timestamp vb2 div 1000 \<and>
   unat (mmal_pts (vb2_to_mmal_buffer fo buf vb2)) = unat (vb2_timestamp vb2) div 1000"
proof (intro conjI)
  show "mmal_flags (vb2_to_mmal_buffer fo buf vb2) AND MMAL_BUFFER_HEADER_FLAG_FRAME_END \<noteq> 0"
    by (rule mmal_flags_frame_end)
  show "(mmal_flags (vb2_to_mmal_buffer fo buf vb2) AND MMAL_BUFFER_HEADER_FLAG_EOS \<noteq> 0) =
    (vb2_bytesused vb2 = 0 \<or> vb2_flags vb2 AND V4L2_BUF_FLAG_LAST \<noteq> 0)"
    by (rule mmal_flags_eos)
  show "mmal_length (vb2_to_mmal_buffer fo buf vb2) = vb2_bytesused vb2"
    by (rule mmal_length_eq)
  show "mmal_pts (vb2_to_mmal_buffer fo buf vb2) = vb2_timestamp vb2 div 1000"
    by (rule mmal_pts_eq)
  show "unat (mmal_pts (vb2_to_mmal_buffer fo buf vb2)) = unat (vb2_timestamp vb2) div 1000"
    by (simp add: mmal_pts_eq unat_div)
qed

theorem vb2_to_mmal_buffer_frame_end_eos_pts_witness:
  "mmal_flags (vb2_to_mmal_buffer 0 (eos_buffer (example_q_data (supported_formats ! 54)))
      \<lparr>vb2_flags = V4L2_BUF_FLAG_LAST, vb2_field = V4L2_FIELD_NONE,
       vb2_timestamp = 5000999, vb2_bytesused = 4096\<rparr>)
     AND MMAL_BUFFER_HEADER_FLAG_EOS \<noteq> 0 \<and>
   mmal_flags (vb2_to_mmal_buffer 0 (eos_buffer (example_q_data (supported_formats ! 54)))
      \<lparr>vb2_flags = 0, vb2_field = V4L2_FIELD_NONE,
       vb2_timestamp = 5000999, vb2_bytesused = 0\<rparr>)
     AND MMAL_BUFFER_HEADER_FLAG_EOS \<noteq> 0 \<and>
   mmal_flags (vb2_to_mmal_buffer 0 (eos_buffer (example_q_data (supported_formats ! 54)))
      \<lparr>vb2_flags = 0, vb2_field = V4L2_FIELD_NONE,
       vb2_timestamp = 5000999, vb2_bytesused = 4096\<rparr>)
     AND MMAL_BUFFER_HEADER_FLAG_EOS = 0 \<and>
   mmal_pts (vb2_to_mmal_buffer 0 (eos_buffer (example_q_data (supported_formats ! 54)))
      \<lparr>vb2_flags = 0, vb2_field = V4L2_FIELD_NONE,
       vb2_timestamp = 5000999, vb2_bytesused = 4096\<rparr>) = 5000"
  using vb2_to_mmal_buffer_frame_end_eos_pts
      [of 0 "eos_buffer (example_q_data (supported_formats ! 54))"
        "\<lparr>vb2_flags = V4L2_BUF_FLAG_LAST, vb2_field = V4L2_FIELD_NONE,
          vb2_timestamp = 5000999, vb2_bytesused = 4096\<rparr>"]
    vb2_to_mmal_buffer_frame_end_eos_pts
      [of 0 "eos_buffer (example_q_data (supported_formats ! 54))"
        "\<lparr>vb2_flags = 0, vb2_field = V4L2_FIELD_NONE,
          vb2_timestamp = 5000999, vb2_bytesused = 0\<rparr>"]
    vb2_to_mmal_buffer_frame_end_eos_pts
      [of 0 "eos_buffer (example_q_data (supported_formats ! 54))"
        "\<lparr>vb2_flags = 0, vb2_field = V4L2_FIELD_NONE,
          vb2_timestamp = 5000999, vb2_bytesused = 4096\<rparr>"]
  by (simp add: V4L2_BUF_FLAG_LAST_def)

subsection \<open>Try-format\<close>

lemma find_format_in_Some:
  "find_format_in l p = Some e \<Longrightarrow> e \<in> set l \<and> fourcc e = p"
  by (induction l) (auto split: if_splits)

lemma find_format_in_None:
  "(find_format_in l p = None) = (p \<notin> fourcc ` set l)"
  by (induction l) auto

lemma find_format_in_hd:
  "l \<noteq> [] \<Longrightarrow> find_format_in l (fourcc (hd l)) = Some (hd l)"
  by (cases l) simp_all

lemma try_fmt_clamp_pixelformat:
  "pix_pixelformat (try_fmt_clamp ctx fd f) = pix_pixelformat f"
  by (simp add: try_fmt_clamp_def Let_def)

lemma try_fmt_stride_pixelformat:
  "pix_pixelformat (try_fmt_stride ctx fd f) = pix_pixelformat f"
  by (simp add: try_fmt_stride_def Let_def)

lemma try_fmt_size_pixelformat:
  "pix_pixelformat (try_fmt_size fd f) = pix_pixelformat f"
  by (simp add: try_fmt_size_def Let_def)

lemma try_fmt_set_field_pixelformat:
  "pix_pixelformat (try_fmt_set_field ctx f) = pix_pixelformat f"
  by (simp add: try_fmt_set_field_def)

lemma vidioc_try_fmt_returns_0:
  "fst (vidioc_try_fmt ctx f fd) = 0"
  by (simp add: vidioc_try_fmt_def)

lemma vidioc_try_fmt_pixelformat:
  "pix_pixelformat (snd (vidioc_try_fmt ctx f fd)) = pix_pixelformat f"
  by (simp add: vidioc_try_fmt_def try_fmt_set_field_pixelformat try_fmt_size_pixelformat
        try_fmt_stride_pixelformat try_fmt_clamp_pixelformat)

lemma vidioc_try_fmt_pair:
  "vidioc_try_fmt ctx f fd = (0, snd (vidioc_try_fmt ctx f fd))"
  by (simp add: vidioc_try_fmt_def)

lemma vidioc_try_fmt_vid_cap_found:
  assumes "pix_pixelformat f \<in> fourcc ` set (get_format_list (dev ctx) True)"
  shows "\<exists>f'. vidioc_try_fmt_vid_cap ctx f = Some (0, f') \<and> pix_pixelformat f' = pix_pixelformat f"
proof -
  from assms obtain fd where fd: "find_format_in (get_format_list (dev ctx) True) (pix_pixelformat f) = Some fd"
    using find_format_in_None [of "get_format_list (dev ctx) True" "pix_pixelformat f"] by auto
  hence "vidioc_try_fmt_vid_cap ctx f = Some (vidioc_try_fmt ctx f fd)"
    by (simp add: vidioc_try_fmt_vid_cap_def find_format_def find_format_pix_fmt_def)
  thus ?thesis
    using vidioc_try_fmt_pair [of ctx f fd] vidioc_try_fmt_pixelformat [of ctx f fd] by metis
qed

lemma vidioc_try_fmt_vid_cap_default:
  assumes ne: "get_format_list (dev ctx) True \<noteq> []"
      and nf: "pix_pixelformat f \<notin> fourcc ` set (get_format_list (dev ctx) True)"
  shows "\<exists>f'. vidioc_try_fmt_vid_cap ctx f = Some (0, f') \<and>
              pix_pixelformat f' = fourcc (hd (get_format_list (dev ctx) True))"
proof -
  let ?l = "get_format_list (dev ctx) True"
  let ?g = "f\<lparr>pix_pixelformat := fourcc (hd ?l)\<rparr>"
  from nf have n: "find_format_in ?l (pix_pixelformat f) = None"
    by (simp add: find_format_in_None)
  from ne have d: "get_default_format (dev ctx) True = Some (hd ?l)"
    by (cases ?l) (simp_all add: get_default_format_def)
  from ne have s: "find_format_in ?l (fourcc (hd ?l)) = Some (hd ?l)"
    by (rule find_format_in_hd)
  from n d s have "vidioc_try_fmt_vid_cap ctx f = Some (vidioc_try_fmt ctx ?g (hd ?l))"
    by (simp add: vidioc_try_fmt_vid_cap_def find_format_def find_format_pix_fmt_def Let_def)
  thus ?thesis
    using vidioc_try_fmt_pair [of ctx ?g "hd ?l"] vidioc_try_fmt_pixelformat [of ctx ?g "hd ?l"]
    by (metis v4l2_format.select_convs(4) v4l2_format.surjective v4l2_format.update_convs(4))
qed

lemma vidioc_try_fmt_vid_out_found:
  assumes "pix_pixelformat f \<in> fourcc ` set (get_format_list (dev ctx) False)"
  shows "\<exists>f'. vidioc_try_fmt_vid_out ctx f = Some (0, f') \<and> pix_pixelformat f' = pix_pixelformat f"
proof -
  from assms obtain fd where fd: "find_format_in (get_format_list (dev ctx) False) (pix_pixelformat f) = Some fd"
    using find_format_in_None [of "get_format_list (dev ctx) False" "pix_pixelformat f"] by auto
  hence "vidioc_try_fmt_vid_out ctx f = Some (vidioc_try_fmt ctx (if pix_colorspace f = 0 then f\<lparr>pix_colorspace := colorspace ctx\<rparr> else f) fd)"
    by (simp add: vidioc_try_fmt_vid_out_def find_format_def find_format_pix_fmt_def)
  thus ?thesis
    using vidioc_try_fmt_pair [of ctx "if pix_colorspace f = 0 then f\<lparr>pix_colorspace := colorspace ctx\<rparr> else f" fd]
      vidioc_try_fmt_pixelformat [of ctx "if pix_colorspace f = 0 then f\<lparr>pix_colorspace := colorspace ctx\<rparr> else f" fd]
    by (cases "pix_colorspace f = 0") auto
qed

lemma vidioc_try_fmt_vid_out_default:
  assumes ne: "get_format_list (dev ctx) False \<noteq> []"
      and nf: "pix_pixelformat f \<notin> fourcc ` set (get_format_list (dev ctx) False)"
  shows "\<exists>f'. vidioc_try_fmt_vid_out ctx f = Some (0, f') \<and>
              pix_pixelformat f' = fourcc (hd (get_format_list (dev ctx) False))"
proof -
  let ?l = "get_format_list (dev ctx) False"
  let ?g0 = "f\<lparr>pix_pixelformat := fourcc (hd ?l)\<rparr>"
  let ?g = "if pix_colorspace ?g0 = 0 then ?g0\<lparr>pix_colorspace := colorspace ctx\<rparr> else ?g0"
  from nf have n: "find_format_in ?l (pix_pixelformat f) = None"
    by (simp add: find_format_in_None)
  from ne have d: "get_default_format (dev ctx) False = Some (hd ?l)"
    by (cases ?l) (simp_all add: get_default_format_def)
  from ne have s: "find_format_in ?l (fourcc (hd ?l)) = Some (hd ?l)"
    by (rule find_format_in_hd)
  from n d s have "vidioc_try_fmt_vid_out ctx f = Some (vidioc_try_fmt ctx ?g (hd ?l))"
    by (simp add: vidioc_try_fmt_vid_out_def find_format_def find_format_pix_fmt_def Let_def)
  thus ?thesis
    using vidioc_try_fmt_pair [of ctx ?g "hd ?l"] vidioc_try_fmt_pixelformat [of ctx ?g "hd ?l"]
    by (cases "pix_colorspace f = 0") auto
qed

lemma vidioc_try_fmt_vid_cap_no_formats:
  "get_format_list (dev ctx) True = [] \<Longrightarrow> vidioc_try_fmt_vid_cap ctx f = None"
  by (simp add: vidioc_try_fmt_vid_cap_def find_format_def find_format_pix_fmt_def
        get_default_format_def)

lemma vidioc_try_fmt_vid_out_no_formats:
  "get_format_list (dev ctx) False = [] \<Longrightarrow> vidioc_try_fmt_vid_out ctx f = None"
  by (simp add: vidioc_try_fmt_vid_out_def find_format_def find_format_pix_fmt_def
        get_default_format_def)

text \<open>C10: try-format is not total.  A port that reports no encoding of the
  catalogue leaves the format list of its direction empty.  On such a device the
  first lookup finds nothing, \<^verbatim>\<open>get_default_format\<close> returns
  the address of an entry that does not exist, the second lookup finds nothing
  either, and \<^verbatim>\<open>vidioc_try_fmt\<close> reads \<^verbatim>\<open>fmt->flags\<close> through the \<^verbatim>\<open>NULL\<close> pointer:
  \<^verbatim>\<open>vidioc_try_fmt_vid_cap\<close> and \<^verbatim>\<open>vidioc_try_fmt_vid_out\<close> do not return.\<close>

theorem try_fmt_faults_without_formats:
  "supported_fmts_of False [0] = [] \<and>
   get_format_list (bcm2835_codec_create DECODE [supported_formats ! 54] []) True = [] \<and>
   vidioc_try_fmt_vid_cap
     (example_session\<lparr>dev := bcm2835_codec_create DECODE [supported_formats ! 54] []\<rparr>)
     example_request = None \<and>
   get_format_list (bcm2835_codec_create DECODE [] [supported_formats ! 0]) False = [] \<and>
   vidioc_try_fmt_vid_out
     (example_session\<lparr>dev := bcm2835_codec_create DECODE [] [supported_formats ! 0]\<rparr>)
     example_request = None"
proof -
  have "get_fmt False 0 = None"
    by code_simp
  then show ?thesis
    by (simp add: vidioc_try_fmt_vid_cap_no_formats vidioc_try_fmt_vid_out_no_formats
          get_format_list_def bcm2835_codec_create_def)
qed

text \<open>Where the format list of the direction has a first entry, try-format is
  total: \<^verbatim>\<open>vidioc_try_fmt_vid_cap\<close> and \<^verbatim>\<open>vidioc_try_fmt_vid_out\<close> return 0 for every
  session and every request; the pixel format they leave in the request is one of
  the list: the requested one when the list has it, and otherwise the fourcc of the
  first entry of the list.\<close>

theorem try_fmt_total_default_substitution:
  "(get_format_list (dev ctx) True \<noteq> [] \<longrightarrow>
      (\<exists>f'. vidioc_try_fmt_vid_cap ctx f = Some (0, f') \<and>
            pix_pixelformat f' \<in> fourcc ` set (get_format_list (dev ctx) True) \<and>
            pix_pixelformat f' =
              (if pix_pixelformat f \<in> fourcc ` set (get_format_list (dev ctx) True)
               then pix_pixelformat f else fourcc (hd (get_format_list (dev ctx) True))))) \<and>
   (get_format_list (dev ctx) False \<noteq> [] \<longrightarrow>
      (\<exists>f'. vidioc_try_fmt_vid_out ctx f = Some (0, f') \<and>
            pix_pixelformat f' \<in> fourcc ` set (get_format_list (dev ctx) False) \<and>
            pix_pixelformat f' =
              (if pix_pixelformat f \<in> fourcc ` set (get_format_list (dev ctx) False)
               then pix_pixelformat f else fourcc (hd (get_format_list (dev ctx) False)))))"
proof (intro conjI impI)
  assume ne: "get_format_list (dev ctx) True \<noteq> []"
  show "\<exists>f'. vidioc_try_fmt_vid_cap ctx f = Some (0, f') \<and>
            pix_pixelformat f' \<in> fourcc ` set (get_format_list (dev ctx) True) \<and>
            pix_pixelformat f' =
              (if pix_pixelformat f \<in> fourcc ` set (get_format_list (dev ctx) True)
               then pix_pixelformat f else fourcc (hd (get_format_list (dev ctx) True)))"
  proof (cases "pix_pixelformat f \<in> fourcc ` set (get_format_list (dev ctx) True)")
    case True
    from vidioc_try_fmt_vid_cap_found [OF True] True show ?thesis by auto
  next
    case False
    from vidioc_try_fmt_vid_cap_default [OF ne False] False ne show ?thesis by auto
  qed
next
  assume ne: "get_format_list (dev ctx) False \<noteq> []"
  show "\<exists>f'. vidioc_try_fmt_vid_out ctx f = Some (0, f') \<and>
            pix_pixelformat f' \<in> fourcc ` set (get_format_list (dev ctx) False) \<and>
            pix_pixelformat f' =
              (if pix_pixelformat f \<in> fourcc ` set (get_format_list (dev ctx) False)
               then pix_pixelformat f else fourcc (hd (get_format_list (dev ctx) False)))"
  proof (cases "pix_pixelformat f \<in> fourcc ` set (get_format_list (dev ctx) False)")
    case True
    from vidioc_try_fmt_vid_out_found [OF True] True show ?thesis by auto
  next
    case False
    from vidioc_try_fmt_vid_out_default [OF ne False] False ne show ?thesis by auto
  qed
qed

lemma example_decoder_lists:
  "get_format_list (dev example_session) True = [supported_formats ! 0, supported_formats ! 2]"
  "get_format_list (dev example_session) False = [supported_formats ! 54]"
  by (simp_all add: get_format_list_def example_session_def example_decoder_def
        bcm2835_codec_create_def)

lemma example_fourccs:
  "fourcc (supported_formats ! 0) = V4L2_PIX_FMT_YUV420"
  "fourcc (supported_formats ! 2) = V4L2_PIX_FMT_NV12"
  "fourcc (supported_formats ! 54) = V4L2_PIX_FMT_H264"
  by (simp_all add: supported_formats_def)

theorem try_fmt_total_default_substitution_witness:
  "(\<exists>f'. vidioc_try_fmt_vid_cap example_session (example_request\<lparr>pix_pixelformat := 0\<rparr>) = Some (0, f') \<and>
         pix_pixelformat f' = V4L2_PIX_FMT_YUV420) \<and>
   (\<exists>f'. vidioc_try_fmt_vid_out example_session example_request = Some (0, f') \<and>
         pix_pixelformat f' = V4L2_PIX_FMT_H264)"
  using try_fmt_total_default_substitution [of example_session "example_request\<lparr>pix_pixelformat := 0\<rparr>"]
    try_fmt_total_default_substitution [of example_session example_request]
  by (auto simp: example_decoder_lists example_fourccs example_request_def
        V4L2_PIX_FMT_YUV420_def V4L2_PIX_FMT_NV12_def V4L2_PIX_FMT_H264_def v4l2_fourcc_def)

subsection \<open>Try-format applied twice\<close>

lemma example_yuv420:
  "fourcc (supported_formats ! 0) = V4L2_PIX_FMT_YUV420"
  "depth (supported_formats ! 0) = 8"
  "flags (supported_formats ! 0) = 0"
  "size_multiplier_x2 (supported_formats ! 0) = 3"
  "bytesperline_align (supported_formats ! 0) DECODE = 32"
  by (simp_all add: supported_formats_def per_role_def)

lemma example_session_dev:
  "role (dev example_session) = DECODE"
  "max_w (dev example_session) = 1920"
  "max_h (dev example_session) = 1920"
  by (simp_all add: example_session_def example_decoder_def bcm2835_codec_create_def
        MAX_W_CODEC_def MAX_H_CODEC_def)

lemma example_try_fmt_first:
  "vidioc_try_fmt example_session (example_request\<lparr>plane_bytesperline := 0xFFFFFFFF\<rparr>)
     (supported_formats ! 0) =
   (0, example_request\<lparr>pix_height := 112, pix_field := V4L2_FIELD_NONE\<rparr>)"
  by (simp add: vidioc_try_fmt_def try_fmt_set_field_def try_fmt_size_def try_fmt_stride_def
        try_fmt_clamp_def Let_def example_yuv420 example_session_dev example_request_def
        get_bytesperline_def get_sizeimage_def ALIGN_def MIN_W_def MIN_H_def
        V4L2_FMT_FLAG_COMPRESSED_def try_fmt_field_def fourcc_distinct
        V4L2_FIELD_ANY_def V4L2_FIELD_NONE_def V4L2_FIELD_TOP_def V4L2_FIELD_BOTTOM_def
        V4L2_FIELD_INTERLACED_def V4L2_FIELD_INTERLACED_TB_def V4L2_FIELD_INTERLACED_BT_def)

lemma example_try_fmt_second:
  "vidioc_try_fmt example_session (example_request\<lparr>pix_height := 112, pix_field := V4L2_FIELD_NONE\<rparr>)
     (supported_formats ! 0) =
   (0, example_request\<lparr>pix_height := 112, pix_field := V4L2_FIELD_NONE,
         plane_bytesperline := 128, plane_sizeimage := 21504\<rparr>)"
  by (simp add: vidioc_try_fmt_def try_fmt_set_field_def try_fmt_size_def try_fmt_stride_def
        try_fmt_clamp_def Let_def example_yuv420 example_session_dev example_request_def
        get_bytesperline_def get_sizeimage_def ALIGN_def MIN_W_def MIN_H_def
        V4L2_FMT_FLAG_COMPRESSED_def try_fmt_field_def fourcc_distinct
        V4L2_FIELD_ANY_def V4L2_FIELD_NONE_def V4L2_FIELD_TOP_def V4L2_FIELD_BOTTOM_def
        V4L2_FIELD_INTERLACED_def V4L2_FIELD_INTERLACED_TB_def V4L2_FIELD_INTERLACED_BT_def)

text \<open>C8: \<^verbatim>\<open>vidioc_try_fmt\<close> applied to its own result does not always reproduce it.
  On the example decoder, for the 100x100 YUV420 request whose \<^verbatim>\<open>bytesperline\<close> is
  \<open>0xFFFFFFFF\<close>, the addition inside \<^verbatim>\<open>ALIGN\<close> wraps: the first call leaves
  \<^verbatim>\<open>bytesperline\<close> 0 and \<^verbatim>\<open>sizeimage\<close> 0, and the second call, on that result,
  leaves \<^verbatim>\<open>bytesperline\<close> 128 and \<^verbatim>\<open>sizeimage\<close> 21504.\<close>

theorem vidioc_try_fmt_twice_differs_when_stride_wraps:
  "plane_bytesperline (snd (vidioc_try_fmt example_session
      (example_request\<lparr>plane_bytesperline := 0xFFFFFFFF\<rparr>) (supported_formats ! 0))) = 0 \<and>
   plane_sizeimage (snd (vidioc_try_fmt example_session
      (example_request\<lparr>plane_bytesperline := 0xFFFFFFFF\<rparr>) (supported_formats ! 0))) = 0 \<and>
   plane_bytesperline (snd (vidioc_try_fmt example_session
      (snd (vidioc_try_fmt example_session
         (example_request\<lparr>plane_bytesperline := 0xFFFFFFFF\<rparr>) (supported_formats ! 0)))
      (supported_formats ! 0))) = 128 \<and>
   plane_sizeimage (snd (vidioc_try_fmt example_session
      (snd (vidioc_try_fmt example_session
         (example_request\<lparr>plane_bytesperline := 0xFFFFFFFF\<rparr>) (supported_formats ! 0)))
      (supported_formats ! 0))) = 21504 \<and>
   vidioc_try_fmt example_session
      (snd (vidioc_try_fmt example_session
         (example_request\<lparr>plane_bytesperline := 0xFFFFFFFF\<rparr>) (supported_formats ! 0)))
      (supported_formats ! 0) \<noteq>
   vidioc_try_fmt example_session
      (example_request\<lparr>plane_bytesperline := 0xFFFFFFFF\<rparr>) (supported_formats ! 0)"
  unfolding example_try_fmt_first snd_conv example_try_fmt_second
  by (simp add: example_request_def)

subsection \<open>Set-format on a busy queue\<close>

text \<open>C5: when the queue of the request's buffer type has buffers allocated,
  \<^verbatim>\<open>vidioc_s_fmt\<close> returns \<^verbatim>\<open>-EBUSY\<close> and the session it leaves is the session it
  was given: the queue data of both directions and the colorimetry fields are
  those of before the call, and no call to the MMAL service has been made.\<close>

theorem vidioc_s_fmt_busy:
  assumes "get_q_data (f_type f) = Some qi"
      and "v4l2_m2m_get_vq (m2m_ctx ctx) (f_type f) = Some vq"
      and "vb2_is_busy vq"
  shows "vidioc_s_fmt vpu ctx f rh = Some (- EBUSY, ctx)"
  using assms unfolding vidioc_s_fmt_def by (simp only: option.case if_True)

theorem vidioc_s_fmt_busy_witness:
  "vidioc_s_fmt example_service
     (example_session\<lparr>m2m_ctx := (m2m_ctx example_session)\<lparr>cap_q :=
        \<lparr>num_buffers = 4, streaming = False, last_buffer_dequeued = False\<rparr>\<rparr>\<rparr>)
     example_request 100 =
   Some (- EBUSY,
     example_session\<lparr>m2m_ctx := (m2m_ctx example_session)\<lparr>cap_q :=
        \<lparr>num_buffers = 4, streaming = False, last_buffer_dequeued = False\<rparr>\<rparr>\<rparr>) \<and>
   vb2_is_busy \<lparr>num_buffers = 4, streaming = False, last_buffer_dequeued = False\<rparr>"
proof -
  let ?q = "\<lparr>num_buffers = 4, streaming = False, last_buffer_dequeued = False\<rparr>"
  let ?s = "example_session\<lparr>m2m_ctx := (m2m_ctx example_session)\<lparr>cap_q := ?q\<rparr>\<rparr>"
  have a: "get_q_data (f_type example_request) = Some V4L2_M2M_DST"
    by (simp add: get_q_data_def example_request_def)
  have b: "v4l2_m2m_get_vq (m2m_ctx ?s) (f_type example_request) = Some ?q"
    by (simp add: v4l2_m2m_get_vq_def example_request_def V4L2_TYPE_IS_OUTPUT_def)
  have c: "vb2_is_busy ?q"
    by (simp add: vb2_is_busy_def)
  from vidioc_s_fmt_busy [OF a b c] c show ?thesis by (rule conjI)
qed

subsection \<open>Frame lemmas of the port calls\<close>

lemma q_data_set_mmal_port: "q_data (set_mmal_port p v ctx) = q_data ctx"
  by (simp add: set_mmal_port_def)

lemma q_data_mmal_call_made: "q_data (mmal_call_made c ctx) = q_data ctx"
  by (simp add: mmal_call_made_def)

lemma component_set_mmal_port:
  "(component (set_mmal_port p v ctx) = None) = (component ctx = None)"
  by (simp add: set_mmal_port_def)


lemma setup_port_frame:
  assumes "setup_port qi p ctx = Some ctx'"
  shows "q_data ctx' = q_data ctx \<and> component ctx' \<noteq> None"
  using assms
  by (auto simp: setup_port_def mmal_port_def set_mmal_port_def split: bind_splits)

lemma vchiq_mmal_port_set_format_frame:
  assumes "vchiq_mmal_port_set_format vpu p ctx = Some (ret, ctx')"
  shows "q_data ctx' = q_data ctx \<and> component ctx' \<noteq> None"
  using assms
  by (auto simp: vchiq_mmal_port_set_format_def mmal_port_def set_mmal_port_def
        mmal_call_made_def split: bind_splits)

lemma vchiq_mmal_port_set_format_returns:
  assumes "component ctx \<noteq> None"
  shows "\<exists>ret ctx'. vchiq_mmal_port_set_format vpu p ctx = Some (ret, ctx')"
  using assms by (auto simp: vchiq_mmal_port_set_format_def mmal_port_def)

lemma setup_mmal_port_format_returns:
  assumes "fmt q = Some fd"
      and "flags fd AND V4L2_FMT_FLAG_COMPRESSED \<noteq> 0 \<or> mmal_fmt fd = MMAL_ENCODING_YUVUV128 \<or>
           depth fd \<noteq> 0"
  shows "\<exists>v'. setup_mmal_port_format ctx q v = Some v'"
  using assms by (auto simp: setup_mmal_port_format_def Let_def)

lemma setup_port_returns:
  assumes "component ctx \<noteq> None" and "fmt (q_data ctx qi) = Some fd"
      and "flags fd AND V4L2_FMT_FLAG_COMPRESSED \<noteq> 0 \<or> mmal_fmt fd = MMAL_ENCODING_YUVUV128 \<or>
           depth fd \<noteq> 0"
  shows "\<exists>ctx'. setup_port qi p ctx = Some ctx'"
proof -
  from assms(1) obtain c where c: "component ctx = Some c" by auto
  from setup_mmal_port_format_returns [OF assms(2) assms(3)]
  obtain v' where "setup_mmal_port_format ctx (q_data ctx qi) (port_of c p) = Some v'" by blast
  with c show ?thesis by (simp add: setup_port_def mmal_port_def)
qed

subsection \<open>Selection\<close>

lemma s_selection_accept_eq:
  "s_selection_accept s qi ctx =
     (s\<lparr>r_left := 0, r_top := 0,
        r_width := min (r_width s) (crop_width (q_data ctx qi)),
        r_height := min (r_height s) (height (q_data ctx qi))\<rparr>,
      q_data_upd qi
        (\<lambda>q. q\<lparr>crop_width := min (r_width s) (crop_width (q_data ctx qi)),
                crop_height := min (r_height s) (height (q_data ctx qi)),
                selection_set := True\<rparr>) ctx)"
  by (simp add: s_selection_accept_def Let_def q_data_upd_def)

lemma q_data_q_data_upd: "q_data (q_data_upd qi g ctx) qi = g (q_data ctx qi)"
  by (simp add: q_data_upd_def)

lemma q_data_q_data_upd_other: "qj \<noteq> qi \<Longrightarrow> q_data (q_data_upd qi g ctx) qj = q_data ctx qj"
  by (simp add: q_data_upd_def)

lemma component_q_data_upd: "component (q_data_upd qi g ctx) = component ctx"
  by (simp add: q_data_upd_def)

lemma vidioc_s_selection_decode_compose:
  assumes "role (dev ctx) = DECODE" and "sel_type s = V4L2_BUF_TYPE_VIDEO_CAPTURE"
      and "sel_target s = V4L2_SEL_TGT_COMPOSE"
  shows "vidioc_s_selection vpu ctx s =
     (if component ctx = None then Some (0, s_selection_accept s V4L2_M2M_DST ctx)
      else do {
        ctx' \<leftarrow> setup_port V4L2_M2M_DST OUTPUT0 (snd (s_selection_accept s V4L2_M2M_DST ctx));
        (ret, ctx') \<leftarrow> vchiq_mmal_port_set_format vpu OUTPUT0 ctx';
        Some (if ret \<noteq> 0 then - EINVAL else 0, fst (s_selection_accept s V4L2_M2M_DST ctx), ctx')
      })"
  using assms by (simp add: vidioc_s_selection_def split: prod.splits)

text \<open>C9: a set-selection call on the compose target of the decoder's capture
  queue returns; the rectangle it hands back is at the origin, its width is the
  smaller of the requested width and the crop width, its height is the smaller of
  the requested height and the height of the buffer (\<^verbatim>\<open>q_data->height\<close>, not the
  crop height); both are stored as the crop of the destination queue data, and
  \<^verbatim>\<open>selection_set\<close> is set.  The call returns 0, or \<^verbatim>\<open>-EINVAL\<close> when the service
  refuses the port format.\<close>

theorem vidioc_s_selection_decode_compose_clips:
  assumes r: "role (dev ctx) = DECODE"
      and t: "sel_type s = V4L2_BUF_TYPE_VIDEO_CAPTURE"
      and g: "sel_target s = V4L2_SEL_TGT_COMPOSE"
      and ok: "component ctx = None \<or>
               (\<exists>fd. fmt (q_data ctx V4L2_M2M_DST) = Some fd \<and>
                  (flags fd AND V4L2_FMT_FLAG_COMPRESSED \<noteq> 0 \<or>
                   mmal_fmt fd = MMAL_ENCODING_YUVUV128 \<or> depth fd \<noteq> 0))"
  shows "\<exists>ret s' ctx'. vidioc_s_selection vpu ctx s = Some (ret, s', ctx') \<and>
           (ret = 0 \<or> ret = - EINVAL) \<and>
           r_left s' = 0 \<and> r_top s' = 0 \<and>
           r_width s' = min (r_width s) (crop_width (q_data ctx V4L2_M2M_DST)) \<and>
           r_height s' = min (r_height s) (height (q_data ctx V4L2_M2M_DST)) \<and>
           crop_width (q_data ctx' V4L2_M2M_DST) = r_width s' \<and>
           crop_height (q_data ctx' V4L2_M2M_DST) = r_height s' \<and>
           selection_set (q_data ctx' V4L2_M2M_DST)"
proof (cases "component ctx = None")
  case True
  with vidioc_s_selection_decode_compose [OF r t g, of vpu]
  have "vidioc_s_selection vpu ctx s = Some (0, s_selection_accept s V4L2_M2M_DST ctx)"
    by simp
  then show ?thesis
    by (simp add: s_selection_accept_eq q_data_q_data_upd)
next
  case False
  let ?a = "s_selection_accept s V4L2_M2M_DST ctx"
  from False ok obtain fd where fd: "fmt (q_data ctx V4L2_M2M_DST) = Some fd"
    and d: "flags fd AND V4L2_FMT_FLAG_COMPRESSED \<noteq> 0 \<or>
            mmal_fmt fd = MMAL_ENCODING_YUVUV128 \<or> depth fd \<noteq> 0"
    by auto
  have c1: "component (snd ?a) \<noteq> None"
    using False by (simp add: s_selection_accept_eq component_q_data_upd)
  have f1: "fmt (q_data (snd ?a) V4L2_M2M_DST) = Some fd"
    using fd by (simp add: s_selection_accept_eq q_data_q_data_upd)
  from setup_port_returns [OF c1 f1 d]
  obtain c2 where c2: "setup_port V4L2_M2M_DST OUTPUT0 (snd ?a) = Some c2" by blast
  from setup_port_frame [OF c2]
  have q2: "q_data c2 = q_data (snd ?a)" and n2: "component c2 \<noteq> None" by simp_all
  from vchiq_mmal_port_set_format_returns [OF n2]
  obtain ret c3 where c3: "vchiq_mmal_port_set_format vpu OUTPUT0 c2 = Some (ret, c3)" by blast
  from vchiq_mmal_port_set_format_frame [OF c3]
  have q3: "q_data c3 = q_data c2" by simp
  have "vidioc_s_selection vpu ctx s =
          do {
            ctx' \<leftarrow> setup_port V4L2_M2M_DST OUTPUT0 (snd ?a);
            (ret, ctx') \<leftarrow> vchiq_mmal_port_set_format vpu OUTPUT0 ctx';
            Some (if ret \<noteq> 0 then - EINVAL else 0, fst ?a, ctx')
          }"
    by (subst vidioc_s_selection_decode_compose [OF r t g]) (simp only: False if_False)
  then have e: "vidioc_s_selection vpu ctx s =
             Some (if ret \<noteq> 0 then - EINVAL else 0, fst ?a, c3)"
    by (simp add: c2 c3)
  have q: "q_data c3 V4L2_M2M_DST = q_data (snd ?a) V4L2_M2M_DST"
    by (simp add: q3 q2)
  show ?thesis
    unfolding e by (simp add: q) (simp add: s_selection_accept_eq q_data_q_data_upd)
qed

lemma example_cropped_session_facts:
  "role (dev example_cropped_session) = DECODE"
  "component example_cropped_session = None"
  "crop_width (q_data example_cropped_session V4L2_M2M_DST) = 100"
  "crop_height (q_data example_cropped_session V4L2_M2M_DST) = 100"
  "height (q_data example_cropped_session V4L2_M2M_DST) = 112"
  by (simp_all add: example_cropped_session_def q_data_upd_def example_session_def
        example_decoder_def bcm2835_codec_create_def)

theorem vidioc_s_selection_decode_compose_clips_witness:
  "\<exists>ret s' ctx'.
      vidioc_s_selection example_service example_cropped_session
        (example_selection\<lparr>r_width := 200, r_height := 200\<rparr>) = Some (ret, s', ctx') \<and>
      r_width s' = 100 \<and> r_height s' = 112 \<and>
      crop_width (q_data ctx' V4L2_M2M_DST) = 100 \<and>
      crop_height (q_data ctx' V4L2_M2M_DST) = 112 \<and>
      selection_set (q_data ctx' V4L2_M2M_DST)"
  using vidioc_s_selection_decode_compose_clips
    [of example_cropped_session "example_selection\<lparr>r_width := 200, r_height := 200\<rparr>"
        example_service]
  by (simp add: example_cropped_session_facts example_selection_def) fastforce

text \<open>The height is not clipped to the crop height: on the session whose crop is
  100x100 in a buffer of 112 lines, the request for 100x112 is accepted as it is,
  and the crop height becomes 112.\<close>

theorem vidioc_s_selection_height_exceeds_crop_height:
  "\<exists>s' ctx'.
      vidioc_s_selection example_service example_cropped_session example_selection =
        Some (0, s', ctx') \<and>
      crop_height (q_data example_cropped_session V4L2_M2M_DST) = 100 \<and>
      r_height s' = 112 \<and>
      r_height s' \<noteq> min (r_height example_selection)
                        (crop_height (q_data example_cropped_session V4L2_M2M_DST)) \<and>
      crop_height (q_data ctx' V4L2_M2M_DST) = 112"
proof -
  have "vidioc_s_selection example_service example_cropped_session example_selection =
          Some (0, s_selection_accept example_selection V4L2_M2M_DST example_cropped_session)"
    by (simp add: vidioc_s_selection_decode_compose example_cropped_session_facts
          example_selection_def)
  then show ?thesis
    by (simp add: s_selection_accept_eq q_data_q_data_upd example_cropped_session_facts
          example_selection_def)
qed

subsection \<open>The format-changed event and set-format\<close>

lemma q_data_upd_frame:
  "component (q_data_upd qi g ctx) = component ctx"
  "dev (q_data_upd qi g ctx) = dev ctx"
  "m2m_ctx (q_data_upd qi g ctx) = m2m_ctx ctx"
  "mmal_calls (q_data_upd qi g ctx) = mmal_calls ctx"
  by (simp_all add: q_data_upd_def)

lemma color_mmal2v4l_frame:
  "q_data (color_mmal2v4l ctx e c) = q_data ctx"
  "component (color_mmal2v4l ctx e c) = component ctx"
  "dev (color_mmal2v4l ctx e c) = dev ctx"
  "m2m_ctx (color_mmal2v4l ctx e c) = m2m_ctx ctx"
  by (simp_all add: color_mmal2v4l_def Let_def)

lemma mmal_call_made_frame:
  "q_data (mmal_call_made c ctx) = q_data ctx"
  "component (mmal_call_made c ctx) = component ctx"
  "dev (mmal_call_made c ctx) = dev ctx"
  "m2m_ctx (mmal_call_made c ctx) = m2m_ctx ctx"
  by (simp_all add: mmal_call_made_def)

lemma set_mmal_port_frame:
  "q_data (set_mmal_port p v ctx) = q_data ctx"
  "dev (set_mmal_port p v ctx) = dev ctx"
  "m2m_ctx (set_mmal_port p v ctx) = m2m_ctx ctx"
  by (simp_all add: set_mmal_port_def)

lemma handle_fmt_changed_not_video:
  "fc_format_type ev \<noteq> MMAL_ES_TYPE_VIDEO \<Longrightarrow> handle_fmt_changed vpu ctx ev = Some ctx"
  by (simp add: handle_fmt_changed_def)

lemma handle_fmt_changed_video:
  assumes v: "fc_format_type ev = MMAL_ES_TYPE_VIDEO"
      and fd: "fmt (q_data ctx V4L2_M2M_DST) = Some fd"
      and c: "component ctx \<noteq> None"
  shows "\<exists>ctx'. handle_fmt_changed vpu ctx ev = Some ctx' \<and>
           crop_width (q_data ctx' V4L2_M2M_DST) = fc_es_video_crop_width ev \<and>
           crop_height (q_data ctx' V4L2_M2M_DST) = fc_es_video_crop_height ev \<and>
           selection_set (q_data ctx' V4L2_M2M_DST) \<and>
           bytesperline (q_data ctx' V4L2_M2M_DST) =
             get_bytesperline (fc_es_video_width ev) (fc_es_video_height ev) fd (role (dev ctx)) \<and>
           height (q_data ctx' V4L2_M2M_DST) = fc_es_video_height ev \<and>
           sizeimage (q_data ctx' V4L2_M2M_DST) = fc_buffer_size_min ev \<and>
           fmt (q_data ctx' V4L2_M2M_DST) = Some fd \<and>
           q_data ctx' V4L2_M2M_SRC = q_data ctx V4L2_M2M_SRC \<and>
           dev ctx' = dev ctx \<and> component ctx' = component ctx \<and>
           num_buffers (cap_q (m2m_ctx ctx')) = num_buffers (cap_q (m2m_ctx ctx))"
proof -
  from c obtain k where k: "component ctx = Some k" by auto
  show ?thesis
    using v fd k
    by (simp add: handle_fmt_changed_def Let_def q_data_q_data_upd q_data_q_data_upd_other
          q_data_upd_frame color_mmal2v4l_frame mmal_call_made_frame mmal_port_def)
qed

lemma vchiq_mmal_port_disable_frame:
  assumes "vchiq_mmal_port_disable vpu p ctx = Some (ret, ctx')"
  shows "q_data ctx' = q_data ctx \<and> component ctx' \<noteq> None \<and> dev ctx' = dev ctx"
  using assms
  by (auto simp: vchiq_mmal_port_disable_def mmal_port_def set_mmal_port_def
        mmal_call_made_def split: bind_splits)

lemma vchiq_mmal_port_enable_frame:
  assumes "vchiq_mmal_port_enable vpu p cb ctx = Some (ret, ctx')"
  shows "q_data ctx' = q_data ctx \<and> component ctx' \<noteq> None \<and> dev ctx' = dev ctx"
  using assms
  by (auto simp: vchiq_mmal_port_enable_def mmal_port_def set_mmal_port_def
        mmal_call_made_def split: bind_splits)

lemma vchiq_mmal_port_disable_returns:
  assumes "component ctx \<noteq> None"
  shows "\<exists>ret ctx'. vchiq_mmal_port_disable vpu p ctx = Some (ret, ctx')"
  using assms by (auto simp: vchiq_mmal_port_disable_def mmal_port_def)

lemma vchiq_mmal_port_enable_returns:
  assumes "component ctx \<noteq> None"
  shows "\<exists>ret ctx'. vchiq_mmal_port_enable vpu p cb ctx = Some (ret, ctx')"
  using assms by (auto simp: vchiq_mmal_port_enable_def mmal_port_def)

lemma mmal_port_returns:
  "component ctx \<noteq> None \<Longrightarrow> \<exists>v. mmal_port ctx p = Some v"
  by (auto simp: mmal_port_def)

lemma s_fmt_replicate_raw:
  assumes "fmt (q_data ctx qi) = Some fd" and "flags fd AND V4L2_FMT_FLAG_COMPRESSED = 0"
  shows "s_fmt_replicate ctx f qi = Some (False, ctx)"
  using assms by (simp add: s_fmt_replicate_def)

lemma s_fmt_port_no_component:
  "component ctx = None \<Longrightarrow> s_fmt_port vpu ctx t qi u = Some (0, ctx)"
  by (simp add: s_fmt_port_def get_port_data_def)

lemma s_fmt_port_frame:
  assumes "s_fmt_port vpu ctx t qi u = Some (ret, ctx')"
  shows "q_data ctx' = q_data ctx"
  using assms
  by (auto simp: s_fmt_port_def set_mmal_port_frame split: option.splits bind_splits if_splits
        dest!: vchiq_mmal_port_disable_frame vchiq_mmal_port_enable_frame
          vchiq_mmal_port_set_format_frame setup_port_frame)

lemma s_fmt_port_returns:
  assumes c: "component ctx \<noteq> None"
      and fd: "fmt (q_data ctx qi) = Some fd"
      and ok: "flags fd AND V4L2_FMT_FLAG_COMPRESSED \<noteq> 0 \<or>
               mmal_fmt fd = MMAL_ENCODING_YUVUV128 \<or> depth fd \<noteq> 0"
  shows "\<exists>ret ctx'. s_fmt_port vpu ctx t qi False = Some (ret, ctx')"
proof (cases "get_port_data ctx t")
  case None
  then show ?thesis by (simp add: s_fmt_port_def)
next
  case (Some p)
  from mmal_port_returns [OF c] obtain v where v: "mmal_port ctx p = Some v" by blast
  show ?thesis
  proof (cases "enabled v")
    case True
    from vchiq_mmal_port_disable_returns [OF c]
    obtain r1 c1 where d: "vchiq_mmal_port_disable vpu p ctx = Some (r1, c1)" by blast
    from vchiq_mmal_port_disable_frame [OF d]
    have q1: "q_data c1 = q_data ctx" and n1: "component c1 \<noteq> None" by simp_all
    from mmal_port_returns [OF n1] obtain v1 where v1: "mmal_port c1 p = Some v1" by blast
    let ?cx = "set_mmal_port p (v1\<lparr>current_buffer_num := current_buffer_num v\<rparr>) c1"
    have nx: "component ?cx \<noteq> None"
      using n1 by (simp add: component_set_mmal_port)
    have fx: "fmt (q_data ?cx qi) = Some fd"
      using fd by (simp add: set_mmal_port_frame q1)
    from setup_port_returns [OF nx fx ok]
    obtain c2 where s: "setup_port qi p ?cx = Some c2" by blast
    from setup_port_frame [OF s] have n2: "component c2 \<noteq> None" by simp
    from vchiq_mmal_port_set_format_returns [OF n2]
    obtain r3 c3 where f: "vchiq_mmal_port_set_format vpu p c2 = Some (r3, c3)" by blast
    from vchiq_mmal_port_set_format_frame [OF f] have n3: "component c3 \<noteq> None" by simp
    from vchiq_mmal_port_enable_returns [OF n3]
    obtain r4 c4 where e: "vchiq_mmal_port_enable vpu p op_buffer_cb c3 = Some (r4, c4)" by blast
    show ?thesis
      by (simp add: s_fmt_port_def Some v True d v1 s f e)
  next
    case False
    from setup_port_returns [OF c fd ok]
    obtain c2 where s: "setup_port qi p ctx = Some c2" by blast
    from setup_port_frame [OF s] have n2: "component c2 \<noteq> None" by simp
    from vchiq_mmal_port_set_format_returns [OF n2]
    obtain r3 c3 where f: "vchiq_mmal_port_set_format vpu p c2 = Some (r3, c3)" by blast
    show ?thesis
      by (simp add: s_fmt_port_def Some v False s f)
  qed
qed

lemma vidioc_s_fmt_capture_raw:
  assumes t: "f_type f = V4L2_BUF_TYPE_VIDEO_CAPTURE_MPLANE"
      and nb: "\<not> vb2_is_busy (cap_q (m2m_ctx ctx))"
      and ss: "selection_set (q_data ctx V4L2_M2M_DST)"
      and ff: "find_format f (dev ctx) True = Some fd"
      and raw: "flags fd AND V4L2_FMT_FLAG_COMPRESSED = 0"
  shows "\<exists>C. vidioc_s_fmt vpu ctx f rh =
               s_fmt_port vpu C V4L2_BUF_TYPE_VIDEO_CAPTURE_MPLANE V4L2_M2M_DST False \<and>
             crop_height (q_data C V4L2_M2M_DST) = crop_height (q_data ctx V4L2_M2M_DST) \<and>
             fmt (q_data C V4L2_M2M_DST) = Some fd \<and>
             component C = component ctx"
proof -
  let ?c1 = "q_data_upd V4L2_M2M_DST
               (\<lambda>q. q\<lparr>fmt := Some fd, crop_width := pix_width f, height := pix_height f\<rparr>) ctx"
  let ?c2 = "?c1\<lparr>colorspace := pix_colorspace f, xfer_func := ucast (pix_xfer_func f),
                   ycbcr_enc := ucast (pix_ycbcr_enc f), quant := ucast (pix_quantization f)\<rparr>"
  let ?C = "q_data_upd V4L2_M2M_DST
              (\<lambda>q. q\<lparr>field := pix_field f, bytesperline := plane_bytesperline f,
                      sizeimage := plane_sizeimage f\<rparr>) ?c2"
  have fC: "fmt (q_data ?C V4L2_M2M_DST) = Some fd"
    by (simp add: q_data_upd_def)
  have r: "s_fmt_replicate ?C f V4L2_M2M_DST = Some (False, ?C)"
    using fC raw by (rule s_fmt_replicate_raw)
  have "vidioc_s_fmt vpu ctx f rh =
          s_fmt_port vpu ?C V4L2_BUF_TYPE_VIDEO_CAPTURE_MPLANE V4L2_M2M_DST False"
    using nb ss raw
    by (simp add: vidioc_s_fmt_def t v4l2_m2m_get_vq_def get_q_data_def V4L2_TYPE_IS_OUTPUT_def
          ff q_data_q_data_upd Let_def r)
  moreover have "crop_height (q_data ?C V4L2_M2M_DST) = crop_height (q_data ctx V4L2_M2M_DST)"
    by (simp add: q_data_upd_def)
  moreover have "component ?C = component ctx"
    by (simp add: q_data_upd_def)
  ultimately show ?thesis using fC by blast
qed

text \<open>C3: \<^verbatim>\<open>handle_fmt_changed\<close> leaves the session as it is when the event is not
  about a video format.  For a video event (the destination queue has a format and
  the component exists) it returns and has set, in the destination queue data, the
  crop width and height to the event's crop, \<^verbatim>\<open>selection_set\<close>, the stride to
  \<^verbatim>\<open>get_bytesperline\<close> of the event's width and height, the height to the event's
  height and the buffer size to the event's minimum buffer size.  A
  \<^verbatim>\<open>vidioc_s_fmt\<close> on the capture queue with a raw format, while \<^verbatim>\<open>selection_set\<close>
  is true, returns and leaves the crop height as it was; after the handler that is
  the crop height of the event.\<close>

theorem handle_fmt_changed_crop_survives_s_fmt:
  "(fc_format_type ev \<noteq> MMAL_ES_TYPE_VIDEO \<longrightarrow> handle_fmt_changed vpu ctx ev = Some ctx) \<and>
   (fc_format_type ev = MMAL_ES_TYPE_VIDEO \<and> fmt (q_data ctx V4L2_M2M_DST) = Some fd \<and>
    component ctx \<noteq> None \<longrightarrow>
      (\<exists>ctx'. handle_fmt_changed vpu ctx ev = Some ctx' \<and>
         crop_width (q_data ctx' V4L2_M2M_DST) = fc_es_video_crop_width ev \<and>
         crop_height (q_data ctx' V4L2_M2M_DST) = fc_es_video_crop_height ev \<and>
         selection_set (q_data ctx' V4L2_M2M_DST) \<and>
         bytesperline (q_data ctx' V4L2_M2M_DST) =
           get_bytesperline (fc_es_video_width ev) (fc_es_video_height ev) fd (role (dev ctx)) \<and>
         height (q_data ctx' V4L2_M2M_DST) = fc_es_video_height ev \<and>
         sizeimage (q_data ctx' V4L2_M2M_DST) = fc_buffer_size_min ev)) \<and>
   (f_type f = V4L2_BUF_TYPE_VIDEO_CAPTURE_MPLANE \<and> \<not> vb2_is_busy (cap_q (m2m_ctx ctx)) \<and>
    selection_set (q_data ctx V4L2_M2M_DST) \<and>
    find_format f (dev ctx) True = Some fd' \<and> flags fd' AND V4L2_FMT_FLAG_COMPRESSED = 0 \<and>
    (component ctx = None \<or> mmal_fmt fd' = MMAL_ENCODING_YUVUV128 \<or> depth fd' \<noteq> 0) \<longrightarrow>
      (\<exists>ret ctx'. vidioc_s_fmt vpu ctx f rh = Some (ret, ctx') \<and>
         crop_height (q_data ctx' V4L2_M2M_DST) = crop_height (q_data ctx V4L2_M2M_DST))) \<and>
   (fc_format_type ev = MMAL_ES_TYPE_VIDEO \<and> fmt (q_data ctx V4L2_M2M_DST) = Some fd \<and>
    component ctx \<noteq> None \<and>
    f_type f = V4L2_BUF_TYPE_VIDEO_CAPTURE_MPLANE \<and> \<not> vb2_is_busy (cap_q (m2m_ctx ctx)) \<and>
    find_format f (dev ctx) True = Some fd' \<and> flags fd' AND V4L2_FMT_FLAG_COMPRESSED = 0 \<and>
    (mmal_fmt fd' = MMAL_ENCODING_YUVUV128 \<or> depth fd' \<noteq> 0) \<longrightarrow>
      (\<exists>ctx1 ret ctx2. handle_fmt_changed vpu ctx ev = Some ctx1 \<and>
         vidioc_s_fmt vpu ctx1 f rh = Some (ret, ctx2) \<and>
         crop_height (q_data ctx2 V4L2_M2M_DST) = fc_es_video_crop_height ev))"
proof -
  have s_fmt: "\<exists>ret ctx'. vidioc_s_fmt vpu c f rh = Some (ret, ctx') \<and>
         crop_height (q_data ctx' V4L2_M2M_DST) = crop_height (q_data c V4L2_M2M_DST)"
    if t: "f_type f = V4L2_BUF_TYPE_VIDEO_CAPTURE_MPLANE"
      and nb: "\<not> vb2_is_busy (cap_q (m2m_ctx c))"
      and ss: "selection_set (q_data c V4L2_M2M_DST)"
      and ff: "find_format f (dev c) True = Some fd'"
      and raw: "flags fd' AND V4L2_FMT_FLAG_COMPRESSED = 0"
      and ok: "component c = None \<or> mmal_fmt fd' = MMAL_ENCODING_YUVUV128 \<or> depth fd' \<noteq> 0"
    for c
  proof -
    from vidioc_s_fmt_capture_raw [OF t nb ss ff raw, of vpu rh]
    obtain C where e: "vidioc_s_fmt vpu c f rh =
               s_fmt_port vpu C V4L2_BUF_TYPE_VIDEO_CAPTURE_MPLANE V4L2_M2M_DST False"
      and h: "crop_height (q_data C V4L2_M2M_DST) = crop_height (q_data c V4L2_M2M_DST)"
      and fC: "fmt (q_data C V4L2_M2M_DST) = Some fd'"
      and cC: "component C = component c"
      by blast
    have "\<exists>ret ctx'. s_fmt_port vpu C V4L2_BUF_TYPE_VIDEO_CAPTURE_MPLANE V4L2_M2M_DST False =
            Some (ret, ctx')"
    proof (cases "component c = None")
      case True
      then show ?thesis using cC by (simp add: s_fmt_port_no_component)
    next
      case False
      with ok have ok': "flags fd' AND V4L2_FMT_FLAG_COMPRESSED \<noteq> 0 \<or>
               mmal_fmt fd' = MMAL_ENCODING_YUVUV128 \<or> depth fd' \<noteq> 0" by simp
      from False cC have "component C \<noteq> None" by simp
      from s_fmt_port_returns [OF this fC ok'] show ?thesis .
    qed
    then obtain ret ctx' where r: "s_fmt_port vpu C V4L2_BUF_TYPE_VIDEO_CAPTURE_MPLANE
        V4L2_M2M_DST False = Some (ret, ctx')" by blast
    from s_fmt_port_frame [OF r] have "q_data ctx' = q_data C" .
    with e r h show ?thesis by simp
  qed
  have chain: "\<exists>ctx1 ret ctx2. handle_fmt_changed vpu ctx ev = Some ctx1 \<and>
         vidioc_s_fmt vpu ctx1 f rh = Some (ret, ctx2) \<and>
         crop_height (q_data ctx2 V4L2_M2M_DST) = fc_es_video_crop_height ev"
    if v: "fc_format_type ev = MMAL_ES_TYPE_VIDEO"
      and fd: "fmt (q_data ctx V4L2_M2M_DST) = Some fd"
      and c: "component ctx \<noteq> None"
      and t: "f_type f = V4L2_BUF_TYPE_VIDEO_CAPTURE_MPLANE"
      and nb: "\<not> vb2_is_busy (cap_q (m2m_ctx ctx))"
      and ff: "find_format f (dev ctx) True = Some fd'"
      and raw: "flags fd' AND V4L2_FMT_FLAG_COMPRESSED = 0"
      and ok: "mmal_fmt fd' = MMAL_ENCODING_YUVUV128 \<or> depth fd' \<noteq> 0"
  proof -
    from handle_fmt_changed_video [OF v fd c, of vpu]
    obtain ctx1 where h: "handle_fmt_changed vpu ctx ev = Some ctx1"
      and ch: "crop_height (q_data ctx1 V4L2_M2M_DST) = fc_es_video_crop_height ev"
      and ss: "selection_set (q_data ctx1 V4L2_M2M_DST)"
      and d: "dev ctx1 = dev ctx"
      and n: "num_buffers (cap_q (m2m_ctx ctx1)) = num_buffers (cap_q (m2m_ctx ctx))"
      by blast
    from nb n have nb1: "\<not> vb2_is_busy (cap_q (m2m_ctx ctx1))"
      by (simp add: vb2_is_busy_def)
    from ff d have ff1: "find_format f (dev ctx1) True = Some fd'" by simp
    from ok have ok1: "component ctx1 = None \<or> mmal_fmt fd' = MMAL_ENCODING_YUVUV128 \<or>
        depth fd' \<noteq> 0" by simp
    from s_fmt [OF t nb1 ss ff1 raw ok1] h ch show ?thesis by auto
  qed
  show ?thesis
  proof (intro conjI impI)
    assume "fc_format_type ev \<noteq> MMAL_ES_TYPE_VIDEO"
    then show "handle_fmt_changed vpu ctx ev = Some ctx"
      by (rule handle_fmt_changed_not_video)
  next
    assume a: "fc_format_type ev = MMAL_ES_TYPE_VIDEO \<and>
      fmt (q_data ctx V4L2_M2M_DST) = Some fd \<and> component ctx \<noteq> None"
    from a have v: "fc_format_type ev = MMAL_ES_TYPE_VIDEO"
      and fd: "fmt (q_data ctx V4L2_M2M_DST) = Some fd" and c: "component ctx \<noteq> None"
      by simp_all
    from handle_fmt_changed_video [OF v fd c, of vpu]
    show "\<exists>ctx'. handle_fmt_changed vpu ctx ev = Some ctx' \<and>
         crop_width (q_data ctx' V4L2_M2M_DST) = fc_es_video_crop_width ev \<and>
         crop_height (q_data ctx' V4L2_M2M_DST) = fc_es_video_crop_height ev \<and>
         selection_set (q_data ctx' V4L2_M2M_DST) \<and>
         bytesperline (q_data ctx' V4L2_M2M_DST) =
           get_bytesperline (fc_es_video_width ev) (fc_es_video_height ev) fd (role (dev ctx)) \<and>
         height (q_data ctx' V4L2_M2M_DST) = fc_es_video_height ev \<and>
         sizeimage (q_data ctx' V4L2_M2M_DST) = fc_buffer_size_min ev"
      by blast
  next
    assume a: "f_type f = V4L2_BUF_TYPE_VIDEO_CAPTURE_MPLANE \<and>
      \<not> vb2_is_busy (cap_q (m2m_ctx ctx)) \<and>
      selection_set (q_data ctx V4L2_M2M_DST) \<and>
      find_format f (dev ctx) True = Some fd' \<and> flags fd' AND V4L2_FMT_FLAG_COMPRESSED = 0 \<and>
      (component ctx = None \<or> mmal_fmt fd' = MMAL_ENCODING_YUVUV128 \<or> depth fd' \<noteq> 0)"
    show "\<exists>ret ctx'. vidioc_s_fmt vpu ctx f rh = Some (ret, ctx') \<and>
         crop_height (q_data ctx' V4L2_M2M_DST) = crop_height (q_data ctx V4L2_M2M_DST)"
      by (rule s_fmt) (use a in simp_all)
  next
    assume a: "fc_format_type ev = MMAL_ES_TYPE_VIDEO \<and>
      fmt (q_data ctx V4L2_M2M_DST) = Some fd \<and> component ctx \<noteq> None \<and>
      f_type f = V4L2_BUF_TYPE_VIDEO_CAPTURE_MPLANE \<and> \<not> vb2_is_busy (cap_q (m2m_ctx ctx)) \<and>
      find_format f (dev ctx) True = Some fd' \<and> flags fd' AND V4L2_FMT_FLAG_COMPRESSED = 0 \<and>
      (mmal_fmt fd' = MMAL_ENCODING_YUVUV128 \<or> depth fd' \<noteq> 0)"
    show "\<exists>ctx1 ret ctx2. handle_fmt_changed vpu ctx ev = Some ctx1 \<and>
         vidioc_s_fmt vpu ctx1 f rh = Some (ret, ctx2) \<and>
         crop_height (q_data ctx2 V4L2_M2M_DST) = fc_es_video_crop_height ev"
      by (rule chain) (use a in simp_all)
  qed
qed

lemma example_find_format:
  "find_format example_request (dev example_session) True = Some (supported_formats ! 0)"
  by (simp add: find_format_def find_format_pix_fmt_def example_decoder_lists
        example_fourccs example_request_def)

lemma example_component_session_facts:
  "fmt (q_data example_component_session V4L2_M2M_DST) = Some (supported_formats ! 0)"
  "component example_component_session \<noteq> None"
  "\<not> vb2_is_busy (cap_q (m2m_ctx example_component_session))"
  "dev example_component_session = dev example_session"
  by (simp_all add: example_component_session_def example_session_def example_q_data_def
        vb2_is_busy_def)

lemma example_event_facts:
  "fc_format_type example_event = MMAL_ES_TYPE_VIDEO"
  "fc_es_video_width example_event = 1920"
  "fc_es_video_height example_event = 1088"
  "fc_es_video_crop_width example_event = 1920"
  "fc_es_video_crop_height example_event = 1080"
  "fc_buffer_size_min example_event = 3133440"
  by (simp_all add: example_event_def)

lemma example_yuv420_stride:
  "get_bytesperline 1920 1088 (supported_formats ! 0) DECODE = 1920"
  by (simp add: get_bytesperline_def example_yuv420 fourcc_distinct ALIGN_def)

theorem handle_fmt_changed_crop_survives_s_fmt_witness:
  "(\<exists>ctx'. handle_fmt_changed example_service example_component_session example_event = Some ctx' \<and>
      crop_width (q_data ctx' V4L2_M2M_DST) = 1920 \<and>
      crop_height (q_data ctx' V4L2_M2M_DST) = 1080 \<and>
      selection_set (q_data ctx' V4L2_M2M_DST) \<and>
      bytesperline (q_data ctx' V4L2_M2M_DST) = 1920 \<and>
      height (q_data ctx' V4L2_M2M_DST) = 1088 \<and>
      sizeimage (q_data ctx' V4L2_M2M_DST) = 3133440) \<and>
   (\<exists>ctx1 ret ctx2.
      handle_fmt_changed example_service example_component_session example_event = Some ctx1 \<and>
      vidioc_s_fmt example_service ctx1 example_request 100 = Some (ret, ctx2) \<and>
      crop_height (q_data ctx2 V4L2_M2M_DST) = 1080) \<and>
   handle_fmt_changed example_service example_component_session
     (example_event\<lparr>fc_format_type := 0\<rparr>) = Some example_component_session"
proof -
  have t: "f_type example_request = V4L2_BUF_TYPE_VIDEO_CAPTURE_MPLANE"
    by (simp add: example_request_def)
  have ff: "find_format example_request (dev example_component_session) True =
              Some (supported_formats ! 0)"
    by (simp add: example_component_session_facts example_find_format)
  have raw: "flags (supported_formats ! 0) AND V4L2_FMT_FLAG_COMPRESSED = 0"
    "depth (supported_formats ! 0) \<noteq> 0"
    by (simp_all add: example_yuv420)
  have r: "role (dev example_component_session) = DECODE"
    by (simp add: example_component_session_facts example_session_dev)
  have nv: "fc_format_type (example_event\<lparr>fc_format_type := 0\<rparr>) \<noteq> MMAL_ES_TYPE_VIDEO"
    by (simp add: MMAL_ES_TYPE_VIDEO_def)
  from handle_fmt_changed_crop_survives_s_fmt
         [where ev = example_event and vpu = example_service
            and ctx = example_component_session and fd = "supported_formats ! 0"
            and f = example_request and fd' = "supported_formats ! 0" and rh = 100]
       handle_fmt_changed_crop_survives_s_fmt
         [where ev = "example_event\<lparr>fc_format_type := 0\<rparr>" and vpu = example_service
            and ctx = example_component_session and fd = "supported_formats ! 0"
            and f = example_request and fd' = "supported_formats ! 0" and rh = 100]
       t ff raw r nv
  show ?thesis
    by (simp add: example_component_session_facts example_event_facts example_yuv420_stride)
qed

subsection \<open>Start of streaming\<close>





lemma mmal_port_component_enabled:
  "mmal_port (ctx\<lparr>component_enabled := b\<rparr>) q = mmal_port ctx q"
  by (simp add: mmal_port_def)













lemma get_port_data_component:
  "component c1 = component ctx \<Longrightarrow> get_port_data c1 t = get_port_data ctx t"
  by (simp add: get_port_data_def)

lemma mmal_port_component:
  "component c1 = component ctx \<Longrightarrow> mmal_port c1 p = mmal_port ctx p"
  by (simp add: mmal_port_def)










end
